theory Spec2Isabelle
  imports Complex_Main
begin

section \<open>Data model of the simulation (src/components/Game.tsx, types in src/App.tsx)\<close>

text \<open>
  JavaScript numbers are modelled as real numbers: arithmetic is exact, and the two
  places where the source can produce NaN (a shockwave with \<open>maxLife = 0\<close>, a spawn-curve
  read outside the array) are written out with \<open>option\<close>, \<open>None\<close> standing for NaN.
  Every field carries a prefix that names its interface (\<open>p_\<close> Player, \<open>e_\<close> Enemy,
  \<open>pt_\<close> Particle, \<open>pu_\<close> Pulse, \<open>sw_\<close> Shockwave, \<open>sh_\<close> the shake cell), because the
  interfaces share the field names \<open>x\<close>, \<open>y\<close>, \<open>vx\<close>, \<open>life\<close>, \<open>id\<close>, ...
\<close>

text \<open>
  The module \<open>../constants\<close> is imported by Game.tsx but is not among the sources; the
  four numbers Game.tsx reads from it are parameters of every operation.
\<close>

record constants =
  GAME_WIDTH :: real
  GAME_HEIGHT :: real
  MAX_FUEL :: real
  AIR_RESISTANCE :: real

datatype GameState = START | PLAYING | GAMEOVER

datatype color = YELLOW | WHITE | ORANGE | HOT_PINK

datatype cue = CueJump | CueShockwave | CuePulse | CueKill | CueDeadjump

record GameConfig =
  gravity :: real
  recoilForce :: real
  fuelRegen :: real
  fuelConsumption :: real
  enemySpawnRate :: real
  bounceElasticity :: real
  difficultyScale :: real
  deadZoneThreshold :: real
  superJumpMultiplier :: real
  spawnCurve :: "real list"
  deadJumpEnabled :: bool
  burningEnabled :: bool
  burningRadius :: real
  burningDuration :: real
  playerSize :: real
  audioEnabled :: bool
  sfxVolume :: real

record Player =
  p_x :: real
  p_y :: real
  p_width :: real
  p_height :: real
  p_vx :: real
  p_vy :: real
  p_fuel :: real
  p_maxFuel :: real
  p_flashTimer :: real

record Enemy =
  e_x :: real
  e_y :: real
  e_radius :: real
  e_speed :: real
  e_id :: nat
  e_isDead :: bool

record Particle =
  pt_x :: real
  pt_y :: real
  pt_vx :: real
  pt_vy :: real
  pt_life :: real
  pt_maxLife :: real
  pt_color :: color

record Pulse =
  pu_x :: real
  pu_y :: real
  pu_width :: real
  pu_life :: real
  pu_maxLife :: real
  pu_isSuper :: bool

record Shockwave =
  sw_x :: real
  sw_y :: real
  sw_radius :: "real option"
  sw_maxRadius :: real
  sw_life :: real
  sw_maxLife :: real
  sw_id :: nat

record Shake =
  sh_x :: real
  sh_y :: real
  sh_intensity :: real

text \<open>
  The component's mutable cells (\<open>useRef\<close>) and its React state (\<open>gameState\<close>, \<open>score\<close>) in
  one record. \<open>cues\<close> is the log of the calls of \<open>playSound\<close> that pass its audio gate.
\<close>

record state =
  gameState :: GameState
  score :: int
  elapsedTime :: real
  invincibilityFrames :: real
  player :: Player
  enemies :: "Enemy list"
  particles :: "Particle list"
  pulses :: "Pulse list"
  shockwaves :: "Shockwave list"
  shake :: Shake
  enemyIdCounter :: nat
  shockwaveIdCounter :: nat
  cues :: "cue list"

section \<open>Operations\<close>

text \<open>
  \<open>playSound\<close>: returns at once when audio is off or the volume is not positive. What
  follows in the source (a wall-clock throttle per cue type, then the synthesis) lives in
  the audio backend; the model records the cue that reaches it.
\<close>

definition playSound :: "GameConfig \<Rightarrow> cue \<Rightarrow> state \<Rightarrow> state" where
  "playSound c q s =
     (if \<not> audioEnabled c \<or> sfxVolume c \<le> 0 then s else s\<lparr>cues := cues s @ [q]\<rparr>)"

definition newPlayer :: "constants \<Rightarrow> GameConfig \<Rightarrow> Player" where
  "newPlayer K c =
     \<lparr>p_x = GAME_WIDTH K / 2 - playerSize c / 2,
      p_y = GAME_HEIGHT K / 2 - 100,
      p_width = playerSize c,
      p_height = playerSize c,
      p_vx = 0,
      p_vy = 0,
      p_fuel = MAX_FUEL K,
      p_maxFuel = MAX_FUEL K,
      p_flashTimer = 0\<rparr>"

text \<open>The state the component is mounted with: \<open>useState(GameState.START)\<close> and the initial refs.\<close>

definition initialState :: "constants \<Rightarrow> GameConfig \<Rightarrow> state" where
  "initialState K c =
     \<lparr>gameState = START, score = 0, elapsedTime = 0, invincibilityFrames = 0,
      player = newPlayer K c, enemies = [], particles = [], pulses = [], shockwaves = [],
      shake = \<lparr>sh_x = 0, sh_y = 0, sh_intensity = 0\<rparr>,
      enemyIdCounter = 0, shockwaveIdCounter = 0, cues = []\<rparr>"

definition resetGame :: "constants \<Rightarrow> GameConfig \<Rightarrow> state \<Rightarrow> state" where
  "resetGame K c s =
     (let s1 = s\<lparr>player := newPlayer K c,
                 enemies := [], particles := [], pulses := [], shockwaves := [],
                 shake := \<lparr>sh_x = 0, sh_y = 0, sh_intensity = 0\<rparr>,
                 elapsedTime := 0, invincibilityFrames := 0,
                 score := 0, gameState := PLAYING\<rparr>
      in if audioEnabled c then playSound c CuePulse s1 else s1)"

definition triggerShockwave :: "GameConfig \<Rightarrow> real \<Rightarrow> real \<Rightarrow> real \<Rightarrow> state \<Rightarrow> state" where
  "triggerShockwave c x y radiusScale s =
     (if \<not> burningEnabled c then s
      else playSound c CueShockwave
             (s\<lparr>shockwaves := shockwaves s @
                    [\<lparr>sw_x = x, sw_y = y, sw_radius = Some 0,
                      sw_maxRadius = burningRadius c * radiusScale,
                      sw_life = burningDuration c, sw_maxLife = burningDuration c,
                      sw_id = shockwaveIdCounter s\<rparr>],
                 shockwaveIdCounter := Suc (shockwaveIdCounter s)\<rparr>))"

subsection \<open>executeJump\<close>

text \<open>
  \<open>Math.random()\<close> is an input: \<open>executeJump\<close> reads the sequence \<open>rs\<close> from index 0 on,
  in the order of the calls (two draws for each kill particle, then three for each jump
  particle).
\<close>

definition killParticles :: "(nat \<Rightarrow> real) \<Rightarrow> nat \<Rightarrow> bool \<Rightarrow> Enemy \<Rightarrow> Particle list" where
  "killParticles rs k isSuper e =
     map (\<lambda>i. \<lparr>pt_x = e_x e, pt_y = e_y e,
               pt_vx = (rs (k + 2 * i) - 0.5) * 12,
               pt_vy = (rs (k + 2 * i + 1) - 0.5) * 12,
               pt_life = 25, pt_maxLife = 25,
               pt_color = (if isSuper then YELLOW else WHITE)\<rparr>)
         [0 ..< (if isSuper then 20 else 12)]"

definition withinRayX :: "real \<Rightarrow> real \<Rightarrow> Enemy \<Rightarrow> bool" where
  "withinRayX px pulseWidth e \<longleftrightarrow>
     e_x e + e_radius e > px - pulseWidth / 2 \<and> e_x e - e_radius e < px + pulseWidth / 2"

definition isAffected :: "bool \<Rightarrow> real \<Rightarrow> Enemy \<Rightarrow> bool" where
  "isAffected isSuper py e \<longleftrightarrow> (if isSuper then e_y e < py else e_y e > py)"

text \<open>
  The \<open>forEach\<close> over the enemies in \<open>executeJump\<close>: the enemy list is rebuilt element by
  element, the rest of the state and the position in the random sequence are threaded.
\<close>

fun pulsePass ::
  "GameConfig \<Rightarrow> (nat \<Rightarrow> real) \<Rightarrow> real \<Rightarrow> real \<Rightarrow> real \<Rightarrow> bool \<Rightarrow>
     Enemy list \<Rightarrow> state \<times> nat \<Rightarrow> Enemy list \<times> state \<times> nat" where
  "pulsePass c rs px py pulseWidth isSuper [] (s, k) = ([], s, k)"
| "pulsePass c rs px py pulseWidth isSuper (e # es) (s, k) =
     (if withinRayX px pulseWidth e \<and> isAffected isSuper py e \<and> \<not> e_isDead e then
        let s1 = s\<lparr>player := (player s)\<lparr>p_fuel := p_maxFuel (player s), p_flashTimer := 10\<rparr>\<rparr>;
            s2 = triggerShockwave c px py 1 s1;
            s3 = playSound c CueKill s2;
            s4 = s3\<lparr>particles := particles s3 @ killParticles rs k isSuper e\<rparr>;
            (es', s', k') = pulsePass c rs px py pulseWidth isSuper es
                              (s4, k + 2 * (if isSuper then 20 else 12))
        in (e\<lparr>e_isDead := True\<rparr> # es', s', k')
      else
        let (es', s', k') = pulsePass c rs px py pulseWidth isSuper es (s, k)
        in (e # es', s', k'))"

text \<open>
  \<open>Math.atan2\<close>. At the origin and on the negative x axis JavaScript picks \<open>pi\<close> or \<open>-pi\<close>
  by the sign of a zero; the two angles have the same sine and cosine, and \<open>executeJump\<close>
  takes only the sine and cosine.
\<close>

definition atan2 :: "real \<Rightarrow> real \<Rightarrow> real" where
  "atan2 b a =
     (if a > 0 then arctan (b / a)
      else if a < 0 then (if b < 0 then arctan (b / a) - pi else arctan (b / a) + pi)
      else if b > 0 then pi / 2
      else if b < 0 then - (pi / 2)
      else - pi)"

definition jumpParticles ::
  "(nat \<Rightarrow> real) \<Rightarrow> nat \<Rightarrow> bool \<Rightarrow> real \<Rightarrow> real \<Rightarrow> real \<Rightarrow> real \<Rightarrow> Particle list" where
  "jumpParticles rs k isSuper px py ux uy =
     map (\<lambda>i. let pAngle = atan2 (- uy) (- ux) + (rs (k + 3 * i) - 0.5) * 1.5;
                  pSpeed = (if isSuper then 5 else 2) + rs (k + 3 * i + 1) * 8
              in \<lparr>pt_x = px, pt_y = py,
                  pt_vx = cos pAngle * pSpeed,
                  pt_vy = sin pAngle * pSpeed,
                  pt_life = 20 + rs (k + 3 * i + 2) * 20,
                  pt_maxLife = 40,
                  pt_color = (if isSuper then ORANGE else HOT_PINK)\<rparr>)
         [0 ..< (if isSuper then 40 else 20)]"

definition centerX :: "Player \<Rightarrow> real" where
  "centerX p = p_x p + p_width p / 2"

definition centerY :: "Player \<Rightarrow> real" where
  "centerY p = p_y p + p_height p / 2"

definition inDeadZone :: "constants \<Rightarrow> GameConfig \<Rightarrow> Player \<Rightarrow> bool" where
  "inDeadZone K c p \<longleftrightarrow>
     deadJumpEnabled c \<and> p_y p + p_height p > GAME_HEIGHT K * (1 - deadZoneThreshold c)"

definition pulseWidthOf :: "Player \<Rightarrow> bool \<Rightarrow> real" where
  "pulseWidthOf p isSuper = p_width p + (if isSuper then 30 else 10)"

text \<open>
  \<open>Math.sqrt(dx * dx + dy * dy) || 1\<close>: the divisor of the direction vector. The operator
  \<open>||\<close> gives its right operand when the left one is 0 (the square root of a real is never
  NaN), so a target on the player's center is divided by 1.
\<close>

definition jumpDistance :: "real \<Rightarrow> real \<Rightarrow> real" where
  "jumpDistance dx dy =
     (if sqrt (dx * dx + dy * dy) = 0 then 1 else sqrt (dx * dx + dy * dy))"

definition executeJump ::
  "constants \<Rightarrow> GameConfig \<Rightarrow> (nat \<Rightarrow> real) \<Rightarrow> real \<Rightarrow> real \<Rightarrow> state \<Rightarrow> state" where
  "executeJump K c rs mouseX mouseY s =
     (if p_fuel (player s) < fuelConsumption c then
        playSound c CuePulse (s\<lparr>shake := (shake s)\<lparr>sh_intensity := 5\<rparr>\<rparr>)
      else
        let px = centerX (player s);
            py = centerY (player s);
            dx = mouseX - px;
            dy = mouseY - py;
            dist = jumpDistance dx dy;
            ux = dx / dist;
            uy = dy / dist;
            isSuper = inDeadZone K c (player s);
            force = (if isSuper then recoilForce c * superJumpMultiplier c else recoilForce c);
            s1 = (if isSuper then
                    playSound c CueDeadjump
                      (s\<lparr>invincibilityFrames := 15, shake := (shake s)\<lparr>sh_intensity := 30\<rparr>\<rparr>)
                  else playSound c CueJump s);
            s2 = s1\<lparr>player := (player s1)\<lparr>p_vx := - ux * force, p_vy := - uy * force,
                                            p_fuel := p_fuel (player s1) - fuelConsumption c\<rparr>\<rparr>;
            pulseWidth = pulseWidthOf (player s) isSuper;
            s3 = s2\<lparr>pulses := pulses s2 @
                       [\<lparr>pu_x = px - pulseWidth / 2, pu_y = py, pu_width = pulseWidth,
                         pu_life = (if isSuper then 15 else 8),
                         pu_maxLife = (if isSuper then 15 else 8),
                         pu_isSuper = isSuper\<rparr>]\<rparr>;
            (es', s4, k) = pulsePass c rs px py pulseWidth isSuper (enemies s3) (s3, 0);
            s5 = s4\<lparr>enemies := es'\<rparr>;
            s6 = (if \<not> isSuper then s5\<lparr>shake := (shake s5)\<lparr>sh_intensity := 15\<rparr>\<rparr> else s5)
        in s6\<lparr>particles := particles s6 @ jumpParticles rs k isSuper px py ux uy\<rparr>)"

subsection \<open>update\<close>

text \<open>
  One call of \<open>update\<close> is one tick, with \<open>dt = 1.0\<close>. Each \<open>Math.random()\<close> call site of
  \<open>update\<close> runs at most once in a tick, so the draws of a tick are a record with one field
  for each call site, in the order of the source.
\<close>

abbreviation (input) dt :: real where
  "dt \<equiv> 1"

record TickRandom =
  r_shakeX :: real
  r_shakeY :: real
  r_spawn :: real
  r_spawnX :: real
  r_radius :: real
  r_speed :: real

definition integratePlayer :: "constants \<Rightarrow> GameConfig \<Rightarrow> Player \<Rightarrow> Player" where
  "integratePlayer K c p =
     (let p1 = p\<lparr>p_vy := p_vy p + gravity c * dt\<rparr>;
          p2 = p1\<lparr>p_x := p_x p1 + p_vx p1 * dt\<rparr>;
          p3 = p2\<lparr>p_y := p_y p2 + p_vy p2 * dt\<rparr>;
          p4 = p3\<lparr>p_vx := p_vx p3 * AIR_RESISTANCE K\<rparr>
      in if p_flashTimer p4 > 0 then p4\<lparr>p_flashTimer := p_flashTimer p4 - dt\<rparr> else p4)"

definition bounce :: "GameConfig \<Rightarrow> real \<Rightarrow> state \<Rightarrow> state" where
  "bounce c wallX s =
     (let v = - p_vx (player s) * bounceElasticity c
      in s\<lparr>player := (player s)\<lparr>p_x := wallX, p_vx := v\<rparr>,
           shake := (shake s)\<lparr>sh_intensity := \<bar>v\<bar> * 0.5\<rparr>\<rparr>)"

definition wallLeft :: "GameConfig \<Rightarrow> state \<Rightarrow> state" where
  "wallLeft c s = (if p_x (player s) < 0 then bounce c 0 s else s)"

definition wallRight :: "constants \<Rightarrow> GameConfig \<Rightarrow> state \<Rightarrow> state" where
  "wallRight K c s =
     (if p_x (player s) > GAME_WIDTH K - p_width (player s)
      then bounce c (GAME_WIDTH K - p_width (player s)) s else s)"

definition regenFuel :: "GameConfig \<Rightarrow> Player \<Rightarrow> Player" where
  "regenFuel c p =
     (if p_fuel p < p_maxFuel p
      then p\<lparr>p_fuel := min (p_maxFuel p) (p_fuel p + fuelRegen c * dt)\<rparr> else p)"

definition fallCheck :: "constants \<Rightarrow> GameConfig \<Rightarrow> state \<Rightarrow> state" where
  "fallCheck K c s =
     (if p_y (player s) > GAME_HEIGHT K
      then playSound c CueShockwave
             (s\<lparr>gameState := GAMEOVER, shake := (shake s)\<lparr>sh_intensity := 25\<rparr>\<rparr>)
      else s)"

definition shakeStep :: "TickRandom \<Rightarrow> Shake \<Rightarrow> Shake" where
  "shakeStep r sh =
     (if sh_intensity sh > 0
      then \<lparr>sh_x = (r_shakeX r - 0.5) * sh_intensity sh,
            sh_y = (r_shakeY r - 0.5) * sh_intensity sh,
            sh_intensity = sh_intensity sh * 0.9\<rparr>
      else sh)"

definition stepParticles :: "GameConfig \<Rightarrow> Particle list \<Rightarrow> Particle list" where
  "stepParticles c ps =
     filter (\<lambda>p. pt_life p > 0)
       (map (\<lambda>p. let p1 = p\<lparr>pt_x := pt_x p + pt_vx p * dt\<rparr>;
                     p2 = p1\<lparr>pt_y := pt_y p1 + pt_vy p1 * dt\<rparr>;
                     p3 = p2\<lparr>pt_vy := pt_vy p2 + gravity c * 0.3 * dt\<rparr>
                 in p3\<lparr>pt_life := pt_life p3 - 1 * dt\<rparr>) ps)"

definition stepPulses :: "Pulse list \<Rightarrow> Pulse list" where
  "stepPulses qs =
     filter (\<lambda>q. pu_life q > 0) (map (\<lambda>q. q\<lparr>pu_life := pu_life q - 1 * dt\<rparr>) qs)"

text \<open>
  The head of the shockwave loop body. \<open>sw.life / sw.maxLife\<close> with \<open>maxLife = 0\<close> is
  infinite or NaN in JavaScript, its sine is NaN, and so is the radius: \<open>None\<close>.
\<close>

definition advanceShockwave :: "real \<Rightarrow> real \<Rightarrow> Shockwave \<Rightarrow> Shockwave" where
  "advanceShockwave pcx pcy sw =
     (let life' = sw_life sw - dt;
          progress = 1 - life' / sw_maxLife sw;
          easedProgress = sin (progress * pi)
      in sw\<lparr>sw_x := pcx, sw_y := pcy, sw_life := life',
            sw_radius := (if sw_maxLife sw = 0 then None
                          else Some (easedProgress * sw_maxRadius sw))\<rparr>)"

definition distance :: "real \<Rightarrow> real \<Rightarrow> real" where
  "distance dx dy = sqrt (dx * dx + dy * dy)"

text \<open>A comparison with NaN is false.\<close>

definition reaches :: "Shockwave \<Rightarrow> Enemy \<Rightarrow> bool" where
  "reaches sw e \<longleftrightarrow>
     (case sw_radius sw of
        None \<Rightarrow> False
      | Some r \<Rightarrow> distance (e_x e - sw_x sw) (e_y e - sw_y sw) < r + e_radius e)"

text \<open>The inner \<open>forEach\<close> over the enemies, for one shockwave.\<close>

fun shockwaveHits ::
  "GameConfig \<Rightarrow> real \<Rightarrow> real \<Rightarrow> Shockwave \<Rightarrow> Enemy list \<Rightarrow> state \<Rightarrow> Enemy list \<times> state" where
  "shockwaveHits c pcx pcy sw [] s = ([], s)"
| "shockwaveHits c pcx pcy sw (e # es) s =
     (if \<not> e_isDead e \<and> reaches sw e then
        let s1 = playSound c CueKill (triggerShockwave c pcx pcy 0.8 s);
            (es', s') = shockwaveHits c pcx pcy sw es s1
        in (e\<lparr>e_isDead := True\<rparr> # es', s')
      else
        let (es', s') = shockwaveHits c pcx pcy sw es s
        in (e # es', s'))"

text \<open>
  The outer \<open>forEach\<close>. It visits the shockwaves that are in the array when it starts:
  those \<open>triggerShockwave\<close> pushes meanwhile are appended to \<open>shockwaves s\<close> and not visited.
  The visited ones are returned updated.
\<close>

fun shockwavePass ::
  "GameConfig \<Rightarrow> real \<Rightarrow> real \<Rightarrow> Shockwave list \<Rightarrow> state \<Rightarrow> Shockwave list \<times> state" where
  "shockwavePass c pcx pcy [] s = ([], s)"
| "shockwavePass c pcx pcy (sw # sws) s =
     (let sw' = advanceShockwave pcx pcy sw;
          (es', s1) = shockwaveHits c pcx pcy sw' (enemies s) s;
          (sws', s2) = shockwavePass c pcx pcy sws (s1\<lparr>enemies := es'\<rparr>)
      in (sw' # sws', s2))"

definition shockwaveStep :: "GameConfig \<Rightarrow> real \<Rightarrow> real \<Rightarrow> state \<Rightarrow> state" where
  "shockwaveStep c pcx pcy s =
     (let (visited, s1) = shockwavePass c pcx pcy (shockwaves s) s;
          pushed = drop (length (shockwaves s)) (shockwaves s1)
      in s1\<lparr>shockwaves := filter (\<lambda>sw. sw_life sw > 0) (visited @ pushed)\<rparr>)"

text \<open>
  The spawn director. \<open>jsRem\<close> is JavaScript's \<open>%\<close> (the remainder takes the sign of the
  dividend); \<open>nthOpt\<close> is an array read, \<open>undefined\<close> outside the array, which makes the
  interpolated value NaN and the spawn test false.
\<close>

definition jsRem :: "real \<Rightarrow> real \<Rightarrow> real" where
  "jsRem a b = a - b * of_int (if a / b < 0 then \<lceil>a / b\<rceil> else \<lfloor>a / b\<rfloor>)"

definition nthOpt :: "'a list \<Rightarrow> int \<Rightarrow> 'a option" where
  "nthOpt xs i = (if 0 \<le> i \<and> i < int (length xs) then Some (xs ! nat i) else None)"

definition waveFactor :: "real \<Rightarrow> real" where
  "waveFactor seconds = 1.0 + 0.6 * sin (seconds * 0.8)"

definition curveValue :: "GameConfig \<Rightarrow> real \<Rightarrow> real option" where
  "curveValue c seconds =
     (let cycleDuration = 120;
          t = jsRem seconds cycleDuration / cycleDuration;
          points = spawnCurve c;
          n = int (length points) - 1;
          idx = \<lfloor>t * of_int n\<rfloor>;
          nxtIdx = min (idx + 1) n;
          localT = jsRem (t * of_int n) 1
      in case (nthOpt points idx, nthOpt points nxtIdx) of
           (Some a, Some b) \<Rightarrow> Some (a * (1 - localT) + b * localT)
         | _ \<Rightarrow> None)"

definition finalSpawnRate :: "GameConfig \<Rightarrow> real \<Rightarrow> real option" where
  "finalSpawnRate c seconds =
     map_option (\<lambda>v. (enemySpawnRate c + v * 0.1 * difficultyScale c) * waveFactor seconds)
       (curveValue c seconds)"

definition finalSpeed :: "GameConfig \<Rightarrow> real \<Rightarrow> real" where
  "finalSpeed c seconds = min (1.5 + seconds * 0.05 * difficultyScale c) 8"

definition spawnX :: "constants \<Rightarrow> real \<Rightarrow> real \<Rightarrow> real" where
  "spawnX K u playerCenterX =
     (let x0 = u * (GAME_WIDTH K - 40) + 20
      in if \<bar>x0 - playerCenterX\<bar> < 60
         then (if x0 < playerCenterX then max 20 (x0 - 60) else min (GAME_WIDTH K - 20) (x0 + 60))
         else x0)"

definition spawnedEnemy :: "constants \<Rightarrow> GameConfig \<Rightarrow> TickRandom \<Rightarrow> real \<Rightarrow> state \<Rightarrow> Enemy" where
  "spawnedEnemy K c r playerCenterX s =
     \<lparr>e_x = spawnX K (r_spawnX r) playerCenterX,
      e_y = - 30,
      e_radius = 10 + r_radius r * 12,
      e_speed = finalSpeed c (elapsedTime s / 60) + r_speed r * 1.0,
      e_id = enemyIdCounter s,
      e_isDead = False\<rparr>"

definition spawns :: "GameConfig \<Rightarrow> TickRandom \<Rightarrow> state \<Rightarrow> bool" where
  "spawns c r s \<longleftrightarrow>
     (case finalSpawnRate c (elapsedTime s / 60) of
        None \<Rightarrow> False
      | Some rate \<Rightarrow> r_spawn r < rate * dt)"

definition spawnStep :: "constants \<Rightarrow> GameConfig \<Rightarrow> TickRandom \<Rightarrow> real \<Rightarrow> state \<Rightarrow> state" where
  "spawnStep K c r playerCenterX s =
     (if spawns c r s
      then s\<lparr>enemies := enemies s @ [spawnedEnemy K c r playerCenterX s],
             enemyIdCounter := Suc (enemyIdCounter s)\<rparr>
      else s)"

definition moveEnemy :: "Enemy \<Rightarrow> Enemy" where
  "moveEnemy e = e\<lparr>e_y := e_y e + e_speed e * dt\<rparr>"

text \<open>The lethal-contact test of the last \<open>forEach\<close>, on an enemy that has moved.\<close>

definition contact :: "real \<Rightarrow> real \<Rightarrow> state \<Rightarrow> Enemy \<Rightarrow> bool" where
  "contact pcx pcy s e \<longleftrightarrow>
     invincibilityFrames s \<le> 0 \<and>
     distance (e_x e - pcx) (e_y e - pcy) < e_radius e + p_width (player s) / 2 - 2"

fun enemyPass :: "GameConfig \<Rightarrow> real \<Rightarrow> real \<Rightarrow> Enemy list \<Rightarrow> state \<Rightarrow> Enemy list \<times> state" where
  "enemyPass c pcx pcy [] s = ([], s)"
| "enemyPass c pcx pcy (e # es) s =
     (let e' = moveEnemy e;
          s1 = (if contact pcx pcy s e'
                then playSound c CueShockwave (s\<lparr>gameState := GAMEOVER\<rparr>) else s);
          (es', s2) = enemyPass c pcx pcy es s1
      in (e' # es', s2))"

definition enemyStep :: "constants \<Rightarrow> GameConfig \<Rightarrow> real \<Rightarrow> real \<Rightarrow> state \<Rightarrow> state" where
  "enemyStep K c pcx pcy s =
     (let (es', s1) = enemyPass c pcx pcy (enemies s) s
      in s1\<lparr>enemies := filter (\<lambda>e. \<not> e_isDead e \<and> e_y e < GAME_HEIGHT K + 50) es'\<rparr>)"

text \<open>
  The tick, up to and including the shockwave loop (\<open>beforeSpawn\<close>), and whole (\<open>update\<close>).
  \<open>update\<close> reads \<open>gameState\<close> once, at its head; \<open>setGameState\<close> takes effect for the
  next call, so the rest of the tick runs after a transition to \<open>GAMEOVER\<close>.
  \<open>playerCenterX\<close> and \<open>playerCenterY\<close> are taken before the player moves.
\<close>

definition beforeSpawn :: "constants \<Rightarrow> GameConfig \<Rightarrow> TickRandom \<Rightarrow> state \<Rightarrow> state" where
  "beforeSpawn K c r s =
     (let s0 = s\<lparr>elapsedTime := elapsedTime s + dt\<rparr>;
          s1 = s0\<lparr>score := \<lfloor>elapsedTime s0 / 60\<rfloor> * 10\<rparr>;
          s2 = (if invincibilityFrames s1 > 0
                then s1\<lparr>invincibilityFrames := invincibilityFrames s1 - dt\<rparr> else s1);
          playerCenterX = centerX (player s2);
          playerCenterY = centerY (player s2);
          s3 = s2\<lparr>player := integratePlayer K c (player s2)\<rparr>;
          s4 = wallRight K c (wallLeft c s3);
          s5 = s4\<lparr>player := regenFuel c (player s4)\<rparr>;
          s6 = fallCheck K c s5;
          s7 = s6\<lparr>shake := shakeStep r (shake s6)\<rparr>;
          s8 = s7\<lparr>particles := stepParticles c (particles s7)\<rparr>;
          s9 = s8\<lparr>pulses := stepPulses (pulses s8)\<rparr>
      in shockwaveStep c playerCenterX playerCenterY s9)"

definition update :: "constants \<Rightarrow> GameConfig \<Rightarrow> TickRandom \<Rightarrow> state \<Rightarrow> state" where
  "update K c r s =
     (if gameState s \<noteq> PLAYING then s\<lparr>elapsedTime := elapsedTime s + dt\<rparr>
      else
        let playerCenterX = centerX (player s);
            playerCenterY = centerY (player s);
            s10 = beforeSpawn K c r s;
            s11 = spawnStep K c r playerCenterX s10
        in enemyStep K c playerCenterX playerCenterY s11)"

subsection \<open>handleGlobalInteraction\<close>

record DOMRect =
  rect_left :: real
  rect_top :: real
  rect_width :: real
  rect_height :: real

definition rect_right :: "DOMRect \<Rightarrow> real" where
  "rect_right b = rect_left b + rect_width b"

definition rect_bottom :: "DOMRect \<Rightarrow> real" where
  "rect_bottom b = rect_top b + rect_height b"

text \<open>
  A \<open>mousedown\<close> or a \<open>touchstart\<close> with its client coordinates (those of \<open>touches[0]\<close> for a
  touch), and what the handler reads from its surroundings: the \<open>isMouseOver\<close> prop and the
  canvas rectangle.
\<close>

datatype pointer = Mouse real real | Touch real real

record interaction =
  pointerEvent :: pointer
  isMouseOver :: bool
  rect :: DOMRect

fun isTouch :: "pointer \<Rightarrow> bool" where
  "isTouch (Touch _ _) = True"
| "isTouch (Mouse _ _) = False"

fun clientX :: "pointer \<Rightarrow> real" where
  "clientX (Touch a _) = a"
| "clientX (Mouse a _) = a"

fun clientY :: "pointer \<Rightarrow> real" where
  "clientY (Touch _ b) = b"
| "clientY (Mouse _ b) = b"

text \<open>
  The result is \<open>None\<close> where the source divides by a zero \<open>rect.width\<close> or \<open>rect.height\<close>:
  the jump target is then infinite or NaN, outside this model.
\<close>

definition handleGlobalInteraction ::
  "constants \<Rightarrow> GameConfig \<Rightarrow> (nat \<Rightarrow> real) \<Rightarrow> interaction \<Rightarrow> state \<Rightarrow> state option" where
  "handleGlobalInteraction K c rs i s =
     (let e = pointerEvent i; b = rect i in
      if \<not> isMouseOver i \<and> \<not> isTouch e then Some s
      else if gameState s \<noteq> PLAYING then
        (if gameState s = START \<or> gameState s = GAMEOVER then Some (resetGame K c s) else Some s)
      else if isTouch e \<and> (clientX e < rect_left b \<or> clientX e > rect_right b \<or>
                             clientY e < rect_top b \<or> clientY e > rect_bottom b) then Some s
      else if rect_width b = 0 \<or> rect_height b = 0 then None
      else
        let mx = (clientX e - rect_left b) * (GAME_WIDTH K / rect_width b);
            my = (clientY e - rect_top b) * (GAME_HEIGHT K / rect_height b)
        in Some (executeJump K c rs mx my s))"

text \<open>The effect that follows a change of \<open>config.playerSize\<close>.\<close>

definition syncPlayerSize :: "GameConfig \<Rightarrow> state \<Rightarrow> state" where
  "syncPlayerSize c s = s\<lparr>player := (player s)\<lparr>p_width := playerSize c, p_height := playerSize c\<rparr>\<rparr>"

subsection \<open>Reachable states\<close>

text \<open>
  \<open>Math.random()\<close> returns a number in \<open>[0, 1)\<close>. The states of a session whose
  configuration stays in the set \<open>C\<close>: the mounted state, then ticks, interactions and
  player-size changes in any order.
\<close>

definition unitDraws :: "TickRandom \<Rightarrow> bool" where
  "unitDraws r \<longleftrightarrow>
     0 \<le> r_shakeX r \<and> r_shakeX r < 1 \<and> 0 \<le> r_shakeY r \<and> r_shakeY r < 1 \<and>
     0 \<le> r_spawn r \<and> r_spawn r < 1 \<and> 0 \<le> r_spawnX r \<and> r_spawnX r < 1 \<and>
     0 \<le> r_radius r \<and> r_radius r < 1 \<and> 0 \<le> r_speed r \<and> r_speed r < 1"

definition unitStream :: "(nat \<Rightarrow> real) \<Rightarrow> bool" where
  "unitStream rs \<longleftrightarrow> (\<forall>n. 0 \<le> rs n \<and> rs n < 1)"

inductive reach :: "constants \<Rightarrow> GameConfig set \<Rightarrow> state \<Rightarrow> bool" for K C where
  reach_init: "c \<in> C \<Longrightarrow> reach K C (initialState K c)"
| reach_tick: "reach K C s \<Longrightarrow> c \<in> C \<Longrightarrow> unitDraws r \<Longrightarrow> reach K C (update K c r s)"
| reach_interaction:
    "reach K C s \<Longrightarrow> c \<in> C \<Longrightarrow> unitStream rs \<Longrightarrow>
     handleGlobalInteraction K c rs i s = Some s' \<Longrightarrow> reach K C s'"
| reach_resize: "reach K C s \<Longrightarrow> c \<in> C \<Longrightarrow> reach K C (syncPlayerSize c s)"

section \<open>Predicates and sample inputs used in the statements\<close>

definition pulseHit :: "real \<Rightarrow> real \<Rightarrow> real \<Rightarrow> bool \<Rightarrow> Enemy \<Rightarrow> bool" where
  "pulseHit px py pulseWidth isSuper e \<longleftrightarrow>
     withinRayX px pulseWidth e \<and> isAffected isSuper py e \<and> \<not> e_isDead e"

definition jumpHits :: "constants \<Rightarrow> GameConfig \<Rightarrow> state \<Rightarrow> Enemy \<Rightarrow> bool" where
  "jumpHits K c s e \<longleftrightarrow>
     pulseHit (centerX (player s)) (centerY (player s))
       (pulseWidthOf (player s) (inDeadZone K c (player s))) (inDeadZone K c (player s)) e"

definition sampleConstants :: constants where
  "sampleConstants = \<lparr>GAME_WIDTH = 400, GAME_HEIGHT = 600, MAX_FUEL = 100, AIR_RESISTANCE = 0.98\<rparr>"

definition defaultConfig :: GameConfig where
  "defaultConfig =
     \<lparr>gravity = 0.16, recoilForce = 6, fuelRegen = 0.1, fuelConsumption = 12,
      enemySpawnRate = 0.01, bounceElasticity = 1.2, difficultyScale = 0.5,
      deadZoneThreshold = 0.15, superJumpMultiplier = 3,
      spawnCurve = [0.1, 0.1785714285714286, 0.29761904761904767, 0.4, 0.47619047619047616],
      deadJumpEnabled = False, burningEnabled = True, burningRadius = 80, burningDuration = 44,
      playerSize = 20, audioEnabled = True, sfxVolume = 0.04\<rparr>"

definition zeroDraws :: "nat \<Rightarrow> real" where
  "zeroDraws n = 0"

definition freshGame :: state where
  "freshGame = resetGame sampleConstants defaultConfig (initialState sampleConstants defaultConfig)"

definition enemyBelow :: Enemy where
  "enemyBelow = \<lparr>e_x = 200, e_y = 400, e_radius = 10, e_speed = 2, e_id = 0, e_isDead = False\<rparr>"

definition enemyAbove :: Enemy where
  "enemyAbove = \<lparr>e_x = 200, e_y = 100, e_radius = 10, e_speed = 2, e_id = 1, e_isDead = False\<rparr>"

definition lowFuelGame :: state where
  "lowFuelGame = freshGame\<lparr>player := (player freshGame)\<lparr>p_fuel := 5\<rparr>\<rparr>"

definition gameWithEnemyBelow :: state where
  "gameWithEnemyBelow = freshGame\<lparr>enemies := [enemyBelow]\<rparr>"

definition gameWithTwoEnemies :: state where
  "gameWithTwoEnemies = freshGame\<lparr>enemies := [enemyBelow, enemyAbove]\<rparr>"

definition killCount :: "constants \<Rightarrow> GameConfig \<Rightarrow> state \<Rightarrow> nat" where
  "killCount K c s = length (filter (jumpHits K c s) (enemies s))"

definition newShockwave :: "GameConfig \<Rightarrow> real \<Rightarrow> real \<Rightarrow> real \<Rightarrow> nat \<Rightarrow> Shockwave" where
  "newShockwave c pcx pcy radiusScale n =
     \<lparr>sw_x = pcx, sw_y = pcy, sw_radius = Some 0, sw_maxRadius = burningRadius c * radiusScale,
      sw_life = burningDuration c, sw_maxLife = burningDuration c, sw_id = n\<rparr>"

definition swHit :: "Shockwave list \<Rightarrow> Enemy \<Rightarrow> bool" where
  "swHit sws e \<longleftrightarrow> \<not> e_isDead e \<and> (\<exists>sw \<in> set sws. reaches sw e)"

definition swKills :: "Shockwave list \<Rightarrow> Enemy list \<Rightarrow> nat" where
  "swKills sws es = length (filter (swHit sws) es)"

definition fuelInv :: "state \<Rightarrow> bool" where
  "fuelInv s \<longleftrightarrow> 0 \<le> p_fuel (player s) \<and> p_fuel (player s) \<le> p_maxFuel (player s)"

definition zeroTick :: TickRandom where
  "zeroTick = \<lparr>r_shakeX = 0, r_shakeY = 0, r_spawn = 0, r_spawnX = 0, r_radius = 0, r_speed = 0\<rparr>"

definition mouseAt :: "real \<Rightarrow> real \<Rightarrow> interaction" where
  "mouseAt a b =
     \<lparr>pointerEvent = Mouse a b, isMouseOver = True,
      rect = \<lparr>rect_left = 0, rect_top = 0, rect_width = 400, rect_height = 600\<rparr>\<rparr>"

text \<open>A run of ticks, each with the configuration and the random draws of its frame.\<close>

fun ticks :: "constants \<Rightarrow> (GameConfig \<times> TickRandom) list \<Rightarrow> state \<Rightarrow> state" where
  "ticks K [] s = s"
| "ticks K ((c, r) # crs) s = ticks K crs (update K c r s)"

definition scoreInv :: "state \<Rightarrow> bool" where
  "scoreInv s \<longleftrightarrow> (gameState s = PLAYING \<longrightarrow> score s = \<lfloor>elapsedTime s / 60\<rfloor> * 10)"

definition calmConfig :: GameConfig where
  "calmConfig = defaultConfig\<lparr>gravity := 0, enemySpawnRate := 0, difficultyScale := 0\<rparr>"

definition calmTicks :: "nat \<Rightarrow> (GameConfig \<times> TickRandom) list" where
  "calmTicks n = replicate n (calmConfig, zeroTick)"

definition gameOverAt20 :: state where
  "gameOverAt20 = freshGame\<lparr>gameState := GAMEOVER, score := 20\<rparr>"

definition calm :: "state \<Rightarrow> bool" where
  "calm s \<longleftrightarrow>
     gameState s = PLAYING \<and> enemies s = [] \<and> shockwaves s = [] \<and>
     p_vy (player s) = 0 \<and> p_y (player s) = 200"

definition fallingGame :: state where
  "fallingGame = freshGame\<lparr>player := (player freshGame)\<lparr>p_y := 600\<rparr>\<rparr>"

definition nearLeftWall :: state where
  "nearLeftWall = freshGame\<lparr>player := (player freshGame)\<lparr>p_x := 20\<rparr>\<rparr>"

definition wallDraws :: TickRandom where
  "wallDraws = \<lparr>r_shakeX = 0, r_shakeY = 0, r_spawn = 0, r_spawnX = 1 / 72, r_radius = 0, r_speed = 0\<rparr>"

definition scenarioConfig :: "constants \<Rightarrow> GameConfig" where
  "scenarioConfig K =
     defaultConfig\<lparr>gravity := 0, recoilForce := GAME_HEIGHT K / 2 - 23, fuelConsumption := 0,
                   difficultyScale := 0, burningDuration := 2, playerSize := 100\<rparr>"

definition drawsA :: TickRandom where
  "drawsA = \<lparr>r_shakeX = 0, r_shakeY = 0, r_spawn = 0, r_spawnX = 1 / 2, r_radius = 0, r_speed = 1 / 2\<rparr>"

definition drawsB :: TickRandom where
  "drawsB = \<lparr>r_shakeX = 0, r_shakeY = 0, r_spawn = 0, r_spawnX = 1 / 2, r_radius = 1 / 2, r_speed = 1 / 2\<rparr>"

definition drawsNone :: TickRandom where
  "drawsNone = \<lparr>r_shakeX = 0, r_shakeY = 0, r_spawn = 1 / 2, r_spawnX = 0, r_radius = 0, r_speed = 0\<rparr>"

definition clickMid :: "constants \<Rightarrow> interaction" where
  "clickMid K =
     \<lparr>pointerEvent = Mouse (GAME_WIDTH K / 2) (GAME_HEIGHT K / 2), isMouseOver = True,
      rect = \<lparr>rect_left = 0, rect_top = 0, rect_width = GAME_WIDTH K, rect_height = GAME_HEIGHT K\<rparr>\<rparr>"

definition scStart :: "constants \<Rightarrow> state" where
  "scStart K = resetGame K (scenarioConfig K) (initialState K (scenarioConfig K))"

definition scTickA :: "constants \<Rightarrow> state" where
  "scTickA K = update K (scenarioConfig K) drawsA (scStart K)"

definition scJump1 :: "constants \<Rightarrow> state" where
  "scJump1 K =
     executeJump K (scenarioConfig K) zeroDraws (GAME_WIDTH K / 2) (GAME_HEIGHT K / 2) (scTickA K)"

definition scTickB :: "constants \<Rightarrow> state" where
  "scTickB K = update K (scenarioConfig K) drawsB (scJump1 K)"

definition scJump2 :: "constants \<Rightarrow> state" where
  "scJump2 K =
     executeJump K (scenarioConfig K) zeroDraws (GAME_WIDTH K / 2) (GAME_HEIGHT K / 2) (scTickB K)"

definition enemyA :: "constants \<Rightarrow> real \<Rightarrow> bool \<Rightarrow> Enemy" where
  "enemyA K y dead =
     \<lparr>e_x = GAME_WIDTH K / 2 + 60, e_y = y, e_radius = 10, e_speed = 2, e_id = 0, e_isDead = dead\<rparr>"

definition enemyB :: "constants \<Rightarrow> real \<Rightarrow> bool \<Rightarrow> Enemy" where
  "enemyB K y dead =
     \<lparr>e_x = GAME_WIDTH K / 2 + 60, e_y = y, e_radius = 16, e_speed = 2, e_id = 1, e_isDead = dead\<rparr>"

definition scPlayer :: "constants \<Rightarrow> real \<Rightarrow> real \<Rightarrow> real \<Rightarrow> Player" where
  "scPlayer K y vy flash =
     \<lparr>p_x = GAME_WIDTH K / 2 - 50, p_y = y, p_width = 100, p_height = 100, p_vx = 0, p_vy = vy,
      p_fuel = MAX_FUEL K, p_maxFuel = MAX_FUEL K, p_flashTimer = flash\<rparr>"

definition saneConstants :: "constants \<Rightarrow> bool" where
  "saneConstants K \<longleftrightarrow> 160 \<le> GAME_WIDTH K \<and> 100 \<le> GAME_HEIGHT K \<and> 0 \<le> MAX_FUEL K"

definition scShockwave :: "constants \<Rightarrow> Shockwave" where
  "scShockwave K =
     \<lparr>sw_x = GAME_WIDTH K / 2, sw_y = - 27, sw_radius = Some 0, sw_maxRadius = 80,
      sw_life = 2, sw_maxLife = 2, sw_id = 0\<rparr>"

text \<open>
  The spawn position once more, with the rounding of double arithmetic written out: \<open>fl\<close> is
  the rounding of a real number to a double, applied to the result of every \<open>+\<close>, \<open>-\<close> and
  \<open>*\<close> of the source (\<open>Math.abs\<close>, \<open>Math.max\<close> and \<open>Math.min\<close> are exact). All that is used of
  \<open>fl\<close> is that it is monotone and leaves a double as it is (\<open>rounding\<close>). \<open>spawnX\<close>, which
  \<open>update\<close> uses, is the instance where nothing is rounded.
\<close>

definition rounding :: "(real \<Rightarrow> real) \<Rightarrow> bool" where
  "rounding fl \<longleftrightarrow> (\<forall>a b. a \<le> b \<longrightarrow> fl a \<le> fl b) \<and> (\<forall>a. fl (fl a) = fl a)"

definition drawnX :: "(real \<Rightarrow> real) \<Rightarrow> constants \<Rightarrow> real \<Rightarrow> real" where
  "drawnX fl K u = fl (fl (u * fl (GAME_WIDTH K - 40)) + 20)"

definition spawnXfl :: "(real \<Rightarrow> real) \<Rightarrow> constants \<Rightarrow> real \<Rightarrow> real \<Rightarrow> real" where
  "spawnXfl fl K u playerCenterX =
     (let x0 = drawnX fl K u
      in if \<bar>fl (x0 - playerCenterX)\<bar> < 60
         then (if x0 < playerCenterX then max 20 (fl (x0 - 60))
               else min (fl (GAME_WIDTH K - 20)) (fl (x0 + 60)))
         else x0)"

definition movingGame :: state where
  "movingGame = executeJump sampleConstants defaultConfig zeroDraws 100 210 freshGame"

definition zoneDraws :: TickRandom where
  "zoneDraws = \<lparr>r_shakeX = 0, r_shakeY = 0, r_spawn = 0, r_spawnX = 27 / 40, r_radius = 0, r_speed = 0\<rparr>"

text \<open>
  The shockwaves of a state as the shockwave loop of the next tick sees them: re-centred
  on the player's center, one tick older, with the radius the tick computes.
\<close>

definition advancedShockwaves :: "state \<Rightarrow> Shockwave list" where
  "advancedShockwaves s =
     map (advanceShockwave (centerX (player s)) (centerY (player s))) (shockwaves s)"

text \<open>
  The scenario configuration with the shockwaves switched off, the third enemy of the
  scenario, and the state after a tick of the scenario that spawns it.
\<close>

definition burningOff :: "constants \<Rightarrow> GameConfig" where
  "burningOff K = (scenarioConfig K)\<lparr>burningEnabled := False\<rparr>"

definition enemyC :: "constants \<Rightarrow> real \<Rightarrow> bool \<Rightarrow> Enemy" where
  "enemyC K y dead =
     \<lparr>e_x = GAME_WIDTH K / 2 + 60, e_y = y, e_radius = 10, e_speed = 2, e_id = 2, e_isDead = dead\<rparr>"

definition scOver :: "constants \<Rightarrow> state" where
  "scOver K = update K (scenarioConfig K) drawsA (scJump2 K)"

(*DEFS-END*)

section \<open>Properties\<close>

lemma playSound_fields [simp]:
  "player (playSound c q s) = player s"
  "enemies (playSound c q s) = enemies s"
  "particles (playSound c q s) = particles s"
  "pulses (playSound c q s) = pulses s"
  "shockwaves (playSound c q s) = shockwaves s"
  "shake (playSound c q s) = shake s"
  "gameState (playSound c q s) = gameState s"
  "score (playSound c q s) = score s"
  "elapsedTime (playSound c q s) = elapsedTime s"
  "invincibilityFrames (playSound c q s) = invincibilityFrames s"
  "enemyIdCounter (playSound c q s) = enemyIdCounter s"
  "shockwaveIdCounter (playSound c q s) = shockwaveIdCounter s"
  by (simp_all add: playSound_def)

lemma triggerShockwave_fields [simp]:
  "player (triggerShockwave c a b k s) = player s"
  "enemies (triggerShockwave c a b k s) = enemies s"
  "particles (triggerShockwave c a b k s) = particles s"
  "pulses (triggerShockwave c a b k s) = pulses s"
  "shake (triggerShockwave c a b k s) = shake s"
  "gameState (triggerShockwave c a b k s) = gameState s"
  "score (triggerShockwave c a b k s) = score s"
  "elapsedTime (triggerShockwave c a b k s) = elapsedTime s"
  "invincibilityFrames (triggerShockwave c a b k s) = invincibilityFrames s"
  "enemyIdCounter (triggerShockwave c a b k s) = enemyIdCounter s"
  by (simp_all add: triggerShockwave_def)

lemma pulsePass_enemies:
  "fst (pulsePass c rs px py w isS es (s, k)) =
     map (\<lambda>e. if pulseHit px py w isS e then e\<lparr>e_isDead := True\<rparr> else e) es"
  by (induction es arbitrary: s k) (simp_all add: pulseHit_def Let_def case_prod_beta)

lemma pulsePass_player:
  "player (fst (snd (pulsePass c rs px py w isS es (s, k)))) =
     (if \<exists>e \<in> set es. pulseHit px py w isS e
      then (player s)\<lparr>p_fuel := p_maxFuel (player s), p_flashTimer := 10\<rparr> else player s)"
proof (induction es arbitrary: s k)
  case Nil
  show ?case by simp
next
  case (Cons e es)
  show ?case
  proof (cases "pulseHit px py w isS e")
    case True
    then show ?thesis
      using Cons.IH by (auto simp add: pulseHit_def Let_def case_prod_beta)
  next
    case False
    then show ?thesis
      using Cons.IH by (auto simp add: pulseHit_def Let_def case_prod_beta)
  qed
qed

lemma pulsePass_same:
  "pulses (fst (snd (pulsePass c rs px py w isS es (s, k)))) = pulses s"
  "shake (fst (snd (pulsePass c rs px py w isS es (s, k)))) = shake s"
  "gameState (fst (snd (pulsePass c rs px py w isS es (s, k)))) = gameState s"
  "score (fst (snd (pulsePass c rs px py w isS es (s, k)))) = score s"
  "elapsedTime (fst (snd (pulsePass c rs px py w isS es (s, k)))) = elapsedTime s"
  "invincibilityFrames (fst (snd (pulsePass c rs px py w isS es (s, k)))) = invincibilityFrames s"
  "enemyIdCounter (fst (snd (pulsePass c rs px py w isS es (s, k)))) = enemyIdCounter s"
  by (induction es arbitrary: s k; simp add: Let_def case_prod_beta)+

lemma executeJump_rejected_eq:
  "p_fuel (player s) < fuelConsumption c \<Longrightarrow>
   executeJump K c rs mx my s = playSound c CuePulse (s\<lparr>shake := (shake s)\<lparr>sh_intensity := 5\<rparr>\<rparr>)"
  by (simp add: executeJump_def)

lemma executeJump_enemies:
  "\<not> p_fuel (player s) < fuelConsumption c \<Longrightarrow>
   enemies (executeJump K c rs mx my s) =
     map (\<lambda>e. if jumpHits K c s e then e\<lparr>e_isDead := True\<rparr> else e) (enemies s)"
  by (simp add: executeJump_def Let_def case_prod_beta pulsePass_enemies jumpHits_def)

lemma executeJump_fuel:
  "\<not> p_fuel (player s) < fuelConsumption c \<Longrightarrow>
   p_fuel (player (executeJump K c rs mx my s)) =
     (if \<exists>e \<in> set (enemies s). jumpHits K c s e then p_maxFuel (player s)
      else p_fuel (player s) - fuelConsumption c)"
  by (simp add: executeJump_def Let_def case_prod_beta pulsePass_player jumpHits_def)

lemma executeJump_velocity:
  "\<not> p_fuel (player s) < fuelConsumption c \<Longrightarrow>
   p_vx (player (executeJump K c rs mx my s)) =
     - ((mx - centerX (player s)) /
        jumpDistance (mx - centerX (player s)) (my - centerY (player s))) *
       (if inDeadZone K c (player s) then recoilForce c * superJumpMultiplier c else recoilForce c)
   \<and> p_vy (player (executeJump K c rs mx my s)) =
     - ((my - centerY (player s)) /
        jumpDistance (mx - centerX (player s)) (my - centerY (player s))) *
       (if inDeadZone K c (player s) then recoilForce c * superJumpMultiplier c else recoilForce c)"
  by (simp add: executeJump_def Let_def case_prod_beta pulsePass_player)

lemma resetGame_fields:
  "player (resetGame K c s) = newPlayer K c"
  "enemies (resetGame K c s) = []"
  "particles (resetGame K c s) = []"
  "pulses (resetGame K c s) = []"
  "shockwaves (resetGame K c s) = []"
  "shake (resetGame K c s) = \<lparr>sh_x = 0, sh_y = 0, sh_intensity = 0\<rparr>"
  "elapsedTime (resetGame K c s) = 0"
  "invincibilityFrames (resetGame K c s) = 0"
  "score (resetGame K c s) = 0"
  "gameState (resetGame K c s) = PLAYING"
  "enemyIdCounter (resetGame K c s) = enemyIdCounter s"
  "shockwaveIdCounter (resetGame K c s) = shockwaveIdCounter s"
  by (simp_all add: resetGame_def Let_def)

lemma defaultConfig_fields:
  "gravity defaultConfig = 0.16" "recoilForce defaultConfig = 6" "fuelRegen defaultConfig = 0.1"
  "fuelConsumption defaultConfig = 12" "enemySpawnRate defaultConfig = 0.01"
  "bounceElasticity defaultConfig = 1.2" "difficultyScale defaultConfig = 0.5"
  "deadZoneThreshold defaultConfig = 0.15" "superJumpMultiplier defaultConfig = 3"
  "deadJumpEnabled defaultConfig = False" "burningEnabled defaultConfig = True"
  "burningRadius defaultConfig = 80" "burningDuration defaultConfig = 44"
  "playerSize defaultConfig = 20" "audioEnabled defaultConfig = True"
  "sfxVolume defaultConfig = 0.04"
  by (simp_all add: defaultConfig_def)

lemma sampleConstants_fields:
  "GAME_WIDTH sampleConstants = 400" "GAME_HEIGHT sampleConstants = 600"
  "MAX_FUEL sampleConstants = 100" "AIR_RESISTANCE sampleConstants = 0.98"
  by (simp_all add: sampleConstants_def)

lemma freshGame_simps:
  "enemies freshGame = []"
  "gameState freshGame = PLAYING"
  by (simp_all add: freshGame_def resetGame_fields)

lemma pulsePass_particles_length:
  "length (particles (fst (snd (pulsePass c rs px py w isS es (s, k))))) =
     length (particles s) + length (filter (pulseHit px py w isS) es) * (if isS then 20 else 12)"
  by (cases isS; induction es arbitrary: s k;
      simp add: pulseHit_def Let_def case_prod_beta killParticles_def)

lemma executeJump_particles_length:
  "\<not> p_fuel (player s) < fuelConsumption c \<Longrightarrow>
   length (particles (executeJump K c rs mx my s)) =
     length (particles s)
     + killCount K c s * (if inDeadZone K c (player s) then 20 else 12)
     + (if inDeadZone K c (player s) then 40 else 20)"
  by (simp add: executeJump_def Let_def case_prod_beta pulsePass_particles_length
        jumpParticles_def killCount_def jumpHits_def[abs_def])

lemma executeJump_pulses:
  "\<not> p_fuel (player s) < fuelConsumption c \<Longrightarrow>
   pulses (executeJump K c rs mx my s) =
     pulses s @
       [\<lparr>pu_x = centerX (player s) - pulseWidthOf (player s) (inDeadZone K c (player s)) / 2,
         pu_y = centerY (player s),
         pu_width = pulseWidthOf (player s) (inDeadZone K c (player s)),
         pu_life = (if inDeadZone K c (player s) then 15 else 8),
         pu_maxLife = (if inDeadZone K c (player s) then 15 else 8),
         pu_isSuper = inDeadZone K c (player s)\<rparr>]"
  by (simp add: executeJump_def Let_def case_prod_beta pulsePass_same)

text \<open>
  Claim C2. A call of \<open>executeJump\<close> with \<open>player.fuel < fuelConsumption\<close> is rejected: the
  state it returns is the state it was given with the shake intensity set to 5 and the
  \<open>pulse\<close> cue requested (logged when audio is on); the player (fuel, position, velocity),
  the pulses, the particles, the enemies and the shockwaves are unchanged.
\<close>

theorem executeJump_rejected:
  "p_fuel (player s) < fuelConsumption c \<Longrightarrow>
   executeJump K c rs mx my s =
     s\<lparr>shake := (shake s)\<lparr>sh_intensity := 5\<rparr>,
       cues := (if audioEnabled c \<and> 0 < sfxVolume c then cues s @ [CuePulse] else cues s)\<rparr>
   \<and> player (executeJump K c rs mx my s) = player s
   \<and> pulses (executeJump K c rs mx my s) = pulses s
   \<and> particles (executeJump K c rs mx my s) = particles s
   \<and> enemies (executeJump K c rs mx my s) = enemies s
   \<and> shockwaves (executeJump K c rs mx my s) = shockwaves s"
  by (auto simp add: executeJump_def playSound_def)

theorem executeJump_rejected_witness:
  "p_fuel (player lowFuelGame) < fuelConsumption defaultConfig
   \<and> executeJump sampleConstants defaultConfig zeroDraws 200 300 lowFuelGame =
       lowFuelGame\<lparr>shake := \<lparr>sh_x = 0, sh_y = 0, sh_intensity = 5\<rparr>,
                   cues := [CuePulse, CuePulse]\<rparr>
   \<and> player (executeJump sampleConstants defaultConfig zeroDraws 200 300 lowFuelGame) =
       player lowFuelGame"
proof -
  have low: "p_fuel (player lowFuelGame) < fuelConsumption defaultConfig"
    by (simp add: lowFuelGame_def defaultConfig_fields)
  have sh: "shake lowFuelGame = \<lparr>sh_x = 0, sh_y = 0, sh_intensity = 0\<rparr>"
    by (simp add: lowFuelGame_def freshGame_def resetGame_fields)
  have cu: "cues lowFuelGame = [CuePulse]"
    by (simp add: lowFuelGame_def freshGame_def resetGame_def initialState_def Let_def
          playSound_def defaultConfig_fields)
  have au: "audioEnabled defaultConfig \<and> 0 < sfxVolume defaultConfig"
    by (simp add: defaultConfig_fields)
  show ?thesis
    using executeJump_rejected [OF low, of sampleConstants zeroDraws 200 300] low sh cu au
    by simp
qed

text \<open>
  Claim C1, amended. After a call of \<open>executeJump\<close> with \<open>player.fuel \<ge> fuelConsumption\<close>
  the fuel is the fuel before the call minus \<open>fuelConsumption\<close> when the pulse eliminates no
  enemy, and it is \<open>maxFuel\<close> when the pulse eliminates at least one (the kill refill
  overwrites the deduction). The game state plays no part: \<open>executeJump\<close> does not read it.
\<close>

theorem jump_fuel_accounting:
  "fuelConsumption c \<le> p_fuel (player s) \<Longrightarrow>
   p_fuel (player (executeJump K c rs mx my s)) =
     (if \<exists>e \<in> set (enemies s). jumpHits K c s e then p_maxFuel (player s)
      else p_fuel (player s) - fuelConsumption c)"
  by (simp add: executeJump_fuel not_less)

lemma freshGame_player:
  "player freshGame =
     \<lparr>p_x = 190, p_y = 200, p_width = 20, p_height = 20, p_vx = 0, p_vy = 0,
      p_fuel = 100, p_maxFuel = 100, p_flashTimer = 0\<rparr>"
  by (simp add: freshGame_def resetGame_fields newPlayer_def sampleConstants_fields defaultConfig_fields)

lemma sample_jumpHits:
  "jumpHits sampleConstants defaultConfig (freshGame\<lparr>enemies := es\<rparr>) enemyBelow"
  "\<not> jumpHits sampleConstants defaultConfig (freshGame\<lparr>enemies := es\<rparr>) enemyAbove"
  by (simp_all add: freshGame_player jumpHits_def pulseHit_def inDeadZone_def pulseWidthOf_def
        withinRayX_def isAffected_def centerX_def centerY_def enemyBelow_def enemyAbove_def
        defaultConfig_fields)

theorem jump_fuel_accounting_witness:
  "fuelConsumption defaultConfig \<le> p_fuel (player freshGame)
   \<and> p_fuel (player (executeJump sampleConstants defaultConfig zeroDraws 200 300 freshGame)) = 88"
proof -
  have h: "fuelConsumption defaultConfig \<le> p_fuel (player freshGame)"
    by (simp add: freshGame_player defaultConfig_fields)
  show ?thesis
    using jump_fuel_accounting [OF h, of sampleConstants zeroDraws 200 300] h
    by (simp add: freshGame_simps freshGame_player defaultConfig_fields)
qed

text \<open>
  Claim C1 as stated fails: with an enemy below the player inside the pulse band, a jump
  from full fuel (100) with \<open>fuelConsumption = 12\<close> leaves the fuel at 100, not at 88.
\<close>

theorem jump_fuel_refill_counterexample:
  "gameState gameWithEnemyBelow = PLAYING
   \<and> fuelConsumption defaultConfig \<le> p_fuel (player gameWithEnemyBelow)
   \<and> p_fuel (player (executeJump sampleConstants defaultConfig zeroDraws 200 300 gameWithEnemyBelow))
       \<noteq> p_fuel (player gameWithEnemyBelow) - fuelConsumption defaultConfig"
proof -
  have h: "\<not> p_fuel (player gameWithEnemyBelow) < fuelConsumption defaultConfig"
    by (simp add: gameWithEnemyBelow_def freshGame_player defaultConfig_fields)
  show ?thesis
    using executeJump_fuel [OF h, of sampleConstants zeroDraws 200 300]
    by (simp add: gameWithEnemyBelow_def sample_jumpHits freshGame_simps freshGame_player
          defaultConfig_fields)
qed

text \<open>
  Claim C6. The elimination pass of a jump keeps the enemy list in place (same length, same
  order), and it eliminates a live enemy exactly when the jump is accepted, the enemy's
  horizontal extent overlaps the pulse band around the player's center, and the enemy is on
  the affected side: \<open>y\<close> greater than the player's center \<open>y\<close> for a normal jump, \<open>y\<close> less
  than it for a super jump (one made inside the dead zone with \<open>deadJumpEnabled\<close>).
\<close>

theorem pulse_kill_direction:
  "length (enemies (executeJump K c rs mx my s)) = length (enemies s)
   \<and> (\<forall>i < length (enemies s). \<not> e_isDead (enemies s ! i) \<longrightarrow>
        (e_isDead (enemies (executeJump K c rs mx my s) ! i) \<longleftrightarrow>
           fuelConsumption c \<le> p_fuel (player s)
           \<and> withinRayX (centerX (player s))
                (pulseWidthOf (player s) (inDeadZone K c (player s))) (enemies s ! i)
           \<and> (if inDeadZone K c (player s)
              then e_y (enemies s ! i) < centerY (player s)
              else e_y (enemies s ! i) > centerY (player s))))"
proof (cases "p_fuel (player s) < fuelConsumption c")
  case True
  then show ?thesis by (simp add: executeJump_rejected_eq)
next
  case False
  then show ?thesis
    by (auto simp add: executeJump_enemies jumpHits_def pulseHit_def isAffected_def)
qed

theorem pulse_kill_direction_witness:
  "(0::nat) < length (enemies gameWithTwoEnemies)
   \<and> \<not> e_isDead (enemies gameWithTwoEnemies ! 0)
   \<and> e_isDead (enemies (executeJump sampleConstants defaultConfig zeroDraws 200 300
                           gameWithTwoEnemies) ! 0)
   \<and> e_y (enemies gameWithTwoEnemies ! 0) > centerY (player gameWithTwoEnemies)
   \<and> (1::nat) < length (enemies gameWithTwoEnemies)
   \<and> \<not> e_isDead (enemies gameWithTwoEnemies ! 1)
   \<and> \<not> e_isDead (enemies (executeJump sampleConstants defaultConfig zeroDraws 200 300
                           gameWithTwoEnemies) ! 1)"
  using pulse_kill_direction [of sampleConstants defaultConfig zeroDraws 200 300 gameWithTwoEnemies]
  by (simp add: gameWithTwoEnemies_def freshGame_player defaultConfig_fields
        sampleConstants_fields inDeadZone_def pulseWidthOf_def withinRayX_def centerX_def
        centerY_def enemyBelow_def enemyAbove_def)

lemma jumpDistance_nonzero: "jumpDistance dx dy \<noteq> 0"
  by (simp add: jumpDistance_def)

lemma jumpDistance_zero: "jumpDistance 0 0 = 1"
  by (simp add: jumpDistance_def)

lemma jumpDistance_off_center:
  "dx \<noteq> 0 \<or> dy \<noteq> 0 \<Longrightarrow> jumpDistance dx dy = sqrt (dx * dx + dy * dy)"
proof -
  assume "dx \<noteq> 0 \<or> dy \<noteq> 0"
  then have "dx * dx + dy * dy \<noteq> 0"
    by (simp add: sum_squares_eq_zero_iff)
  then show ?thesis by (simp add: jumpDistance_def)
qed

text \<open>
  Claim C9, amended. The divisor of the direction vector is \<open>jumpDistance\<close>, never 0: it is
  the distance from the player's center to the target, and 1 where that distance is 0. So
  a jump whose target is the player's center, made with \<open>fuel \<ge> fuelConsumption\<close>, divides
  by 1 and succeeds: the player's velocity becomes \<open>(0, 0)\<close>, one pulse is emitted, 20
  (normal) or 40 (super) jump particles are emitted besides the kill particles, and the
  fuel is reduced by \<open>fuelConsumption\<close> unless the pulse eliminates an enemy, in which case
  it is \<open>maxFuel\<close>.
\<close>

theorem jump_at_center:
  "fuelConsumption c \<le> p_fuel (player s) \<Longrightarrow>
   s' = executeJump K c rs (centerX (player s)) (centerY (player s)) s \<Longrightarrow>
   (\<forall>dx dy. jumpDistance dx dy \<noteq> 0)
   \<and> jumpDistance (centerX (player s) - centerX (player s))
                    (centerY (player s) - centerY (player s)) = 1
   \<and> (\<forall>dx dy. dx \<noteq> 0 \<or> dy \<noteq> 0 \<longrightarrow> jumpDistance dx dy = sqrt (dx * dx + dy * dy))
   \<and> (\<forall>mx my.
        p_vx (player (executeJump K c rs mx my s)) =
          - ((mx - centerX (player s)) /
             jumpDistance (mx - centerX (player s)) (my - centerY (player s))) *
            (if inDeadZone K c (player s) then recoilForce c * superJumpMultiplier c
             else recoilForce c)
        \<and> p_vy (player (executeJump K c rs mx my s)) =
          - ((my - centerY (player s)) /
             jumpDistance (mx - centerX (player s)) (my - centerY (player s))) *
            (if inDeadZone K c (player s) then recoilForce c * superJumpMultiplier c
             else recoilForce c))
   \<and> p_vx (player s') = 0 \<and> p_vy (player s') = 0
   \<and> p_fuel (player s') =
       (if \<exists>e \<in> set (enemies s). jumpHits K c s e then p_maxFuel (player s)
        else p_fuel (player s) - fuelConsumption c)
   \<and> pulses s' =
       pulses s @
         [\<lparr>pu_x = centerX (player s) - pulseWidthOf (player s) (inDeadZone K c (player s)) / 2,
           pu_y = centerY (player s),
           pu_width = pulseWidthOf (player s) (inDeadZone K c (player s)),
           pu_life = (if inDeadZone K c (player s) then 15 else 8),
           pu_maxLife = (if inDeadZone K c (player s) then 15 else 8),
           pu_isSuper = inDeadZone K c (player s)\<rparr>]
   \<and> length (particles s') =
       length (particles s)
       + killCount K c s * (if inDeadZone K c (player s) then 20 else 12)
       + (if inDeadZone K c (player s) then 40 else 20)"
proof -
  assume h: "fuelConsumption c \<le> p_fuel (player s)"
    and s': "s' = executeJump K c rs (centerX (player s)) (centerY (player s)) s"
  from h have nl: "\<not> p_fuel (player s) < fuelConsumption c" by simp
  have v: "p_vx (player s') = 0 \<and> p_vy (player s') = 0"
    using executeJump_velocity [OF nl, of K rs "centerX (player s)" "centerY (player s)"]
    by (simp add: s')
  have g: "\<forall>mx my.
        p_vx (player (executeJump K c rs mx my s)) =
          - ((mx - centerX (player s)) /
             jumpDistance (mx - centerX (player s)) (my - centerY (player s))) *
            (if inDeadZone K c (player s) then recoilForce c * superJumpMultiplier c
             else recoilForce c)
        \<and> p_vy (player (executeJump K c rs mx my s)) =
          - ((my - centerY (player s)) /
             jumpDistance (mx - centerX (player s)) (my - centerY (player s))) *
            (if inDeadZone K c (player s) then recoilForce c * superJumpMultiplier c
             else recoilForce c)"
    using executeJump_velocity [OF nl] by blast
  have d: "(\<forall>dx dy. jumpDistance dx dy \<noteq> 0)
      \<and> jumpDistance (centerX (player s) - centerX (player s))
                       (centerY (player s) - centerY (player s)) = 1
      \<and> (\<forall>dx dy. dx \<noteq> 0 \<or> dy \<noteq> 0 \<longrightarrow> jumpDistance dx dy = sqrt (dx * dx + dy * dy))"
    using jumpDistance_nonzero jumpDistance_off_center by (simp add: jumpDistance_zero)
  have r: "p_fuel (player s') =
       (if \<exists>e \<in> set (enemies s). jumpHits K c s e then p_maxFuel (player s)
        else p_fuel (player s) - fuelConsumption c)
   \<and> pulses s' =
       pulses s @
         [\<lparr>pu_x = centerX (player s) - pulseWidthOf (player s) (inDeadZone K c (player s)) / 2,
           pu_y = centerY (player s),
           pu_width = pulseWidthOf (player s) (inDeadZone K c (player s)),
           pu_life = (if inDeadZone K c (player s) then 15 else 8),
           pu_maxLife = (if inDeadZone K c (player s) then 15 else 8),
           pu_isSuper = inDeadZone K c (player s)\<rparr>]
   \<and> length (particles s') =
       length (particles s)
       + killCount K c s * (if inDeadZone K c (player s) then 20 else 12)
       + (if inDeadZone K c (player s) then 40 else 20)"
    using executeJump_fuel [OF nl] executeJump_pulses [OF nl] executeJump_particles_length [OF nl]
    by (simp add: s')
  from d g v r show ?thesis by blast
qed

theorem jump_at_center_witness:
  "fuelConsumption defaultConfig \<le> p_fuel (player freshGame)
   \<and> jumpDistance 0 0 = 1
   \<and> p_vx (player (executeJump sampleConstants defaultConfig zeroDraws 200 210 freshGame)) = 0
   \<and> p_vy (player (executeJump sampleConstants defaultConfig zeroDraws 200 210 freshGame)) = 0
   \<and> p_fuel (player (executeJump sampleConstants defaultConfig zeroDraws 200 210 freshGame)) = 88
   \<and> length (pulses (executeJump sampleConstants defaultConfig zeroDraws 200 210 freshGame)) = 1
   \<and> length (particles (executeJump sampleConstants defaultConfig zeroDraws 200 210 freshGame)) = 20"
proof -
  have h: "fuelConsumption defaultConfig \<le> p_fuel (player freshGame)"
    by (simp add: freshGame_player defaultConfig_fields)
  have c: "centerX (player freshGame) = 200" "centerY (player freshGame) = 210"
    by (simp_all add: freshGame_player centerX_def centerY_def)
  have f: "pulses freshGame = []" "particles freshGame = []"
    by (simp_all add: freshGame_def resetGame_fields)
  show ?thesis
    using jump_at_center [OF h refl, of sampleConstants zeroDraws, unfolded c] h
    by (simp add: f freshGame_simps freshGame_player defaultConfig_fields inDeadZone_def
          killCount_def)
qed

text \<open>
  Claim C9 as stated fails in its fuel clause: with an enemy below the player inside the
  pulse band, the jump at the player's own center leaves the fuel at 100, not at 88.
\<close>

theorem jump_at_center_refill_counterexample:
  "fuelConsumption defaultConfig \<le> p_fuel (player gameWithEnemyBelow)
   \<and> p_fuel (player (executeJump sampleConstants defaultConfig zeroDraws
                       (centerX (player gameWithEnemyBelow)) (centerY (player gameWithEnemyBelow))
                       gameWithEnemyBelow))
       \<noteq> p_fuel (player gameWithEnemyBelow) - fuelConsumption defaultConfig"
proof -
  have h: "\<not> p_fuel (player gameWithEnemyBelow) < fuelConsumption defaultConfig"
    by (simp add: gameWithEnemyBelow_def freshGame_player defaultConfig_fields)
  show ?thesis
    using executeJump_fuel [OF h, of sampleConstants zeroDraws
        "centerX (player gameWithEnemyBelow)" "centerY (player gameWithEnemyBelow)"]
    by (simp add: gameWithEnemyBelow_def sample_jumpHits freshGame_simps freshGame_player
          defaultConfig_fields)
qed

lemma shockwaveHits_same:
  "player (snd (shockwaveHits c x y sw es s)) = player s"
  "gameState (snd (shockwaveHits c x y sw es s)) = gameState s"
  "score (snd (shockwaveHits c x y sw es s)) = score s"
  "elapsedTime (snd (shockwaveHits c x y sw es s)) = elapsedTime s"
  "invincibilityFrames (snd (shockwaveHits c x y sw es s)) = invincibilityFrames s"
  "particles (snd (shockwaveHits c x y sw es s)) = particles s"
  "pulses (snd (shockwaveHits c x y sw es s)) = pulses s"
  "shake (snd (shockwaveHits c x y sw es s)) = shake s"
  "enemyIdCounter (snd (shockwaveHits c x y sw es s)) = enemyIdCounter s"
  by (induction es arbitrary: s; simp add: Let_def case_prod_beta)+

lemma shockwaveHits_enemies:
  "fst (shockwaveHits c x y sw es s) =
     map (\<lambda>e. if swHit [sw] e then e\<lparr>e_isDead := True\<rparr> else e) es"
  by (induction es arbitrary: s) (simp_all add: Let_def case_prod_beta swHit_def)

lemma triggerShockwave_chain:
  "shockwaves (triggerShockwave c x y k s) =
     shockwaves s @ (if burningEnabled c then [newShockwave c x y k (shockwaveIdCounter s)] else [])"
  "shockwaveIdCounter (triggerShockwave c x y k s) =
     shockwaveIdCounter s + (if burningEnabled c then 1 else 0)"
  by (simp_all add: triggerShockwave_def newShockwave_def)

lemma shockwaveHits_shockwaves:
  "shockwaves (snd (shockwaveHits c x y sw es s)) =
     shockwaves s @
       (if burningEnabled c
        then map (newShockwave c x y 0.8)
               [shockwaveIdCounter s ..< shockwaveIdCounter s + swKills [sw] es]
        else [])
   \<and> shockwaveIdCounter (snd (shockwaveHits c x y sw es s)) =
       shockwaveIdCounter s + (if burningEnabled c then swKills [sw] es else 0)"
proof (induction es arbitrary: s)
  case Nil
  show ?case by (simp add: swKills_def)
next
  case (Cons e es)
  show ?case
  proof (cases "swHit [sw] e")
    case True
    then have hit: "\<not> e_isDead e \<and> reaches sw e" by (simp add: swHit_def)
    have step: "shockwaveHits c x y sw (e # es) s =
        (e\<lparr>e_isDead := True\<rparr> #
           fst (shockwaveHits c x y sw es (playSound c CueKill (triggerShockwave c x y 0.8 s))),
         snd (shockwaveHits c x y sw es (playSound c CueKill (triggerShockwave c x y 0.8 s))))"
      using hit by (simp add: Let_def case_prod_beta)
    have k: "swKills [sw] (e # es) = Suc (swKills [sw] es)"
      using True by (simp add: swKills_def)
    show ?thesis
      unfolding step snd_conv k
      using Cons.IH [of "playSound c CueKill (triggerShockwave c x y 0.8 s)"]
      by (simp add: triggerShockwave_chain upt_conv_Cons del: upt_Suc)
  next
    case False
    then have nohit: "\<not> (\<not> e_isDead e \<and> reaches sw e)" by (simp add: swHit_def)
    have step: "shockwaveHits c x y sw (e # es) s =
        (e # fst (shockwaveHits c x y sw es s), snd (shockwaveHits c x y sw es s))"
      using nohit by (auto simp add: Let_def case_prod_beta)
    have k: "swKills [sw] (e # es) = swKills [sw] es"
      using False by (simp add: swKills_def)
    show ?thesis
      unfolding step snd_conv k using Cons.IH [of s] by simp
  qed
qed

lemma reaches_dead [simp]: "reaches sw (e\<lparr>e_isDead := b\<rparr>) = reaches sw e"
  by (simp add: reaches_def split: option.split)

lemma swHit_Cons:
  "swHit (sw # sws) e \<longleftrightarrow> swHit [sw] e \<or> swHit sws e"
  by (auto simp add: swHit_def)

lemma swKills_Cons:
  "swKills (sw # sws) es =
     swKills [sw] es
     + swKills sws (map (\<lambda>e. if swHit [sw] e then e\<lparr>e_isDead := True\<rparr> else e) es)"
  by (induction es) (auto simp add: swKills_def swHit_def)

lemma shockwavePass_same:
  "player (snd (shockwavePass c x y sws s)) = player s"
  "gameState (snd (shockwavePass c x y sws s)) = gameState s"
  "score (snd (shockwavePass c x y sws s)) = score s"
  "elapsedTime (snd (shockwavePass c x y sws s)) = elapsedTime s"
  "invincibilityFrames (snd (shockwavePass c x y sws s)) = invincibilityFrames s"
  "particles (snd (shockwavePass c x y sws s)) = particles s"
  "pulses (snd (shockwavePass c x y sws s)) = pulses s"
  "shake (snd (shockwavePass c x y sws s)) = shake s"
  "enemyIdCounter (snd (shockwavePass c x y sws s)) = enemyIdCounter s"
  by (induction sws arbitrary: s; simp add: Let_def case_prod_beta shockwaveHits_same)+

lemma shockwavePass_visited:
  "fst (shockwavePass c x y sws s) = map (advanceShockwave x y) sws"
  by (induction sws arbitrary: s) (simp_all add: Let_def case_prod_beta)

lemma mark_twice_elem:
  "(if swHit B (if swHit [a] e then e\<lparr>e_isDead := True\<rparr> else e)
    then (if swHit [a] e then e\<lparr>e_isDead := True\<rparr> else e)\<lparr>e_isDead := True\<rparr>
    else (if swHit [a] e then e\<lparr>e_isDead := True\<rparr> else e)) =
   (if swHit (a # B) e then e\<lparr>e_isDead := True\<rparr> else e)"
proof (cases "swHit [a] e")
  case True
  then show ?thesis by (simp add: swHit_def)
next
  case False
  then show ?thesis by (simp add: swHit_Cons [of a B])
qed

lemma mark_twice:
  "map (\<lambda>e. if swHit B e then e\<lparr>e_isDead := True\<rparr> else e)
     (map (\<lambda>e. if swHit [a] e then e\<lparr>e_isDead := True\<rparr> else e) es) =
   map (\<lambda>e. if swHit (a # B) e then e\<lparr>e_isDead := True\<rparr> else e) es"
  unfolding map_map comp_def by (rule map_cong [OF refl]) (rule mark_twice_elem)

lemma shockwavePass_enemies:
  "enemies (snd (shockwavePass c x y sws s)) =
     map (\<lambda>e. if swHit (map (advanceShockwave x y) sws) e then e\<lparr>e_isDead := True\<rparr> else e)
       (enemies s)"
proof (induction sws arbitrary: s)
  case Nil
  show ?case by (simp add: swHit_def)
next
  case (Cons sw sws)
  let ?sw = "advanceShockwave x y sw"
  let ?h = "shockwaveHits c x y ?sw (enemies s) s"
  have step: "snd (shockwavePass c x y (sw # sws) s) =
      snd (shockwavePass c x y sws ((snd ?h)\<lparr>enemies := fst ?h\<rparr>))"
    by (simp add: Let_def case_prod_beta)
  have "enemies (snd (shockwavePass c x y (sw # sws) s)) =
      map (\<lambda>e. if swHit (map (advanceShockwave x y) sws) e then e\<lparr>e_isDead := True\<rparr> else e)
        (map (\<lambda>e. if swHit [?sw] e then e\<lparr>e_isDead := True\<rparr> else e) (enemies s))"
    unfolding step Cons.IH by (simp add: shockwaveHits_enemies)
  then show ?case by (simp only: mark_twice list.map)
qed

lemma shockwavePass_shockwaves:
  "shockwaves (snd (shockwavePass c x y sws s)) =
     shockwaves s @
       (if burningEnabled c
        then map (newShockwave c x y 0.8)
               [shockwaveIdCounter s ..<
                shockwaveIdCounter s + swKills (map (advanceShockwave x y) sws) (enemies s)]
        else [])
   \<and> shockwaveIdCounter (snd (shockwavePass c x y sws s)) =
       shockwaveIdCounter s +
       (if burningEnabled c then swKills (map (advanceShockwave x y) sws) (enemies s) else 0)"
proof (induction sws arbitrary: s)
  case Nil
  show ?case by (simp add: swKills_def swHit_def)
next
  case (Cons sw sws)
  let ?sw = "advanceShockwave x y sw"
  let ?h = "shockwaveHits c x y ?sw (enemies s) s"
  let ?s1 = "(snd ?h)\<lparr>enemies := fst ?h\<rparr>"
  define n where "n = shockwaveIdCounter s"
  define a where "a = swKills [?sw] (enemies s)"
  define b where "b = swKills (map (advanceShockwave x y) sws) (enemies ?s1)"
  have step: "snd (shockwavePass c x y (sw # sws) s) = snd (shockwavePass c x y sws ?s1)"
    by (simp add: Let_def case_prod_beta)
  have total: "swKills (map (advanceShockwave x y) (sw # sws)) (enemies s) = a + b"
    by (simp add: a_def b_def shockwaveHits_enemies
          swKills_Cons [of ?sw "map (advanceShockwave x y) sws" "enemies s"])
  have inner: "shockwaves ?s1 =
        shockwaves s @ (if burningEnabled c then map (newShockwave c x y 0.8) [n ..< n + a] else [])"
    and inner_n: "shockwaveIdCounter ?s1 = n + (if burningEnabled c then a else 0)"
    using shockwaveHits_shockwaves [of c x y ?sw "enemies s" s] by (simp_all add: n_def a_def)
  have outer: "shockwaves (snd (shockwavePass c x y sws ?s1)) =
        shockwaves ?s1 @
          (if burningEnabled c
           then map (newShockwave c x y 0.8)
                  [shockwaveIdCounter ?s1 ..< shockwaveIdCounter ?s1 + b]
           else [])"
    and outer_n: "shockwaveIdCounter (snd (shockwavePass c x y sws ?s1)) =
        shockwaveIdCounter ?s1 + (if burningEnabled c then b else 0)"
    using Cons.IH [of ?s1] by (simp_all only: b_def)
  have join: "[n ..< n + (a + b)] = [n ..< n + a] @ [n + a ..< n + a + b]"
    using upt_add_eq_append [of n "n + a" b] by (simp add: add.assoc)
  show ?case
  proof (cases "burningEnabled c")
    case True
    then show ?thesis
      unfolding step total outer outer_n inner inner_n n_def [symmetric]
      by (simp only: join if_True map_append append_assoc add.assoc simp_thms)
  next
    case False
    then show ?thesis
      unfolding step total outer outer_n inner inner_n n_def [symmetric]
      by simp
  qed
qed

lemma bounce_fields:
  "gameState (bounce c w s) = gameState s"
  "score (bounce c w s) = score s"
  "elapsedTime (bounce c w s) = elapsedTime s"
  "invincibilityFrames (bounce c w s) = invincibilityFrames s"
  "enemies (bounce c w s) = enemies s"
  "particles (bounce c w s) = particles s"
  "pulses (bounce c w s) = pulses s"
  "shockwaves (bounce c w s) = shockwaves s"
  "enemyIdCounter (bounce c w s) = enemyIdCounter s"
  "shockwaveIdCounter (bounce c w s) = shockwaveIdCounter s"
  "p_fuel (player (bounce c w s)) = p_fuel (player s)"
  "p_maxFuel (player (bounce c w s)) = p_maxFuel (player s)"
  "p_width (player (bounce c w s)) = p_width (player s)"
  "p_height (player (bounce c w s)) = p_height (player s)"
  "p_y (player (bounce c w s)) = p_y (player s)"
  "p_vy (player (bounce c w s)) = p_vy (player s)"
  by (simp_all add: bounce_def Let_def)

lemma walls_fields:
  "gameState (wallRight K c (wallLeft c s)) = gameState s"
  "score (wallRight K c (wallLeft c s)) = score s"
  "elapsedTime (wallRight K c (wallLeft c s)) = elapsedTime s"
  "invincibilityFrames (wallRight K c (wallLeft c s)) = invincibilityFrames s"
  "enemies (wallRight K c (wallLeft c s)) = enemies s"
  "particles (wallRight K c (wallLeft c s)) = particles s"
  "pulses (wallRight K c (wallLeft c s)) = pulses s"
  "shockwaves (wallRight K c (wallLeft c s)) = shockwaves s"
  "enemyIdCounter (wallRight K c (wallLeft c s)) = enemyIdCounter s"
  "shockwaveIdCounter (wallRight K c (wallLeft c s)) = shockwaveIdCounter s"
  "p_fuel (player (wallRight K c (wallLeft c s))) = p_fuel (player s)"
  "p_maxFuel (player (wallRight K c (wallLeft c s))) = p_maxFuel (player s)"
  "p_width (player (wallRight K c (wallLeft c s))) = p_width (player s)"
  "p_height (player (wallRight K c (wallLeft c s))) = p_height (player s)"
  "p_y (player (wallRight K c (wallLeft c s))) = p_y (player s)"
  "p_vy (player (wallRight K c (wallLeft c s))) = p_vy (player s)"
  by (simp_all add: wallRight_def wallLeft_def bounce_fields)

lemma integratePlayer_fields:
  "p_fuel (integratePlayer K c p) = p_fuel p"
  "p_maxFuel (integratePlayer K c p) = p_maxFuel p"
  "p_width (integratePlayer K c p) = p_width p"
  "p_height (integratePlayer K c p) = p_height p"
  "p_y (integratePlayer K c p) = p_y p + (p_vy p + gravity c)"
  "p_vy (integratePlayer K c p) = p_vy p + gravity c"
  "p_x (integratePlayer K c p) = p_x p + p_vx p"
  "p_vx (integratePlayer K c p) = p_vx p * AIR_RESISTANCE K"
  by (simp_all add: integratePlayer_def Let_def)

lemma regenFuel_fields:
  "p_maxFuel (regenFuel c p) = p_maxFuel p"
  "p_width (regenFuel c p) = p_width p"
  "p_height (regenFuel c p) = p_height p"
  "p_x (regenFuel c p) = p_x p"
  "p_y (regenFuel c p) = p_y p"
  "p_vx (regenFuel c p) = p_vx p"
  "p_vy (regenFuel c p) = p_vy p"
  by (simp_all add: regenFuel_def)

lemma fallCheck_fields:
  "player (fallCheck K c s) = player s"
  "score (fallCheck K c s) = score s"
  "elapsedTime (fallCheck K c s) = elapsedTime s"
  "invincibilityFrames (fallCheck K c s) = invincibilityFrames s"
  "enemies (fallCheck K c s) = enemies s"
  "particles (fallCheck K c s) = particles s"
  "pulses (fallCheck K c s) = pulses s"
  "shockwaves (fallCheck K c s) = shockwaves s"
  "enemyIdCounter (fallCheck K c s) = enemyIdCounter s"
  "shockwaveIdCounter (fallCheck K c s) = shockwaveIdCounter s"
  "gameState (fallCheck K c s) = (if p_y (player s) > GAME_HEIGHT K then GAMEOVER else gameState s)"
  by (simp_all add: fallCheck_def)

lemma shockwaveStep_fields:
  "player (shockwaveStep c x y s) = player s"
  "gameState (shockwaveStep c x y s) = gameState s"
  "score (shockwaveStep c x y s) = score s"
  "elapsedTime (shockwaveStep c x y s) = elapsedTime s"
  "invincibilityFrames (shockwaveStep c x y s) = invincibilityFrames s"
  "particles (shockwaveStep c x y s) = particles s"
  "pulses (shockwaveStep c x y s) = pulses s"
  "shake (shockwaveStep c x y s) = shake s"
  "enemyIdCounter (shockwaveStep c x y s) = enemyIdCounter s"
  by (simp_all add: shockwaveStep_def Let_def case_prod_beta shockwavePass_same)

lemma shockwaveStep_enemies:
  "enemies (shockwaveStep c x y s) =
     map (\<lambda>e. if swHit (map (advanceShockwave x y) (shockwaves s)) e
              then e\<lparr>e_isDead := True\<rparr> else e) (enemies s)"
  by (simp add: shockwaveStep_def Let_def case_prod_beta shockwavePass_enemies)

lemma shockwaveStep_shockwaves:
  "shockwaves (shockwaveStep c x y s) =
     filter (\<lambda>sw. sw_life sw > 0)
       (map (advanceShockwave x y) (shockwaves s) @
        (if burningEnabled c
         then map (newShockwave c x y 0.8)
                [shockwaveIdCounter s ..<
                 shockwaveIdCounter s + swKills (map (advanceShockwave x y) (shockwaves s)) (enemies s)]
         else []))"
  "shockwaveIdCounter (shockwaveStep c x y s) =
     shockwaveIdCounter s +
     (if burningEnabled c
      then swKills (map (advanceShockwave x y) (shockwaves s)) (enemies s) else 0)"
  using shockwavePass_shockwaves [of c x y "shockwaves s" s]
  by (simp_all add: shockwaveStep_def Let_def case_prod_beta shockwavePass_visited)

lemma spawnStep_fields:
  "player (spawnStep K c r x s) = player s"
  "gameState (spawnStep K c r x s) = gameState s"
  "score (spawnStep K c r x s) = score s"
  "elapsedTime (spawnStep K c r x s) = elapsedTime s"
  "invincibilityFrames (spawnStep K c r x s) = invincibilityFrames s"
  "particles (spawnStep K c r x s) = particles s"
  "pulses (spawnStep K c r x s) = pulses s"
  "shockwaves (spawnStep K c r x s) = shockwaves s"
  "shake (spawnStep K c r x s) = shake s"
  "shockwaveIdCounter (spawnStep K c r x s) = shockwaveIdCounter s"
  "enemies (spawnStep K c r x s) =
     enemies s @ (if spawns c r s then [spawnedEnemy K c r x s] else [])"
  by (simp_all add: spawnStep_def)

lemma enemyPass_same:
  "player (snd (enemyPass c x y es s)) = player s"
  "score (snd (enemyPass c x y es s)) = score s"
  "elapsedTime (snd (enemyPass c x y es s)) = elapsedTime s"
  "invincibilityFrames (snd (enemyPass c x y es s)) = invincibilityFrames s"
  "particles (snd (enemyPass c x y es s)) = particles s"
  "pulses (snd (enemyPass c x y es s)) = pulses s"
  "shockwaves (snd (enemyPass c x y es s)) = shockwaves s"
  "shake (snd (enemyPass c x y es s)) = shake s"
  "enemyIdCounter (snd (enemyPass c x y es s)) = enemyIdCounter s"
  "shockwaveIdCounter (snd (enemyPass c x y es s)) = shockwaveIdCounter s"
  by (induction es arbitrary: s; simp add: Let_def case_prod_beta)+

lemma enemyPass_moved:
  "fst (enemyPass c x y es s) = map moveEnemy es"
  by (induction es arbitrary: s) (simp_all add: Let_def case_prod_beta)

lemma contact_cong:
  "invincibilityFrames s' = invincibilityFrames s \<Longrightarrow> p_width (player s') = p_width (player s) \<Longrightarrow>
   contact x y s' e = contact x y s e"
  by (simp add: contact_def)

lemma enemyPass_gameState:
  "gameState (snd (enemyPass c x y es s)) =
     (if \<exists>e \<in> set es. contact x y s (moveEnemy e) then GAMEOVER else gameState s)"
proof (induction es arbitrary: s)
  case Nil
  show ?case by simp
next
  case (Cons e es)
  have same: "contact x y (playSound c CueShockwave (s\<lparr>gameState := GAMEOVER\<rparr>)) e' = contact x y s e'" for e'
    by (rule contact_cong) simp_all
  show ?case
    by (auto simp add: Let_def case_prod_beta Cons.IH same)
qed

lemma enemyStep_fields:
  "player (enemyStep K c x y s) = player s"
  "score (enemyStep K c x y s) = score s"
  "elapsedTime (enemyStep K c x y s) = elapsedTime s"
  "invincibilityFrames (enemyStep K c x y s) = invincibilityFrames s"
  "particles (enemyStep K c x y s) = particles s"
  "pulses (enemyStep K c x y s) = pulses s"
  "shockwaves (enemyStep K c x y s) = shockwaves s"
  "shake (enemyStep K c x y s) = shake s"
  "enemyIdCounter (enemyStep K c x y s) = enemyIdCounter s"
  "shockwaveIdCounter (enemyStep K c x y s) = shockwaveIdCounter s"
  "gameState (enemyStep K c x y s) =
     (if \<exists>e \<in> set (enemies s). contact x y s (moveEnemy e) then GAMEOVER else gameState s)"
  "enemies (enemyStep K c x y s) =
     filter (\<lambda>e. \<not> e_isDead e \<and> e_y e < GAME_HEIGHT K + 50) (map moveEnemy (enemies s))"
  by (simp_all add: enemyStep_def Let_def case_prod_beta enemyPass_same enemyPass_moved
        enemyPass_gameState)

lemma beforeSpawn_fields:
  "elapsedTime (beforeSpawn K c r s) = elapsedTime s + 1"
  "score (beforeSpawn K c r s) = \<lfloor>(elapsedTime s + 1) / 60\<rfloor> * 10"
  "invincibilityFrames (beforeSpawn K c r s) =
     (if invincibilityFrames s > 0 then invincibilityFrames s - 1 else invincibilityFrames s)"
  "enemyIdCounter (beforeSpawn K c r s) = enemyIdCounter s"
  "p_fuel (player (beforeSpawn K c r s)) = p_fuel (regenFuel c (player s))"
  "p_maxFuel (player (beforeSpawn K c r s)) = p_maxFuel (player s)"
  "p_width (player (beforeSpawn K c r s)) = p_width (player s)"
  "p_height (player (beforeSpawn K c r s)) = p_height (player s)"
  "p_y (player (beforeSpawn K c r s)) = p_y (player s) + (p_vy (player s) + gravity c)"
  "p_vy (player (beforeSpawn K c r s)) = p_vy (player s) + gravity c"
  "gameState (beforeSpawn K c r s) =
     (if p_y (player s) + (p_vy (player s) + gravity c) > GAME_HEIGHT K then GAMEOVER
      else gameState s)"
  by (simp_all add: beforeSpawn_def Let_def shockwaveStep_fields fallCheck_fields walls_fields
        regenFuel_fields integratePlayer_fields regenFuel_def)

lemma beforeSpawn_enemies:
  "enemies (beforeSpawn K c r s) =
     map (\<lambda>e. if swHit (map (advanceShockwave (centerX (player s)) (centerY (player s)))
                          (shockwaves s)) e
              then e\<lparr>e_isDead := True\<rparr> else e) (enemies s)"
  by (simp add: beforeSpawn_def Let_def shockwaveStep_enemies fallCheck_fields walls_fields)

lemma beforeSpawn_shockwaves:
  "shockwaves (beforeSpawn K c r s) =
     filter (\<lambda>sw. sw_life sw > 0)
       (map (advanceShockwave (centerX (player s)) (centerY (player s))) (shockwaves s) @
        (if burningEnabled c
         then map (newShockwave c (centerX (player s)) (centerY (player s)) 0.8)
                [shockwaveIdCounter s ..<
                 shockwaveIdCounter s +
                 swKills (map (advanceShockwave (centerX (player s)) (centerY (player s)))
                            (shockwaves s)) (enemies s)]
         else []))"
  "shockwaveIdCounter (beforeSpawn K c r s) =
     shockwaveIdCounter s +
     (if burningEnabled c
      then swKills (map (advanceShockwave (centerX (player s)) (centerY (player s)))
                      (shockwaves s)) (enemies s)
      else 0)"
  by (simp_all add: beforeSpawn_def Let_def shockwaveStep_shockwaves fallCheck_fields walls_fields)

lemma update_idle:
  "gameState s \<noteq> PLAYING \<Longrightarrow> update K c r s = s\<lparr>elapsedTime := elapsedTime s + 1\<rparr>"
  by (simp add: update_def)

lemma update_playing:
  "gameState s = PLAYING \<Longrightarrow>
   update K c r s =
     enemyStep K c (centerX (player s)) (centerY (player s))
       (spawnStep K c r (centerX (player s)) (beforeSpawn K c r s))"
  by (simp add: update_def Let_def)

lemma update_fields:
  "elapsedTime (update K c r s) = elapsedTime s + 1"
  "gameState s = PLAYING \<Longrightarrow> score (update K c r s) = \<lfloor>(elapsedTime s + 1) / 60\<rfloor> * 10"
  "gameState s = PLAYING \<Longrightarrow> player (update K c r s) = player (beforeSpawn K c r s)"
  "gameState s = PLAYING \<Longrightarrow> shockwaves (update K c r s) = shockwaves (beforeSpawn K c r s)"
  "gameState s = PLAYING \<Longrightarrow>
     shockwaveIdCounter (update K c r s) = shockwaveIdCounter (beforeSpawn K c r s)"
  "gameState s = PLAYING \<Longrightarrow>
     enemies (update K c r s) =
       filter (\<lambda>e. \<not> e_isDead e \<and> e_y e < GAME_HEIGHT K + 50)
         (map moveEnemy (enemies (spawnStep K c r (centerX (player s)) (beforeSpawn K c r s))))"
  "gameState s = PLAYING \<Longrightarrow>
     gameState (update K c r s) =
       (if \<exists>e \<in> set (enemies (spawnStep K c r (centerX (player s)) (beforeSpawn K c r s))).
             contact (centerX (player s)) (centerY (player s)) (beforeSpawn K c r s) (moveEnemy e)
        then GAMEOVER else gameState (beforeSpawn K c r s))"
proof -
  show "elapsedTime (update K c r s) = elapsedTime s + 1"
    by (cases "gameState s = PLAYING")
       (simp_all add: update_idle update_playing enemyStep_fields spawnStep_fields beforeSpawn_fields)
next
  assume "gameState s = PLAYING"
  then show "gameState (update K c r s) =
       (if \<exists>e \<in> set (enemies (spawnStep K c r (centerX (player s)) (beforeSpawn K c r s))).
             contact (centerX (player s)) (centerY (player s)) (beforeSpawn K c r s) (moveEnemy e)
        then GAMEOVER else gameState (beforeSpawn K c r s))"
    by (simp add: update_playing enemyStep_fields spawnStep_fields
          contact_cong [of "spawnStep K c r (centerX (player s)) (beforeSpawn K c r s)" "beforeSpawn K c r s"])
qed (simp_all add: update_playing enemyStep_fields spawnStep_fields beforeSpawn_fields)

lemma executeJump_same:
  "gameState (executeJump K c rs mx my s) = gameState s"
  "score (executeJump K c rs mx my s) = score s"
  "elapsedTime (executeJump K c rs mx my s) = elapsedTime s"
  "enemyIdCounter (executeJump K c rs mx my s) = enemyIdCounter s"
  "p_maxFuel (player (executeJump K c rs mx my s)) = p_maxFuel (player s)"
  "p_x (player (executeJump K c rs mx my s)) = p_x (player s)"
  "p_y (player (executeJump K c rs mx my s)) = p_y (player s)"
  "p_width (player (executeJump K c rs mx my s)) = p_width (player s)"
  "p_height (player (executeJump K c rs mx my s)) = p_height (player s)"
  by (simp_all add: executeJump_def Let_def case_prod_beta pulsePass_same pulsePass_player)

lemma fuelInv_reset: "0 \<le> MAX_FUEL K \<Longrightarrow> fuelInv (resetGame K c s)"
  by (simp add: fuelInv_def resetGame_fields newPlayer_def)

lemma fuelInv_init: "0 \<le> MAX_FUEL K \<Longrightarrow> fuelInv (initialState K c)"
  by (simp add: fuelInv_def initialState_def newPlayer_def)

lemma fuelInv_jump:
  assumes "0 \<le> fuelConsumption c" "fuelInv s"
  shows "fuelInv (executeJump K c rs mx my s)"
proof (cases "p_fuel (player s) < fuelConsumption c")
  case True
  then show ?thesis using assms by (simp add: executeJump_rejected_eq fuelInv_def)
next
  case False
  then show ?thesis
    using assms by (simp add: fuelInv_def executeJump_fuel executeJump_same)
qed

lemma fuelInv_update:
  assumes "0 \<le> fuelRegen c" "fuelInv s"
  shows "fuelInv (update K c r s)"
proof (cases "gameState s = PLAYING")
  case True
  then show ?thesis
    using assms by (simp add: fuelInv_def update_fields beforeSpawn_fields regenFuel_def)
next
  case False
  then show ?thesis using assms by (simp add: update_idle fuelInv_def)
qed

lemma fuelInv_interaction:
  assumes "0 \<le> MAX_FUEL K" "0 \<le> fuelConsumption c" "fuelInv s"
    and "handleGlobalInteraction K c rs i s = Some s'"
  shows "fuelInv s'"
  using assms fuelInv_reset [of K c s] fuelInv_jump [of c s K rs]
  by (auto simp add: handleGlobalInteraction_def Let_def split: if_splits)

lemma fuelInv_resize: "fuelInv s \<Longrightarrow> fuelInv (syncPlayerSize c s)"
  by (simp add: fuelInv_def syncPlayerSize_def)

lemma fuelInv_reach:
  assumes "0 \<le> MAX_FUEL K" "\<forall>c \<in> C. 0 \<le> fuelConsumption c \<and> 0 \<le> fuelRegen c"
    and "reach K C s"
  shows "fuelInv s"
  using assms(3)
proof (induction rule: reach.induct)
  case (reach_init c)
  show ?case using assms(1) by (rule fuelInv_init)
next
  case (reach_tick s c r)
  then show ?case using assms(2) by (simp add: fuelInv_update)
next
  case (reach_interaction s c rs i s')
  then show ?case using assms(1,2) fuelInv_interaction [of K c s rs i s'] by simp
next
  case (reach_resize s c)
  then show ?case by (simp add: fuelInv_resize)
qed

text \<open>
  Claim C3. With \<open>fuelConsumption \<ge> 0\<close> and \<open>fuelRegen \<ge> 0\<close> in every configuration the
  session uses, every reachable state has \<open>0 \<le> player.fuel \<le> player.maxFuel\<close>, and each of
  the tick, the jump and the reset keeps that invariant from any state that has it. The
  constant \<open>PHYSICS.MAX_FUEL\<close>, to which a reset sets both \<open>fuel\<close> and \<open>maxFuel\<close>, is a
  parameter here and is taken to be non-negative.
\<close>

theorem fuel_invariant:
  assumes "0 \<le> MAX_FUEL K"
    and "\<forall>c \<in> C. 0 \<le> fuelConsumption c \<and> 0 \<le> fuelRegen c"
  shows "(reach K C s \<longrightarrow> 0 \<le> p_fuel (player s) \<and> p_fuel (player s) \<le> p_maxFuel (player s))
    \<and> (\<forall>c \<in> C. fuelInv s \<longrightarrow>
          fuelInv (update K c r s) \<and> fuelInv (executeJump K c rs mx my s)
          \<and> fuelInv (resetGame K c s))"
  using assms fuelInv_reach [of K C s] fuelInv_update fuelInv_jump fuelInv_reset
  by (auto simp add: fuelInv_def)

lemma reach_freshGame: "reach sampleConstants {defaultConfig} freshGame"
proof -
  have "handleGlobalInteraction sampleConstants defaultConfig zeroDraws (mouseAt 200 300)
          (initialState sampleConstants defaultConfig) = Some freshGame"
    by (simp add: handleGlobalInteraction_def mouseAt_def initialState_def freshGame_def)
  moreover have "reach sampleConstants {defaultConfig} (initialState sampleConstants defaultConfig)"
    by (rule reach_init) simp
  moreover have "unitStream zeroDraws"
    by (simp add: unitStream_def zeroDraws_def)
  ultimately show ?thesis
    using reach_interaction [of sampleConstants "{defaultConfig}" _ defaultConfig zeroDraws]
    by blast
qed

theorem fuel_invariant_witness:
  "0 \<le> MAX_FUEL sampleConstants
   \<and> 0 \<le> fuelConsumption defaultConfig \<and> 0 \<le> fuelRegen defaultConfig
   \<and> reach sampleConstants {defaultConfig} freshGame
   \<and> 0 \<le> p_fuel (player freshGame) \<and> p_fuel (player freshGame) \<le> p_maxFuel (player freshGame)
   \<and> fuelInv (update sampleConstants defaultConfig zeroTick freshGame)
   \<and> fuelInv (executeJump sampleConstants defaultConfig zeroDraws 200 300 freshGame)
   \<and> fuelInv (resetGame sampleConstants defaultConfig freshGame)"
proof -
  have a: "0 \<le> MAX_FUEL sampleConstants" by (simp add: sampleConstants_fields)
  have b: "\<forall>c \<in> {defaultConfig}. 0 \<le> fuelConsumption c \<and> 0 \<le> fuelRegen c"
    by (simp add: defaultConfig_fields)
  have i: "fuelInv freshGame" by (simp add: fuelInv_def freshGame_player)
  show ?thesis
    using fuel_invariant [OF a b, of freshGame zeroTick zeroDraws 200 300] a b i reach_freshGame
    by simp
qed

lemma ticks_append: "ticks K (xs @ ys) s = ticks K ys (ticks K xs s)"
  by (induction xs arbitrary: s) auto

lemma ticks_elapsed: "elapsedTime (ticks K crs s) = elapsedTime s + real (length crs)"
  by (induction crs arbitrary: s) (auto simp add: update_fields)

lemma ticks_gameover:
  "gameState s = GAMEOVER \<Longrightarrow>
   gameState (ticks K crs s) = GAMEOVER \<and> score (ticks K crs s) = score s"
  by (induction crs arbitrary: s) (auto simp add: update_idle)

lemma update_score_playing:
  "gameState s = PLAYING \<Longrightarrow>
   score (update K c r s) = \<lfloor>elapsedTime (update K c r s) / 60\<rfloor> * 10"
  by (simp add: update_fields)

lemma scoreInv_update: "scoreInv s \<Longrightarrow> scoreInv (update K c r s)"
  by (cases "gameState s = PLAYING") (simp_all add: scoreInv_def update_fields update_idle)

lemma scoreInv_interaction:
  "scoreInv s \<Longrightarrow> handleGlobalInteraction K c rs i s = Some s' \<Longrightarrow> scoreInv s'"
  by (auto simp add: handleGlobalInteraction_def Let_def scoreInv_def resetGame_fields
        executeJump_same split: if_splits)

lemma scoreInv_reach: "reach K C s \<Longrightarrow> scoreInv s"
proof (induction rule: reach.induct)
  case (reach_init c)
  show ?case by (simp add: scoreInv_def initialState_def)
next
  case (reach_tick s c r)
  then show ?case by (simp add: scoreInv_update)
next
  case (reach_interaction s c rs i s')
  then show ?case using scoreInv_interaction by blast
next
  case (reach_resize s c)
  then show ?case by (simp add: scoreInv_def syncPlayerSize_def)
qed

lemma ticks_last_playing:
  assumes "crs \<noteq> []" "gameState (ticks K (butlast crs) s) = PLAYING"
  shows "score (ticks K crs s) = \<lfloor>(elapsedTime s + real (length crs)) / 60\<rfloor> * 10"
proof -
  obtain c r where l: "last crs = (c, r)" by (cases "last crs")
  have crs: "crs = butlast crs @ [(c, r)]"
    using assms(1) l by (metis append_butlast_last_id)
  have "ticks K crs s = update K c r (ticks K (butlast crs) s)"
    by (subst crs) (simp add: ticks_append)
  then have "score (ticks K crs s) = \<lfloor>elapsedTime (ticks K crs s) / 60\<rfloor> * 10"
    using assms(2) update_score_playing by simp
  then show ?thesis by (simp add: ticks_elapsed)
qed

text \<open>
  Claim C4. In every reachable state that is \<open>PLAYING\<close> the score is
  \<open>floor(elapsedTime / 60) * 10\<close>; after a reset followed by 180 ticks, each of which starts
  in \<open>PLAYING\<close>, the score is 30; a tick that starts in \<open>PLAYING\<close> leaves the score at that
  formula's value, also when it is the tick of the transition to \<open>GAMEOVER\<close>; and from a
  \<open>GAMEOVER\<close> state any number of ticks leaves the state \<open>GAMEOVER\<close> and the score as it was.
\<close>

theorem score_formula:
  "(reach K C s \<and> gameState s = PLAYING \<longrightarrow> score s = \<lfloor>elapsedTime s / 60\<rfloor> * 10)
   \<and> (length crs = 180
       \<and> (\<forall>k < 180. gameState (ticks K (take k crs) (resetGame K c0 s0)) = PLAYING)
       \<longrightarrow> score (ticks K crs (resetGame K c0 s0)) = 30)
   \<and> (gameState s = PLAYING \<longrightarrow>
        score (update K c r s) = \<lfloor>elapsedTime (update K c r s) / 60\<rfloor> * 10)
   \<and> (gameState s = GAMEOVER \<longrightarrow>
        gameState (ticks K crs s) = GAMEOVER \<and> score (ticks K crs s) = score s)"
proof -
  have a: "reach K C s \<and> gameState s = PLAYING \<longrightarrow> score s = \<lfloor>elapsedTime s / 60\<rfloor> * 10"
    using scoreInv_reach [of K C s] by (simp add: scoreInv_def)
  have b: "score (ticks K crs (resetGame K c0 s0)) = 30"
    if len: "length crs = 180"
      and play: "\<forall>k < 180. gameState (ticks K (take k crs) (resetGame K c0 s0)) = PLAYING"
  proof -
    have ne: "crs \<noteq> []" using len by auto
    have "gameState (ticks K (take 179 crs) (resetGame K c0 s0)) = PLAYING"
      using play by simp
    then have "gameState (ticks K (butlast crs) (resetGame K c0 s0)) = PLAYING"
      using len by (simp add: butlast_conv_take)
    from ticks_last_playing [OF ne this] show ?thesis
      by (simp add: len resetGame_fields)
  qed
  show ?thesis
    using a b update_score_playing [of s K c r] ticks_gameover [of s K crs] by blast
qed

lemma calm_no_spawn:
  "enemySpawnRate c = 0 \<Longrightarrow> difficultyScale c = 0 \<Longrightarrow> 0 \<le> r_spawn r \<Longrightarrow> \<not> spawns c r s"
  by (simp add: spawns_def finalSpawnRate_def split: option.split)

lemma calmConfig_fields:
  "gravity calmConfig = 0" "enemySpawnRate calmConfig = 0" "difficultyScale calmConfig = 0"
  "playerSize calmConfig = 20"
  by (simp_all add: calmConfig_def defaultConfig_fields)

lemma calm_update:
  assumes "calm s" "0 \<le> r_spawn r"
  shows "calm (update sampleConstants calmConfig r s)"
proof -
  have p: "gameState s = PLAYING" using assms(1) by (simp add: calm_def)
  have ns: "\<not> spawns calmConfig r s'" for s'
    using assms(2) by (simp add: calm_no_spawn calmConfig_fields)
  show ?thesis
    using assms(1) p
    by (simp add: calm_def update_fields beforeSpawn_fields beforeSpawn_enemies
          beforeSpawn_shockwaves spawnStep_fields ns calmConfig_fields sampleConstants_fields
          swKills_def)
qed

lemma calm_ticks: "calm s \<Longrightarrow> calm (ticks sampleConstants (calmTicks n) s)"
proof (induction n arbitrary: s)
  case 0
  then show ?case by (simp add: calmTicks_def)
next
  case (Suc n)
  have "calm (update sampleConstants calmConfig zeroTick s)"
    using Suc.prems by (rule calm_update) (simp add: zeroTick_def)
  from Suc.IH [OF this] show ?case by (simp add: calmTicks_def)
qed

lemma calm_reset: "calm (resetGame sampleConstants calmConfig s)"
  by (simp add: calm_def resetGame_fields newPlayer_def sampleConstants_fields)

theorem score_formula_witness:
  "reach sampleConstants {defaultConfig} freshGame \<and> gameState freshGame = PLAYING
   \<and> score freshGame = 0
   \<and> length (calmTicks 180) = 180
   \<and> gameState (ticks sampleConstants (take 0 (calmTicks 180))
                   (resetGame sampleConstants calmConfig freshGame)) = PLAYING
   \<and> gameState (ticks sampleConstants (take 179 (calmTicks 180))
                   (resetGame sampleConstants calmConfig freshGame)) = PLAYING
   \<and> score (ticks sampleConstants (calmTicks 180)
              (resetGame sampleConstants calmConfig freshGame)) = 30
   \<and> score (update sampleConstants defaultConfig zeroTick freshGame) = 0
   \<and> gameState gameOverAt20 = GAMEOVER
   \<and> gameState (ticks sampleConstants (calmTicks 180) gameOverAt20) = GAMEOVER
   \<and> score (ticks sampleConstants (calmTicks 180) gameOverAt20) = 20"
proof -
  have len: "length (calmTicks 180) = 180" by (simp add: calmTicks_def)
  have play: "\<forall>k < 180. gameState (ticks sampleConstants (take k (calmTicks 180))
                      (resetGame sampleConstants calmConfig freshGame)) = PLAYING"
  proof (intro allI impI)
    fix k :: nat
    assume "k < 180"
    then have "take k (calmTicks 180) = calmTicks k"
      by (simp add: calmTicks_def min_def)
    then show "gameState (ticks sampleConstants (take k (calmTicks 180))
                      (resetGame sampleConstants calmConfig freshGame)) = PLAYING"
      using calm_ticks [OF calm_reset, of k freshGame] by (simp add: calm_def)
  qed
  have e: "elapsedTime freshGame = 0" "score freshGame = 0"
    by (simp_all add: freshGame_def resetGame_fields)
  have g: "gameState gameOverAt20 = GAMEOVER" "score gameOverAt20 = 20"
    by (simp_all add: gameOverAt20_def)
  show ?thesis
    using score_formula [of sampleConstants "{defaultConfig}" freshGame "calmTicks 180"
            calmConfig freshGame defaultConfig zeroTick]
      score_formula [of sampleConstants "{defaultConfig}" gameOverAt20 "calmTicks 180"
            calmConfig freshGame defaultConfig zeroTick]
      len play reach_freshGame e g spec [OF play, of 0] spec [OF play, of 179]
    by (simp add: freshGame_simps update_fields)
qed

lemma executeJump_ids:
  "map e_id (enemies (executeJump K c rs mx my s)) = map e_id (enemies s)"
proof (cases "p_fuel (player s) < fuelConsumption c")
  case True
  then show ?thesis by (simp add: executeJump_rejected_eq)
next
  case False
  then show ?thesis by (simp add: executeJump_enemies comp_def)
qed

lemma update_fall:
  "gameState s = PLAYING \<Longrightarrow> p_y (player (update K c r s)) > GAME_HEIGHT K \<Longrightarrow>
   gameState (update K c r s) = GAMEOVER"
  by (simp add: update_fields beforeSpawn_fields)

text \<open>
  Claim C5. An interaction is a touch, or a mouse press while the pointer is over the game
  (the handler drops every other event before it looks at the game state). Received in
  \<open>START\<close> or \<open>GAMEOVER\<close> it runs \<open>resetGame\<close>: the state becomes \<open>PLAYING\<close>, the score and the
  elapsed time 0, the enemy, particle, pulse and shockwave collections empty, the player
  the initial one (fuel equal to \<open>maxFuel\<close>, velocity zero), the invincibility timer 0.
  Received in \<open>PLAYING\<close> it resets nothing: the state stays \<open>PLAYING\<close>, score, elapsed time,
  the enemies' identities and the player's position are kept, and the result is the state
  itself or that of a jump; it does return a state when the canvas rectangle has non-zero
  width and height. A tick that starts in \<open>PLAYING\<close> and moves the player below
  \<open>GAME_HEIGHT\<close> ends in \<open>GAMEOVER\<close>.
\<close>

theorem interaction_state_machine:
  "((isMouseOver i \<or> isTouch (pointerEvent i)) \<and> (gameState s = START \<or> gameState s = GAMEOVER)
      \<longrightarrow> handleGlobalInteraction K c rs i s = Some (resetGame K c s)
          \<and> gameState (resetGame K c s) = PLAYING
          \<and> score (resetGame K c s) = 0 \<and> elapsedTime (resetGame K c s) = 0
          \<and> enemies (resetGame K c s) = [] \<and> particles (resetGame K c s) = []
          \<and> pulses (resetGame K c s) = [] \<and> shockwaves (resetGame K c s) = []
          \<and> player (resetGame K c s) = newPlayer K c
          \<and> p_fuel (newPlayer K c) = p_maxFuel (newPlayer K c)
          \<and> p_vx (newPlayer K c) = 0 \<and> p_vy (newPlayer K c) = 0
          \<and> invincibilityFrames (resetGame K c s) = 0)
   \<and> (gameState s = PLAYING \<and> handleGlobalInteraction K c rs i s = Some s'
      \<longrightarrow> gameState s' = PLAYING \<and> score s' = score s \<and> elapsedTime s' = elapsedTime s
          \<and> map e_id (enemies s') = map e_id (enemies s)
          \<and> p_x (player s') = p_x (player s) \<and> p_y (player s') = p_y (player s)
          \<and> (s' = s \<or> (\<exists>mx my. s' = executeJump K c rs mx my s)))
   \<and> (gameState s = PLAYING \<and> rect_width (rect i) \<noteq> 0 \<and> rect_height (rect i) \<noteq> 0
      \<longrightarrow> handleGlobalInteraction K c rs i s \<noteq> None)
   \<and> (gameState s = PLAYING \<and> p_y (player (update K c r s)) > GAME_HEIGHT K
      \<longrightarrow> gameState (update K c r s) = GAMEOVER)"
proof -
  have a: "handleGlobalInteraction K c rs i s = Some (resetGame K c s)"
    if "isMouseOver i \<or> isTouch (pointerEvent i)" "gameState s = START \<or> gameState s = GAMEOVER"
    using that by (auto simp add: handleGlobalInteraction_def Let_def)
  have b: "gameState s' = PLAYING \<and> score s' = score s \<and> elapsedTime s' = elapsedTime s
          \<and> map e_id (enemies s') = map e_id (enemies s)
          \<and> p_x (player s') = p_x (player s) \<and> p_y (player s') = p_y (player s)
          \<and> (s' = s \<or> (\<exists>mx my. s' = executeJump K c rs mx my s))"
    if "gameState s = PLAYING" "handleGlobalInteraction K c rs i s = Some s'"
    using that
    by (auto simp add: handleGlobalInteraction_def Let_def executeJump_same executeJump_ids
          split: if_splits)
  have d: "handleGlobalInteraction K c rs i s \<noteq> None"
    if "gameState s = PLAYING" "rect_width (rect i) \<noteq> 0" "rect_height (rect i) \<noteq> 0"
    using that by (simp add: handleGlobalInteraction_def Let_def)
  show ?thesis
    using a b d update_fall [of s K c r]
    by (simp add: resetGame_fields newPlayer_def)
qed

theorem interaction_state_machine_witness:
  "isMouseOver (mouseAt 200 300)
   \<and> gameState (initialState sampleConstants defaultConfig) = START
   \<and> handleGlobalInteraction sampleConstants defaultConfig zeroDraws (mouseAt 200 300)
       (initialState sampleConstants defaultConfig) = Some freshGame
   \<and> gameState freshGame = PLAYING
   \<and> handleGlobalInteraction sampleConstants defaultConfig zeroDraws (mouseAt 200 300) freshGame =
       Some (executeJump sampleConstants defaultConfig zeroDraws 200 300 freshGame)
   \<and> score (executeJump sampleConstants defaultConfig zeroDraws 200 300 freshGame) = score freshGame
   \<and> gameState fallingGame = PLAYING
   \<and> p_y (player (update sampleConstants defaultConfig zeroTick fallingGame))
       > GAME_HEIGHT sampleConstants
   \<and> gameState (update sampleConstants defaultConfig zeroTick fallingGame) = GAMEOVER"
proof -
  have m: "isMouseOver (mouseAt 200 300)" by (simp add: mouseAt_def)
  have st: "gameState (initialState sampleConstants defaultConfig) = START"
    by (simp add: initialState_def)
  have h: "handleGlobalInteraction sampleConstants defaultConfig zeroDraws (mouseAt 200 300) freshGame =
       Some (executeJump sampleConstants defaultConfig zeroDraws 200 300 freshGame)"
    by (simp add: handleGlobalInteraction_def Let_def mouseAt_def freshGame_simps
          sampleConstants_fields)
  have fg: "gameState fallingGame = PLAYING"
    by (simp add: fallingGame_def freshGame_simps)
  have fy: "p_y (player (update sampleConstants defaultConfig zeroTick fallingGame))
       > GAME_HEIGHT sampleConstants"
  proof -
    have "p_y (player (update sampleConstants defaultConfig zeroTick fallingGame)) =
        p_y (player fallingGame) + (p_vy (player fallingGame) + gravity defaultConfig)"
      using fg by (simp add: update_fields beforeSpawn_fields)
    then show ?thesis
      by (simp add: fallingGame_def freshGame_player defaultConfig_fields sampleConstants_fields)
  qed
  show ?thesis
    using interaction_state_machine [of "mouseAt 200 300" "initialState sampleConstants defaultConfig"
        sampleConstants defaultConfig zeroDraws freshGame zeroTick]
      interaction_state_machine [of "mouseAt 200 300" freshGame
        sampleConstants defaultConfig zeroDraws
        "executeJump sampleConstants defaultConfig zeroDraws 200 300 freshGame" zeroTick]
      interaction_state_machine [of "mouseAt 200 300" fallingGame
        sampleConstants defaultConfig zeroDraws freshGame zeroTick]
      m st h fg fy
    by (simp add: freshGame_simps freshGame_def)
qed

lemma waveFactor_pos: "0 < waveFactor x"
proof -
  have "- 1 \<le> sin (x * 0.8)" by simp
  then show ?thesis unfolding waveFactor_def by linarith
qed

lemma waveFactor_le: "waveFactor x \<le> 1.6"
proof -
  have "sin (x * 0.8) \<le> 1" by simp
  then show ?thesis unfolding waveFactor_def by linarith
qed

lemma spawns_zero_draw:
  assumes "curveValue c (elapsedTime s / 60) = Some v"
    and "0 < enemySpawnRate c + v * 0.1 * difficultyScale c"
    and "r_spawn r = 0"
  shows "spawns c r s"
  using assms waveFactor_pos [of "elapsedTime s / 60"]
  by (simp add: spawns_def finalSpawnRate_def)

lemma curveValue_default_first:
  "curveValue defaultConfig (1 / 60) = Some (300130952380952381 / 3000000000000000000)"
  by (simp add: curveValue_def Let_def jsRem_def nthOpt_def defaultConfig_def)

lemma spawns_wall: "elapsedTime s = 1 \<Longrightarrow> spawns defaultConfig wallDraws s"
  by (rule spawns_zero_draw [where v = "300130952380952381 / 3000000000000000000"])
     (simp_all add: curveValue_default_first defaultConfig_fields wallDraws_def)

lemma nearLeftWall_fields:
  "gameState nearLeftWall = PLAYING" "enemies nearLeftWall = []" "shockwaves nearLeftWall = []"
  "elapsedTime nearLeftWall = 0" "enemyIdCounter nearLeftWall = 0"
  by (simp_all add: nearLeftWall_def freshGame_def resetGame_fields initialState_def)

lemma nearLeftWall_player:
  "player nearLeftWall =
     \<lparr>p_x = 20, p_y = 200, p_width = 20, p_height = 20, p_vx = 0, p_vy = 0,
      p_fuel = 100, p_maxFuel = 100, p_flashTimer = 0\<rparr>"
  by (simp add: nearLeftWall_def freshGame_player)

lemma walls_inside:
  "0 \<le> p_x (player s) \<Longrightarrow> p_x (player s) \<le> GAME_WIDTH K - p_width (player s) \<Longrightarrow>
   wallRight K c (wallLeft c s) = s"
  by (simp add: wallRight_def wallLeft_def)

lemma beforeSpawn_player_inside:
  assumes "0 \<le> p_x (player s) + p_vx (player s)"
    and "p_x (player s) + p_vx (player s) \<le> GAME_WIDTH K - p_width (player s)"
  shows "p_x (player (beforeSpawn K c r s)) = p_x (player s) + p_vx (player s)"
    and "p_vx (player (beforeSpawn K c r s)) = p_vx (player s) * AIR_RESISTANCE K"
proof -
  let ?s3 = "s\<lparr>elapsedTime := elapsedTime s + 1,
               score := \<lfloor>(elapsedTime s + 1) / 60\<rfloor> * 10,
               invincibilityFrames :=
                 (if invincibilityFrames s > 0 then invincibilityFrames s - 1
                  else invincibilityFrames s),
               player := integratePlayer K c (player s)\<rparr>"
  have w: "wallRight K c (wallLeft c ?s3) = ?s3"
    using assms by (intro walls_inside) (simp_all add: integratePlayer_fields)
  have b: "player (beforeSpawn K c r s) = regenFuel c (integratePlayer K c (player s))"
    unfolding beforeSpawn_def Let_def shockwaveStep_fields
    using w by (simp add: fallCheck_fields split: if_splits)
  show "p_x (player (beforeSpawn K c r s)) = p_x (player s) + p_vx (player s)"
    and "p_vx (player (beforeSpawn K c r s)) = p_vx (player s) * AIR_RESISTANCE K"
    by (simp_all add: b regenFuel_fields integratePlayer_fields)
qed

lemma pulsePass_shockwaves:
  "shockwaves (fst (snd (pulsePass c rs px py w isS es (s, k)))) =
     shockwaves s @
       (if burningEnabled c
        then map (newShockwave c px py 1)
               [shockwaveIdCounter s ..<
                shockwaveIdCounter s + length (filter (pulseHit px py w isS) es)]
        else [])
   \<and> shockwaveIdCounter (fst (snd (pulsePass c rs px py w isS es (s, k)))) =
       shockwaveIdCounter s +
       (if burningEnabled c then length (filter (pulseHit px py w isS) es) else 0)"
proof (induction es arbitrary: s k)
  case Nil
  show ?case by simp
next
  case (Cons e es)
  show ?case
  proof (cases "pulseHit px py w isS e")
    case True
    then have hit: "withinRayX px w e \<and> isAffected isS py e \<and> \<not> e_isDead e"
      by (simp add: pulseHit_def)
    let ?s4 = "(playSound c CueKill (triggerShockwave c px py 1
                 (s\<lparr>player := (player s)\<lparr>p_fuel := p_maxFuel (player s), p_flashTimer := 10\<rparr>\<rparr>)))
               \<lparr>particles := particles (playSound c CueKill (triggerShockwave c px py 1
                 (s\<lparr>player := (player s)\<lparr>p_fuel := p_maxFuel (player s), p_flashTimer := 10\<rparr>\<rparr>)))
                   @ killParticles rs k isS e\<rparr>"
    have step: "fst (snd (pulsePass c rs px py w isS (e # es) (s, k))) =
        fst (snd (pulsePass c rs px py w isS es (?s4, k + 2 * (if isS then 20 else 12))))"
      using hit by (simp add: Let_def case_prod_beta)
    have sw4: "shockwaves ?s4 =
        shockwaves s @ (if burningEnabled c then [newShockwave c px py 1 (shockwaveIdCounter s)] else [])"
      and n4: "shockwaveIdCounter ?s4 = shockwaveIdCounter s + (if burningEnabled c then 1 else 0)"
      by (simp_all add: triggerShockwave_chain)
    have cnt: "length (filter (pulseHit px py w isS) (e # es)) =
        Suc (length (filter (pulseHit px py w isS) es))"
      using True by simp
    show ?thesis
      unfolding step cnt
      using Cons.IH [of ?s4 "k + 2 * (if isS then 20 else 12)"]
      by (simp only: sw4 n4) (simp add: upt_conv_Cons del: upt_Suc)
  next
    case False
    then have nohit: "\<not> (withinRayX px w e \<and> isAffected isS py e \<and> \<not> e_isDead e)"
      by (simp add: pulseHit_def)
    have step: "fst (snd (pulsePass c rs px py w isS (e # es) (s, k))) =
        fst (snd (pulsePass c rs px py w isS es (s, k)))"
      using nohit by (auto simp add: Let_def case_prod_beta)
    have cnt: "length (filter (pulseHit px py w isS) (e # es)) =
        length (filter (pulseHit px py w isS) es)"
      using False by simp
    show ?thesis
      unfolding step cnt using Cons.IH [of s k] by simp
  qed
qed

lemma executeJump_shockwaves:
  "\<not> p_fuel (player s) < fuelConsumption c \<Longrightarrow>
   shockwaves (executeJump K c rs mx my s) =
     shockwaves s @
       (if burningEnabled c
        then map (newShockwave c (centerX (player s)) (centerY (player s)) 1)
               [shockwaveIdCounter s ..< shockwaveIdCounter s + killCount K c s]
        else [])
   \<and> shockwaveIdCounter (executeJump K c rs mx my s) =
       shockwaveIdCounter s + (if burningEnabled c then killCount K c s else 0)"
  using pulsePass_shockwaves
  by (simp add: executeJump_def Let_def case_prod_beta killCount_def jumpHits_def[abs_def])

lemma executeJump_invincibility:
  "invincibilityFrames (executeJump K c rs mx my s) =
     (if \<not> p_fuel (player s) < fuelConsumption c \<and> inDeadZone K c (player s) then 15
      else invincibilityFrames s)"
  by (simp add: executeJump_def Let_def case_prod_beta pulsePass_same)

lemma distance_vertical: "distance 0 d = \<bar>d\<bar>"
  by (simp add: distance_def)

lemma distance_less_iff: "0 \<le> t \<Longrightarrow> distance a b < t \<longleftrightarrow> a * a + b * b < t * t"
proof -
  assume t: "0 \<le> t"
  have "distance a b < t \<longleftrightarrow> sqrt (a * a + b * b) < sqrt (t * t)"
    using t by (simp add: distance_def)
  then show ?thesis by (simp only: real_sqrt_less_iff)
qed

lemma executeJump_player_down:
  assumes "\<not> p_fuel (player s) < fuelConsumption c" "centerY (player s) < my"
  shows "player (executeJump K c rs (centerX (player s)) my s) =
     (if \<exists>e \<in> set (enemies s). jumpHits K c s e
      then (player s)\<lparr>p_vx := 0,
              p_vy := - (if inDeadZone K c (player s)
                         then recoilForce c * superJumpMultiplier c else recoilForce c),
              p_fuel := p_maxFuel (player s), p_flashTimer := 10\<rparr>
      else (player s)\<lparr>p_vx := 0,
              p_vy := - (if inDeadZone K c (player s)
                         then recoilForce c * superJumpMultiplier c else recoilForce c),
              p_fuel := p_fuel (player s) - fuelConsumption c\<rparr>)"
proof -
  have d: "sqrt ((my - centerY (player s)) * (my - centerY (player s))) = my - centerY (player s)"
    using assms(2) by simp
  show ?thesis
    using assms
    by (simp add: executeJump_def Let_def case_prod_beta pulsePass_player jumpHits_def
          jumpDistance_def d)
qed

lemma beforeSpawn_player:
  assumes "0 \<le> p_x (player s) + p_vx (player s)"
    and "p_x (player s) + p_vx (player s) \<le> GAME_WIDTH K - p_width (player s)"
  shows "player (beforeSpawn K c r s) = regenFuel c (integratePlayer K c (player s))"
proof -
  let ?s3 = "s\<lparr>elapsedTime := elapsedTime s + 1,
               score := \<lfloor>(elapsedTime s + 1) / 60\<rfloor> * 10,
               invincibilityFrames :=
                 (if invincibilityFrames s > 0 then invincibilityFrames s - 1
                  else invincibilityFrames s),
               player := integratePlayer K c (player s)\<rparr>"
  have w: "wallRight K c (wallLeft c ?s3) = ?s3"
    using assms by (intro walls_inside) (simp_all add: integratePlayer_fields)
  show ?thesis
    unfolding beforeSpawn_def Let_def shockwaveStep_fields
    using w by (simp add: fallCheck_fields split: if_splits)
qed

lemma update_enemyIdCounter:
  "gameState s = PLAYING \<Longrightarrow>
   enemyIdCounter (update K c r s) =
     enemyIdCounter s + (if spawns c r (beforeSpawn K c r s) then 1 else 0)"
  by (simp add: update_playing enemyStep_fields spawnStep_def beforeSpawn_fields)

lemma spawns_high_draw:
  assumes "difficultyScale c = 0" "0 \<le> enemySpawnRate c" "enemySpawnRate c * 1.6 \<le> r_spawn r"
  shows "\<not> spawns c r s"
proof (cases "curveValue c (elapsedTime s / 60)")
  case None
  then show ?thesis by (simp add: spawns_def finalSpawnRate_def)
next
  case (Some v)
  have "enemySpawnRate c * waveFactor (elapsedTime s / 60) \<le> enemySpawnRate c * 1.6"
    using assms(2) waveFactor_le by (intro mult_left_mono) simp_all
  then show ?thesis
    using Some assms(1,3) by (simp add: spawns_def finalSpawnRate_def)
qed

lemma reach_mono: "reach K C s \<Longrightarrow> C \<subseteq> D \<Longrightarrow> reach K D s"
proof (induction rule: reach.induct)
  case (reach_init c)
  then show ?case by (auto intro: reach.reach_init)
next
  case (reach_tick s c r)
  then show ?case by (auto intro: reach.reach_tick)
next
  case (reach_interaction s c rs i s')
  then show ?case by (auto intro: reach.reach_interaction)
next
  case (reach_resize s c)
  then show ?case by (auto intro: reach.reach_resize)
qed

lemma scenarioConfig_fields:
  "gravity (scenarioConfig K) = 0" "recoilForce (scenarioConfig K) = GAME_HEIGHT K / 2 - 23"
  "fuelRegen (scenarioConfig K) = 0.1" "fuelConsumption (scenarioConfig K) = 0"
  "enemySpawnRate (scenarioConfig K) = 0.01" "difficultyScale (scenarioConfig K) = 0"
  "deadJumpEnabled (scenarioConfig K) = False" "burningEnabled (scenarioConfig K) = True"
  "burningRadius (scenarioConfig K) = 80" "burningDuration (scenarioConfig K) = 2"
  "playerSize (scenarioConfig K) = 100"
  "spawnCurve (scenarioConfig K) = spawnCurve defaultConfig"
  by (simp_all add: scenarioConfig_def defaultConfig_fields)

lemma curveValue_scenario:
  "elapsedTime s = 1 \<or> elapsedTime s = 2 \<Longrightarrow>
   curveValue (scenarioConfig K) (elapsedTime s / 60) \<noteq> None"
  by (auto simp add: curveValue_def Let_def jsRem_def nthOpt_def scenarioConfig_fields
        defaultConfig_def)

lemma scenario_spawns:
  assumes "elapsedTime s = 1 \<or> elapsedTime s = 2" "r_spawn r = 0"
  shows "spawns (scenarioConfig K) r s"
proof -
  obtain v where v: "curveValue (scenarioConfig K) (elapsedTime s / 60) = Some v"
    using curveValue_scenario [OF assms(1), of K] by auto
  show ?thesis
    by (rule spawns_zero_draw [OF v _ assms(2)]) (simp add: scenarioConfig_fields)
qed

lemma scenario_no_spawn: "\<not> spawns (scenarioConfig K) drawsNone s"
  by (rule spawns_high_draw) (simp_all add: scenarioConfig_fields drawsNone_def)

lemma far_x: "0 \<le> t \<Longrightarrow> t * t \<le> a * a \<Longrightarrow> \<not> distance a b < t"
proof -
  assume t: "0 \<le> t" and a: "t * t \<le> a * a"
  have "0 \<le> b * b" by simp
  then have "\<not> a * a + b * b < t * t" using a by linarith
  then show ?thesis using t by (simp add: distance_less_iff)
qed

lemma far_y: "0 \<le> t \<Longrightarrow> t \<le> \<bar>b\<bar> \<Longrightarrow> \<not> distance a b < t"
proof -
  assume t: "0 \<le> t" and b: "t \<le> \<bar>b\<bar>"
  have "t * t \<le> \<bar>b\<bar> * \<bar>b\<bar>" using t b by (intro mult_mono) simp_all
  then have "t * t \<le> b * b" by simp
  moreover have "0 \<le> a * a" by simp
  ultimately have "\<not> a * a + b * b < t * t" by linarith
  then show ?thesis using t by (simp add: distance_less_iff)
qed

lemma scStart_shape:
  "gameState (scStart K) = PLAYING" "player (scStart K) = scPlayer K (GAME_HEIGHT K / 2 - 100) 0 0"
  "enemies (scStart K) = []" "shockwaves (scStart K) = []"
  "invincibilityFrames (scStart K) = 0" "elapsedTime (scStart K) = 0"
  "enemyIdCounter (scStart K) = 0" "shockwaveIdCounter (scStart K) = 0"
  by (simp_all add: scStart_def resetGame_fields newPlayer_def scPlayer_def scenarioConfig_fields
        initialState_def)

lemma scPlayer_center:
  "centerX (scPlayer K y vy fl) = GAME_WIDTH K / 2" "centerY (scPlayer K y vy fl) = y + 50"
  by (simp_all add: centerX_def centerY_def scPlayer_def)

lemma scenario_tick_player:
  assumes "gameState s = PLAYING" "player s = scPlayer K y vy fl" "100 \<le> GAME_WIDTH K"
  shows "player (update K (scenarioConfig K) r s) =
     scPlayer K (y + vy) vy (if 0 < fl then fl - 1 else fl)"
proof -
  have "player (beforeSpawn K (scenarioConfig K) r s) =
      regenFuel (scenarioConfig K) (integratePlayer K (scenarioConfig K) (player s))"
    using assms(2,3) by (intro beforeSpawn_player) (simp_all add: scPlayer_def)
  then show ?thesis
    using assms(1,2)
    by (simp add: update_fields regenFuel_def integratePlayer_def Let_def scPlayer_def
          scenarioConfig_fields)
qed

lemma scenario_tick_state:
  assumes "gameState s = PLAYING" "player s = scPlayer K y vy fl" "y + vy \<le> GAME_HEIGHT K"
  shows "gameState (beforeSpawn K (scenarioConfig K) r s) = PLAYING"
  using assms by (simp add: beforeSpawn_fields scPlayer_def scenarioConfig_fields)

lemma spawnX_half:
  assumes "160 \<le> GAME_WIDTH K"
  shows "spawnX K (1 / 2) (GAME_WIDTH K / 2) = GAME_WIDTH K / 2 + 60"
proof -
  have x0: "1 / 2 * (GAME_WIDTH K - 40) + 20 = GAME_WIDTH K / 2"
    by (simp add: field_simps)
  have "min (GAME_WIDTH K - 20) (GAME_WIDTH K / 2 + 60) = GAME_WIDTH K / 2 + 60"
    using assms by (simp add: min_def)
  then show ?thesis
    unfolding spawnX_def Let_def x0 by simp
qed

lemma finalSpeed_scenario: "finalSpeed (scenarioConfig K) t = 1.5"
  by (simp add: finalSpeed_def scenarioConfig_fields)

lemma scTickA_shape:
  assumes sane: "saneConstants K"
  shows "gameState (scTickA K) = PLAYING" and "player (scTickA K) = scPlayer K (GAME_HEIGHT K / 2 - 100) 0 0"
    and "enemies (scTickA K) = [enemyA K (- 28) False]" and "shockwaves (scTickA K) = []"
    and "invincibilityFrames (scTickA K) = 0" and "elapsedTime (scTickA K) = 1"
    and "enemyIdCounter (scTickA K) = 1" and "shockwaveIdCounter (scTickA K) = 0"
proof -
  have W: "160 \<le> GAME_WIDTH K" and H: "100 \<le> GAME_HEIGHT K" and M: "0 \<le> MAX_FUEL K"
    using sane by (simp_all add: saneConstants_def)
  let ?c = "scenarioConfig K"
  let ?s = "scStart K"
  let ?b = "beforeSpawn K ?c drawsA ?s"
  note sh = scStart_shape [of K]
  have p: "gameState ?s = PLAYING" by (rule sh)
  have bs: "gameState ?b = PLAYING"
    using H by (intro scenario_tick_state [OF p sh(2)]) simp
  have sp: "spawns ?c drawsA ?b"
    by (rule scenario_spawns) (simp_all add: beforeSpawn_fields sh drawsA_def)
  have e: "spawnedEnemy K ?c drawsA (GAME_WIDTH K / 2) ?b = enemyA K (- 30) False"
    using W by (simp add: spawnedEnemy_def enemyA_def spawnX_half finalSpeed_scenario drawsA_def
          beforeSpawn_fields sh)
  have es: "enemies (spawnStep K ?c drawsA (GAME_WIDTH K / 2) ?b) = [enemyA K (- 30) False]"
    using sp by (simp add: spawnStep_fields beforeSpawn_enemies sh e)
  have mv: "moveEnemy (enemyA K (- 30) False) = enemyA K (- 28) False"
    by (simp add: moveEnemy_def enemyA_def)
  have nc: "\<not> contact (GAME_WIDTH K / 2) (GAME_HEIGHT K / 2 - 100 + 50) ?b (enemyA K (- 28) False)"
    by (simp add: contact_def beforeSpawn_fields sh scPlayer_def enemyA_def far_x)
  show "gameState (scTickA K) = PLAYING"
    using nc by (simp add: scTickA_def update_fields p sh scPlayer_center es mv bs)
  show "player (scTickA K) = scPlayer K (GAME_HEIGHT K / 2 - 100) 0 0"
    using W scenario_tick_player [OF p sh(2), of drawsA] by (simp add: scTickA_def)
  show "enemies (scTickA K) = [enemyA K (- 28) False]"
    using H by (simp add: scTickA_def update_fields p sh scPlayer_center es mv)
         (simp add: enemyA_def)
  show "shockwaves (scTickA K) = []"
    by (simp add: scTickA_def update_fields p beforeSpawn_shockwaves sh swKills_def)
  show "invincibilityFrames (scTickA K) = 0"
    by (simp add: scTickA_def update_playing p enemyStep_fields spawnStep_fields
          beforeSpawn_fields sh)
  show "elapsedTime (scTickA K) = 1"
    by (simp add: scTickA_def update_fields sh)
  show "enemyIdCounter (scTickA K) = 1"
    using sp by (simp add: scTickA_def update_enemyIdCounter p sh)
  show "shockwaveIdCounter (scTickA K) = 0"
    by (simp add: scTickA_def update_fields p beforeSpawn_shockwaves sh swKills_def)
qed

lemma far_xy:
  assumes "0 \<le> t" "0 \<le> m" "m \<le> \<bar>b\<bar>" "t * t \<le> a * a + m * m"
  shows "\<not> distance a b < t"
proof -
  have "m * m \<le> \<bar>b\<bar> * \<bar>b\<bar>" using assms(2,3) by (intro mult_mono) simp_all
  then have "m * m \<le> b * b" by simp
  then have "\<not> a * a + b * b < t * t" using assms(4) by linarith
  then show ?thesis using assms(1) by (simp add: distance_less_iff)
qed

lemma scJump1_shape:
  assumes sane: "saneConstants K"
  shows "gameState (scJump1 K) = PLAYING"
    and "player (scJump1 K) = scPlayer K (GAME_HEIGHT K / 2 - 100) (- (GAME_HEIGHT K / 2 - 23)) 0"
    and "enemies (scJump1 K) = [enemyA K (- 28) False]" and "shockwaves (scJump1 K) = []"
    and "invincibilityFrames (scJump1 K) = 0" and "elapsedTime (scJump1 K) = 1"
    and "enemyIdCounter (scJump1 K) = 1" and "shockwaveIdCounter (scJump1 K) = 0"
proof -
  have W: "160 \<le> GAME_WIDTH K" and H: "100 \<le> GAME_HEIGHT K" and M: "0 \<le> MAX_FUEL K"
    using sane by (simp_all add: saneConstants_def)
  let ?c = "scenarioConfig K"
  let ?s = "scTickA K"
  note sh = scTickA_shape [OF sane]
  have acc: "\<not> p_fuel (player ?s) < fuelConsumption ?c"
    using M by (simp add: sh scPlayer_def scenarioConfig_fields)
  have cx: "centerX (player ?s) = GAME_WIDTH K / 2"
    and cy: "centerY (player ?s) = GAME_HEIGHT K / 2 - 50"
    by (simp_all add: sh scPlayer_center)
  have dz: "\<not> inDeadZone K ?c q" for q
    by (simp add: inDeadZone_def scenarioConfig_fields)
  have nh: "\<not> jumpHits K ?c ?s (enemyA K (- 28) False)"
    using H by (simp add: jumpHits_def pulseHit_def isAffected_def dz cy enemyA_def)
  have kc: "killCount K ?c ?s = 0"
    using nh by (simp add: killCount_def sh)
  have below: "centerY (player ?s) < GAME_HEIGHT K / 2"
    by (simp add: cy)
  show "gameState (scJump1 K) = PLAYING" "elapsedTime (scJump1 K) = 1"
    "enemyIdCounter (scJump1 K) = 1"
    by (simp_all add: scJump1_def executeJump_same sh)
  show "player (scJump1 K) = scPlayer K (GAME_HEIGHT K / 2 - 100) (- (GAME_HEIGHT K / 2 - 23)) 0"
  proof -
    have "player (scJump1 K) =
        (player ?s)\<lparr>p_vx := 0, p_vy := - recoilForce ?c,
                      p_fuel := p_fuel (player ?s) - fuelConsumption ?c\<rparr>"
      using executeJump_player_down [OF acc below, of K zeroDraws, unfolded cx] nh dz
      by (simp add: scJump1_def sh(3))
    then show ?thesis
      by (simp add: sh scPlayer_def scenarioConfig_fields)
  qed
  show "enemies (scJump1 K) = [enemyA K (- 28) False]"
    using nh by (simp add: scJump1_def executeJump_enemies [OF acc] sh)
  show "shockwaves (scJump1 K) = []" "shockwaveIdCounter (scJump1 K) = 0"
    using executeJump_shockwaves [OF acc, of K zeroDraws "GAME_WIDTH K / 2" "GAME_HEIGHT K / 2"]
    by (simp_all add: scJump1_def kc sh)
  show "invincibilityFrames (scJump1 K) = 0"
    by (simp add: scJump1_def executeJump_invincibility dz sh)
qed

lemma scTickB_shape:
  assumes sane: "saneConstants K"
  shows "gameState (scTickB K) = PLAYING"
    and "player (scTickB K) = scPlayer K (- 77) (- (GAME_HEIGHT K / 2 - 23)) 0"
    and "enemies (scTickB K) = [enemyA K (- 26) False, enemyB K (- 28) False]"
    and "shockwaves (scTickB K) = []"
    and "invincibilityFrames (scTickB K) = 0" and "elapsedTime (scTickB K) = 2"
    and "enemyIdCounter (scTickB K) = 2" and "shockwaveIdCounter (scTickB K) = 0"
proof -
  have W: "160 \<le> GAME_WIDTH K" and H: "100 \<le> GAME_HEIGHT K" and M: "0 \<le> MAX_FUEL K"
    using sane by (simp_all add: saneConstants_def)
  let ?c = "scenarioConfig K"
  let ?s = "scJump1 K"
  let ?b = "beforeSpawn K ?c drawsB ?s"
  note sh = scJump1_shape [OF sane]
  have p: "gameState ?s = PLAYING" by (rule sh)
  have bs: "gameState ?b = PLAYING"
    using H by (intro scenario_tick_state [OF p sh(2)]) simp
  have sp: "spawns ?c drawsB ?b"
    by (rule scenario_spawns) (simp_all add: beforeSpawn_fields sh drawsB_def)
  have e: "spawnedEnemy K ?c drawsB (GAME_WIDTH K / 2) ?b = enemyB K (- 30) False"
    using W by (simp add: spawnedEnemy_def enemyB_def spawnX_half finalSpeed_scenario drawsB_def
          beforeSpawn_fields sh)
  have be: "enemies ?b = [enemyA K (- 28) False]"
    by (simp add: beforeSpawn_enemies sh swHit_def)
  have es: "enemies (spawnStep K ?c drawsB (GAME_WIDTH K / 2) ?b) =
      [enemyA K (- 28) False, enemyB K (- 30) False]"
    using sp by (simp add: spawnStep_fields be e)
  have mv: "moveEnemy (enemyA K (- 28) False) = enemyA K (- 26) False"
    "moveEnemy (enemyB K (- 30) False) = enemyB K (- 28) False"
    by (simp_all add: moveEnemy_def enemyA_def enemyB_def)
  have ncA: "\<not> contact (GAME_WIDTH K / 2) (GAME_HEIGHT K / 2 - 100 + 50) ?b (enemyA K (- 26) False)"
    by (simp add: contact_def beforeSpawn_fields sh scPlayer_def enemyA_def far_x)
  have "\<not> distance 60 (- 28 - (GAME_HEIGHT K / 2 - 100 + 50)) < 64"
    using H by (intro far_xy [where m = 28]) simp_all
  then have ncB: "\<not> contact (GAME_WIDTH K / 2) (GAME_HEIGHT K / 2 - 100 + 50) ?b (enemyB K (- 28) False)"
    by (simp add: contact_def beforeSpawn_fields sh scPlayer_def enemyB_def)
  show "gameState (scTickB K) = PLAYING"
    using ncA ncB by (simp add: scTickB_def update_fields p sh scPlayer_center es mv bs)
  show "player (scTickB K) = scPlayer K (- 77) (- (GAME_HEIGHT K / 2 - 23)) 0"
    using W scenario_tick_player [OF p sh(2), of drawsB] by (simp add: scTickB_def)
  show "enemies (scTickB K) = [enemyA K (- 26) False, enemyB K (- 28) False]"
    using H by (simp add: scTickB_def update_fields p sh scPlayer_center es mv)
         (simp add: enemyA_def enemyB_def)
  show "shockwaves (scTickB K) = []"
    by (simp add: scTickB_def update_fields p beforeSpawn_shockwaves sh swKills_def swHit_def)
  show "invincibilityFrames (scTickB K) = 0"
    by (simp add: scTickB_def update_playing p enemyStep_fields spawnStep_fields
          beforeSpawn_fields sh)
  show "elapsedTime (scTickB K) = 2"
    by (simp add: scTickB_def update_fields sh)
  show "enemyIdCounter (scTickB K) = 2"
    using sp by (simp add: scTickB_def update_enemyIdCounter p sh)
  show "shockwaveIdCounter (scTickB K) = 0"
    by (simp add: scTickB_def update_fields p beforeSpawn_shockwaves sh swKills_def swHit_def)
qed

lemma scJump2_shape:
  assumes sane: "saneConstants K"
  shows "gameState (scJump2 K) = PLAYING"
    and "player (scJump2 K) = scPlayer K (- 77) (- (GAME_HEIGHT K / 2 - 23)) 10"
    and "enemies (scJump2 K) = [enemyA K (- 26) True, enemyB K (- 28) False]"
    and "shockwaves (scJump2 K) = [scShockwave K]"
    and "invincibilityFrames (scJump2 K) = 0" and "elapsedTime (scJump2 K) = 2"
    and "enemyIdCounter (scJump2 K) = 2" and "shockwaveIdCounter (scJump2 K) = 1"
proof -
  have W: "160 \<le> GAME_WIDTH K" and H: "100 \<le> GAME_HEIGHT K" and M: "0 \<le> MAX_FUEL K"
    using sane by (simp_all add: saneConstants_def)
  let ?c = "scenarioConfig K"
  let ?s = "scTickB K"
  note sh = scTickB_shape [OF sane]
  have acc: "\<not> p_fuel (player ?s) < fuelConsumption ?c"
    using M by (simp add: sh scPlayer_def scenarioConfig_fields)
  have cx: "centerX (player ?s) = GAME_WIDTH K / 2"
    and cy: "centerY (player ?s) = - 27"
    by (simp_all add: sh scPlayer_center)
  have dz: "\<not> inDeadZone K ?c q" for q
    by (simp add: inDeadZone_def scenarioConfig_fields)
  have pw: "pulseWidthOf (player ?s) False = 110"
    by (simp add: pulseWidthOf_def sh scPlayer_def)
  have hA: "jumpHits K ?c ?s (enemyA K (- 26) False)"
    by (simp add: jumpHits_def pulseHit_def isAffected_def withinRayX_def dz cx cy pw enemyA_def)
  have nB: "\<not> jumpHits K ?c ?s (enemyB K (- 28) False)"
    by (simp add: jumpHits_def pulseHit_def isAffected_def dz cy enemyB_def)
  have kc: "killCount K ?c ?s = 1"
    using hA nB by (simp add: killCount_def sh(3))
  have below: "centerY (player ?s) < GAME_HEIGHT K / 2"
    using H by (simp add: cy)
  show "gameState (scJump2 K) = PLAYING" "elapsedTime (scJump2 K) = 2"
    "enemyIdCounter (scJump2 K) = 2"
    by (simp_all add: scJump2_def executeJump_same sh)
  show "player (scJump2 K) = scPlayer K (- 77) (- (GAME_HEIGHT K / 2 - 23)) 10"
  proof -
    have "player (scJump2 K) =
        (player ?s)\<lparr>p_vx := 0, p_vy := - recoilForce ?c,
                      p_fuel := p_maxFuel (player ?s), p_flashTimer := 10\<rparr>"
      using executeJump_player_down [OF acc below, of K zeroDraws, unfolded cx] hA dz
      by (simp add: scJump2_def sh(3))
    then show ?thesis
      by (simp add: sh scPlayer_def scenarioConfig_fields)
  qed
  show "enemies (scJump2 K) = [enemyA K (- 26) True, enemyB K (- 28) False]"
    using hA nB by (simp add: scJump2_def executeJump_enemies [OF acc] sh(3)) (simp add: enemyA_def)
  show "shockwaves (scJump2 K) = [scShockwave K]" "shockwaveIdCounter (scJump2 K) = 1"
    using executeJump_shockwaves [OF acc, of K zeroDraws "GAME_WIDTH K / 2" "GAME_HEIGHT K / 2"]
    by (simp_all add: scJump2_def kc sh(4,8) cx cy newShockwave_def scShockwave_def
          scenarioConfig_fields)
  show "invincibilityFrames (scJump2 K) = 0"
    by (simp add: scJump2_def executeJump_invincibility dz sh)
qed

lemma unit_draws: "unitDraws drawsA" "unitDraws drawsB" "unitDraws drawsNone" "unitStream zeroDraws"
  by (simp_all add: unitDraws_def unitStream_def drawsA_def drawsB_def drawsNone_def zeroDraws_def)

lemma clickMid_start:
  "handleGlobalInteraction K (scenarioConfig K) zeroDraws (clickMid K)
     (initialState K (scenarioConfig K)) = Some (scStart K)"
  by (simp add: handleGlobalInteraction_def Let_def clickMid_def initialState_def scStart_def)

lemma clickMid_playing:
  assumes "gameState s = PLAYING" "GAME_WIDTH K \<noteq> 0" "GAME_HEIGHT K \<noteq> 0"
  shows "handleGlobalInteraction K (scenarioConfig K) zeroDraws (clickMid K) s =
     Some (executeJump K (scenarioConfig K) zeroDraws (GAME_WIDTH K / 2) (GAME_HEIGHT K / 2) s)"
  using assms by (simp add: handleGlobalInteraction_def Let_def clickMid_def)

lemma scenario_reach:
  assumes sane: "saneConstants K"
  shows "reach K {scenarioConfig K} (scJump2 K)"
proof -
  have W: "GAME_WIDTH K \<noteq> 0" and H: "GAME_HEIGHT K \<noteq> 0"
    using sane by (simp_all add: saneConstants_def)
  let ?C = "{scenarioConfig K}"
  have c: "scenarioConfig K \<in> ?C" by simp
  have r0: "reach K ?C (initialState K (scenarioConfig K))"
    by (rule reach_init [OF c])
  have r1: "reach K ?C (scStart K)"
    by (rule reach_interaction [OF r0 c unit_draws(4) clickMid_start])
  have r2: "reach K ?C (scTickA K)"
    unfolding scTickA_def by (rule reach_tick [OF r1 c unit_draws(1)])
  have r3: "reach K ?C (scJump1 K)"
    unfolding scJump1_def
    by (rule reach_interaction [OF r2 c unit_draws(4)
          clickMid_playing [OF scTickA_shape(1) [OF sane] W H]])
  have r4: "reach K ?C (scTickB K)"
    unfolding scTickB_def by (rule reach_tick [OF r3 c unit_draws(2)])
  show ?thesis
    unfolding scJump2_def
    by (rule reach_interaction [OF r4 c unit_draws(4)
          clickMid_playing [OF scTickB_shape(1) [OF sane] W H]])
qed

lemma contact_ignores_isDead: "contact x y s (e\<lparr>e_isDead := b\<rparr>) = contact x y s e"
  by (simp add: contact_def)

lemma scShockwave_advanced:
  "advanceShockwave (GAME_WIDTH K / 2) (- 27) (scShockwave K) =
     (scShockwave K)\<lparr>sw_life := 1, sw_radius := Some 80\<rparr>"
  by (simp add: advanceShockwave_def Let_def scShockwave_def)

lemma scShockwave_reaches:
  "reaches ((scShockwave K)\<lparr>sw_life := 1, sw_radius := Some 80\<rparr>) (enemyB K (- 28) False)"
  by (simp add: reaches_def scShockwave_def enemyB_def distance_less_iff)

lemma critical_tick:
  assumes sane: "saneConstants K"
  defines "c \<equiv> scenarioConfig K"
  defines "b \<equiv> beforeSpawn K (scenarioConfig K) drawsNone (scJump2 K)"
  shows "enemies b = [enemyA K (- 26) True, enemyB K (- 28) True]"
    and "enemies (spawnStep K c drawsNone (GAME_WIDTH K / 2) b) = enemies b"
    and "invincibilityFrames b \<le> 0"
    and "contact (GAME_WIDTH K / 2) (- 27) b (enemyB K (- 26) True)"
    and "\<not> contact (GAME_WIDTH K / 2) (- 27) b (enemyA K (- 24) True)"
    and "gameState b = PLAYING"
    and "gameState (update K c drawsNone (scJump2 K)) = GAMEOVER"
proof -
  have H: "100 \<le> GAME_HEIGHT K"
    using sane by (simp add: saneConstants_def)
  note sh = scJump2_shape [OF sane]
  have p: "gameState (scJump2 K) = PLAYING" by (rule sh)
  have cen: "centerX (player (scJump2 K)) = GAME_WIDTH K / 2" "centerY (player (scJump2 K)) = - 27"
    by (simp_all add: sh scPlayer_center)
  show e: "enemies b = [enemyA K (- 26) True, enemyB K (- 28) True]"
    using scShockwave_reaches [of K]
    by (simp add: b_def beforeSpawn_enemies sh scPlayer_center scShockwave_advanced swHit_def)
       (simp add: enemyA_def enemyB_def)
  show ns: "enemies (spawnStep K c drawsNone (GAME_WIDTH K / 2) b) = enemies b"
    by (simp add: spawnStep_fields c_def scenario_no_spawn)
  show inv: "invincibilityFrames b \<le> 0"
    by (simp add: b_def beforeSpawn_fields sh)
  have w: "p_width (player b) = 100"
    by (simp add: b_def beforeSpawn_fields sh scPlayer_def)
  show cB: "contact (GAME_WIDTH K / 2) (- 27) b (enemyB K (- 26) True)"
    using inv by (simp add: contact_def w enemyB_def distance_less_iff)
  show cA: "\<not> contact (GAME_WIDTH K / 2) (- 27) b (enemyA K (- 24) True)"
    by (simp add: contact_def w enemyA_def far_x)
  show "gameState b = PLAYING"
    unfolding b_def using H by (intro scenario_tick_state [OF p sh(2)]) simp
  have mv: "moveEnemy (enemyB K (- 28) True) = enemyB K (- 26) True"
    by (simp add: moveEnemy_def enemyB_def)
  show "gameState (update K c drawsNone (scJump2 K)) = GAMEOVER"
    using cB ns e mv
    by (simp add: c_def update_fields p cen b_def [symmetric])
qed

text \<open>
  Claim C10. The lethal-contact test gives the same answer for an enemy whether or not it
  is marked dead. And for all constants with \<open>GAME_WIDTH \<ge> 160\<close>, \<open>GAME_HEIGHT \<ge> 100\<close> and
  \<open>MAX_FUEL \<ge> 0\<close> there is a reachable tick that shows it: in the session of one
  configuration (\<open>scenarioConfig\<close>) that mounts, resets, ticks (spawning enemy A), jumps,
  ticks (spawning enemy B) and jumps again (the pulse eliminates A and starts a shockwave),
  the state is \<open>PLAYING\<close> and B is alive; in the next tick the shockwave loop marks B dead,
  no enemy is spawned, B then moves from \<open>y = -28\<close> to \<open>y = -26\<close>, the invincibility timer
  is not positive, B satisfies the contact test and A does not, the player has not fallen
  below the bottom, and the tick ends in \<open>GAMEOVER\<close>.
\<close>

theorem dead_enemy_lethal_contact:
  assumes "160 \<le> GAME_WIDTH K" and "100 \<le> GAME_HEIGHT K" and "0 \<le> MAX_FUEL K"
  shows "contact x y s (e\<lparr>e_isDead := True\<rparr>) = contact x y s e
    \<and> reach K {scenarioConfig K} (scJump2 K) \<and> unitDraws drawsNone
    \<and> gameState (scJump2 K) = PLAYING
    \<and> enemies (scJump2 K) ! 1 = enemyB K (- 28) False
    \<and> enemies (beforeSpawn K (scenarioConfig K) drawsNone (scJump2 K)) ! 1 = enemyB K (- 28) True
    \<and> enemies (spawnStep K (scenarioConfig K) drawsNone (centerX (player (scJump2 K)))
                 (beforeSpawn K (scenarioConfig K) drawsNone (scJump2 K))) =
        [enemyA K (- 26) True, enemyB K (- 28) True]
    \<and> moveEnemy (enemyB K (- 28) True) = enemyB K (- 26) True
    \<and> moveEnemy (enemyA K (- 26) True) = enemyA K (- 24) True
    \<and> invincibilityFrames (beforeSpawn K (scenarioConfig K) drawsNone (scJump2 K)) \<le> 0
    \<and> contact (centerX (player (scJump2 K))) (centerY (player (scJump2 K)))
         (beforeSpawn K (scenarioConfig K) drawsNone (scJump2 K)) (enemyB K (- 26) True)
    \<and> \<not> contact (centerX (player (scJump2 K))) (centerY (player (scJump2 K)))
         (beforeSpawn K (scenarioConfig K) drawsNone (scJump2 K)) (enemyA K (- 24) True)
    \<and> gameState (beforeSpawn K (scenarioConfig K) drawsNone (scJump2 K)) = PLAYING
    \<and> gameState (update K (scenarioConfig K) drawsNone (scJump2 K)) = GAMEOVER"
proof -
  have sane: "saneConstants K" using assms by (simp add: saneConstants_def)
  note sh = scJump2_shape [OF sane]
  note ct = critical_tick [OF sane]
  have cen: "centerX (player (scJump2 K)) = GAME_WIDTH K / 2" "centerY (player (scJump2 K)) = - 27"
    by (simp_all add: sh scPlayer_center)
  have mv: "moveEnemy (enemyB K (- 28) True) = enemyB K (- 26) True"
    "moveEnemy (enemyA K (- 26) True) = enemyA K (- 24) True"
    by (simp_all add: moveEnemy_def enemyB_def enemyA_def)
  show ?thesis
    using contact_ignores_isDead [where b = True and e = e and x = x and y = y and s = s]
      scenario_reach [OF sane] unit_draws(3) ct
    by (simp add: sh scPlayer_center mv)
qed

theorem dead_enemy_lethal_contact_witness:
  "160 \<le> GAME_WIDTH sampleConstants \<and> 100 \<le> GAME_HEIGHT sampleConstants
   \<and> 0 \<le> MAX_FUEL sampleConstants
   \<and> reach sampleConstants {scenarioConfig sampleConstants} (scJump2 sampleConstants)
   \<and> gameState (scJump2 sampleConstants) = PLAYING
   \<and> enemies (scJump2 sampleConstants) ! 1 = enemyB sampleConstants (- 28) False
   \<and> enemies (beforeSpawn sampleConstants (scenarioConfig sampleConstants) drawsNone
                 (scJump2 sampleConstants)) ! 1 = enemyB sampleConstants (- 28) True
   \<and> gameState (update sampleConstants (scenarioConfig sampleConstants) drawsNone
                   (scJump2 sampleConstants)) = GAMEOVER"
proof -
  have a: "160 \<le> GAME_WIDTH sampleConstants" and b: "100 \<le> GAME_HEIGHT sampleConstants"
    and c: "0 \<le> MAX_FUEL sampleConstants"
    by (simp_all add: sampleConstants_fields)
  show ?thesis
    using dead_enemy_lethal_contact [OF a b c] a b c by simp
qed

lemma rounding_id: "rounding id"
  by (simp add: rounding_def)

lemma spawnX_exact: "spawnX K u c = spawnXfl id K u c"
  by (simp add: spawnX_def spawnXfl_def drawnX_def Let_def)

lemma drawnX_bounds:
  assumes r: "rounding fl" and z: "fl 0 = 0" and t: "fl 20 = 20"
    and w40: "fl (GAME_WIDTH K - 40) = GAME_WIDTH K - 40"
    and w20: "fl (GAME_WIDTH K - 20) = GAME_WIDTH K - 20"
    and W: "40 \<le> GAME_WIDTH K" and u: "0 \<le> u" "u < 1"
  shows "20 \<le> drawnX fl K u" and "drawnX fl K u \<le> GAME_WIDTH K - 20"
    and "fl (drawnX fl K u) = drawnX fl K u"
proof -
  have mono: "fl a \<le> fl b" if "a \<le> b" for a b
    using r that by (simp add: rounding_def)
  have idem: "fl (fl a) = fl a" for a
    using r by (simp add: rounding_def)
  let ?a = "GAME_WIDTH K - 40"
  have a0: "0 \<le> u * ?a" using u W by simp
  have a1: "u * ?a \<le> ?a"
    using u W mult_right_mono [of u 1 ?a] by simp
  have p0: "0 \<le> fl (u * ?a)" using mono [OF a0] z by simp
  have p1: "fl (u * ?a) \<le> ?a" using mono [OF a1] w40 by simp
  have "fl 20 \<le> fl (fl (u * ?a) + 20)" using p0 by (intro mono) simp
  then show "20 \<le> drawnX fl K u" by (simp add: drawnX_def w40 t)
  have "fl (fl (u * ?a) + 20) \<le> fl (GAME_WIDTH K - 20)" using p1 by (intro mono) simp
  then show "drawnX fl K u \<le> GAME_WIDTH K - 20" by (simp add: drawnX_def w40 w20)
  show "fl (drawnX fl K u) = drawnX fl K u" by (simp add: drawnX_def idem)
qed

lemma spawnXfl_bounds:
  assumes r: "rounding fl" and z: "fl 0 = 0" and t: "fl 20 = 20"
    and w40: "fl (GAME_WIDTH K - 40) = GAME_WIDTH K - 40"
    and w20: "fl (GAME_WIDTH K - 20) = GAME_WIDTH K - 20"
    and W: "40 \<le> GAME_WIDTH K" and u: "0 \<le> u" "u < 1"
  shows "20 \<le> spawnXfl fl K u c \<and> spawnXfl fl K u c \<le> GAME_WIDTH K - 20"
proof -
  have mono: "fl a \<le> fl b" if "a \<le> b" for a b
    using r that by (simp add: rounding_def)
  note b = drawnX_bounds [OF r z t w40 w20 W u]
  let ?x0 = "drawnX fl K u"
  have lo: "fl (?x0 - 60) \<le> ?x0"
    using mono [of "?x0 - 60" ?x0] b(3) by simp
  have hi: "?x0 \<le> fl (?x0 + 60)"
    using mono [of ?x0 "?x0 + 60"] b(3) by simp
  show ?thesis
    using b(1,2) lo hi W by (simp add: spawnXfl_def Let_def w20)
qed

lemma spawnXfl_cases:
  assumes r: "rounding fl"
  shows "(60 \<le> \<bar>fl (drawnX fl K u - c)\<bar> \<and> spawnXfl fl K u c = drawnX fl K u)
    \<or> (\<bar>fl (drawnX fl K u - c)\<bar> < 60 \<and> drawnX fl K u < c \<and> 20 \<le> fl (drawnX fl K u - 60)
        \<and> spawnXfl fl K u c = fl (drawnX fl K u - 60) \<and> spawnXfl fl K u c \<le> fl (c - 60))
    \<or> (\<bar>fl (drawnX fl K u - c)\<bar> < 60 \<and> drawnX fl K u < c \<and> fl (drawnX fl K u - 60) < 20
        \<and> spawnXfl fl K u c = 20)
    \<or> (\<bar>fl (drawnX fl K u - c)\<bar> < 60 \<and> c \<le> drawnX fl K u
        \<and> fl (drawnX fl K u + 60) \<le> fl (GAME_WIDTH K - 20)
        \<and> spawnXfl fl K u c = fl (drawnX fl K u + 60) \<and> fl (c + 60) \<le> spawnXfl fl K u c)
    \<or> (\<bar>fl (drawnX fl K u - c)\<bar> < 60 \<and> c \<le> drawnX fl K u
        \<and> fl (GAME_WIDTH K - 20) < fl (drawnX fl K u + 60)
        \<and> spawnXfl fl K u c = fl (GAME_WIDTH K - 20))"
proof -
  have mono: "fl a \<le> fl b" if "a \<le> b" for a b
    using r that by (simp add: rounding_def)
  let ?x0 = "drawnX fl K u"
  have l: "fl (?x0 - 60) \<le> fl (c - 60)" if "?x0 < c"
    using that by (intro mono) simp
  have h: "fl (c + 60) \<le> fl (?x0 + 60)" if "c \<le> ?x0"
    using that by (intro mono) simp
  show ?thesis
    using l h by (auto simp add: spawnXfl_def Let_def max_def min_def)
qed

lemma spawns_default_first:
  "elapsedTime s = 1 \<Longrightarrow> r_spawn r = 0 \<Longrightarrow> spawns defaultConfig r s"
  by (rule spawns_zero_draw [where v = "300130952380952381 / 3000000000000000000"])
     (simp_all add: curveValue_default_first defaultConfig_fields)

lemma distance_horizontal: "distance d 0 = \<bar>d\<bar>"
  by (simp add: distance_def)

lemma movingGame_fields:
  "gameState movingGame = PLAYING" "enemies movingGame = []" "elapsedTime movingGame = 0"
  "p_x (player movingGame) = 190" "p_width (player movingGame) = 20"
  "p_vx (player movingGame) = 6"
proof -
  have acc: "\<not> p_fuel (player freshGame) < fuelConsumption defaultConfig"
    by (simp add: freshGame_player defaultConfig_fields)
  show "gameState movingGame = PLAYING" "elapsedTime movingGame = 0"
    "p_x (player movingGame) = 190" "p_width (player movingGame) = 20"
    by (simp_all add: movingGame_def executeJump_same freshGame_simps freshGame_player)
       (simp add: freshGame_def resetGame_fields)
  show "enemies movingGame = []"
    by (simp add: movingGame_def executeJump_enemies [OF acc] freshGame_simps)
  have j: "jumpDistance (- 100) 0 = 100"
    by (simp add: jumpDistance_def)
  have c: "centerX (player freshGame) = 200" "centerY (player freshGame) = 210"
    by (simp_all add: freshGame_player centerX_def centerY_def)
  show "p_vx (player movingGame) = 6"
    using executeJump_velocity [OF acc, of sampleConstants zeroDraws 100 210, unfolded c]
    by (simp add: movingGame_def j inDeadZone_def defaultConfig_fields)
qed

lemma movingGame_reach: "reach sampleConstants {defaultConfig} movingGame"
proof -
  have "handleGlobalInteraction sampleConstants defaultConfig zeroDraws (mouseAt 100 210) freshGame =
      Some movingGame"
    by (simp add: handleGlobalInteraction_def Let_def mouseAt_def freshGame_simps
          sampleConstants_fields movingGame_def)
  moreover have "unitStream zeroDraws"
    by (simp add: unitStream_def zeroDraws_def)
  ultimately show ?thesis
    using reach_interaction [OF reach_freshGame, of defaultConfig zeroDraws] by blast
qed

text \<open>
  Claim C8, amended. Let \<open>c\<close> be the player's center \<open>x\<close> taken at the head of the tick, before
  the player moves, and \<open>x0\<close> the drawn \<open>x\<close>. An enemy is spawned with \<open>y = -30\<close> and an \<open>x\<close>
  that keeps the 60-unit zone around \<open>c\<close> in the arithmetic of the code, or sits on a bound
  where the clamp has cut the nudge short; one of five cases holds:
  the computed \<open>|x0 - c|\<close> is at least 60 and \<open>x = x0\<close>;
  \<open>x0 < c\<close>, \<open>x\<close> is the computed \<open>x0 - 60\<close>, at least 20 and at most the computed \<open>c - 60\<close>;
  \<open>x0 < c\<close>, the computed \<open>x0 - 60\<close> is below 20 and \<open>x = 20\<close>;
  \<open>x0 \<ge> c\<close>, \<open>x\<close> is the computed \<open>x0 + 60\<close>, at most \<open>GAME_WIDTH - 20\<close> and at least the
  computed \<open>c + 60\<close>;
  \<open>x0 \<ge> c\<close>, the computed \<open>x0 + 60\<close> is above \<open>GAME_WIDTH - 20\<close> and \<open>x = GAME_WIDTH - 20\<close>.
  This holds for every rounding \<open>fl\<close>, that of doubles and the exact arithmetic of \<open>spawnX\<close>
  alike. With a draw in \<open>[0, 1)\<close>, \<open>GAME_WIDTH \<ge> 40\<close> and 0, 20, \<open>GAME_WIDTH - 40\<close>,
  \<open>GAME_WIDTH - 20\<close> representable, \<open>x\<close> lies in \<open>[20, GAME_WIDTH - 20]\<close>. The enemy list a tick
  leaves is the list after the shockwave loop, followed by the spawned enemy when the tick
  spawns one, every enemy then moved by its speed and the dead and fallen ones removed.
\<close>

theorem spawn_position:
  "(rounding fl \<and> fl 0 = 0 \<and> fl 20 = 20 \<and> fl (GAME_WIDTH K - 40) = GAME_WIDTH K - 40
     \<and> fl (GAME_WIDTH K - 20) = GAME_WIDTH K - 20 \<and> 40 \<le> GAME_WIDTH K \<and> 0 \<le> u \<and> u < 1 \<longrightarrow>
      20 \<le> spawnXfl fl K u pcx \<and> spawnXfl fl K u pcx \<le> GAME_WIDTH K - 20)
   \<and> (rounding fl \<longrightarrow>
        (60 \<le> \<bar>fl (drawnX fl K u - pcx)\<bar> \<and> spawnXfl fl K u pcx = drawnX fl K u)
      \<or> (\<bar>fl (drawnX fl K u - pcx)\<bar> < 60 \<and> drawnX fl K u < pcx \<and> 20 \<le> fl (drawnX fl K u - 60)
          \<and> spawnXfl fl K u pcx = fl (drawnX fl K u - 60)
          \<and> spawnXfl fl K u pcx \<le> fl (pcx - 60))
      \<or> (\<bar>fl (drawnX fl K u - pcx)\<bar> < 60 \<and> drawnX fl K u < pcx \<and> fl (drawnX fl K u - 60) < 20
          \<and> spawnXfl fl K u pcx = 20)
      \<or> (\<bar>fl (drawnX fl K u - pcx)\<bar> < 60 \<and> pcx \<le> drawnX fl K u
          \<and> fl (drawnX fl K u + 60) \<le> fl (GAME_WIDTH K - 20)
          \<and> spawnXfl fl K u pcx = fl (drawnX fl K u + 60)
          \<and> fl (pcx + 60) \<le> spawnXfl fl K u pcx)
      \<or> (\<bar>fl (drawnX fl K u - pcx)\<bar> < 60 \<and> pcx \<le> drawnX fl K u
          \<and> fl (GAME_WIDTH K - 20) < fl (drawnX fl K u + 60)
          \<and> spawnXfl fl K u pcx = fl (GAME_WIDTH K - 20)))
   \<and> rounding id
   \<and> spawnX K u pcx = spawnXfl id K u pcx
   \<and> e_x (spawnedEnemy K c r pcx s') = spawnX K (r_spawnX r) pcx
   \<and> e_y (spawnedEnemy K c r pcx s') = - 30
   \<and> (gameState s = PLAYING \<and> spawns c r (beforeSpawn K c r s) \<longrightarrow>
        enemies (update K c r s) =
          filter (\<lambda>e. \<not> e_isDead e \<and> e_y e < GAME_HEIGHT K + 50)
            (map moveEnemy
               (enemies (beforeSpawn K c r s) @
                [spawnedEnemy K c r (centerX (player s)) (beforeSpawn K c r s)])))
   \<and> (gameState s = PLAYING \<and> \<not> spawns c r (beforeSpawn K c r s) \<longrightarrow>
        enemies (update K c r s) =
          filter (\<lambda>e. \<not> e_isDead e \<and> e_y e < GAME_HEIGHT K + 50)
            (map moveEnemy (enemies (beforeSpawn K c r s))))"
proof -
  have a: "rounding fl \<and> fl 0 = 0 \<and> fl 20 = 20 \<and> fl (GAME_WIDTH K - 40) = GAME_WIDTH K - 40
     \<and> fl (GAME_WIDTH K - 20) = GAME_WIDTH K - 20 \<and> 40 \<le> GAME_WIDTH K \<and> 0 \<le> u \<and> u < 1 \<longrightarrow>
      20 \<le> spawnXfl fl K u pcx \<and> spawnXfl fl K u pcx \<le> GAME_WIDTH K - 20"
    using spawnXfl_bounds [of fl K u pcx] by blast
  have b: "rounding fl \<longrightarrow>
        (60 \<le> \<bar>fl (drawnX fl K u - pcx)\<bar> \<and> spawnXfl fl K u pcx = drawnX fl K u)
      \<or> (\<bar>fl (drawnX fl K u - pcx)\<bar> < 60 \<and> drawnX fl K u < pcx \<and> 20 \<le> fl (drawnX fl K u - 60)
          \<and> spawnXfl fl K u pcx = fl (drawnX fl K u - 60)
          \<and> spawnXfl fl K u pcx \<le> fl (pcx - 60))
      \<or> (\<bar>fl (drawnX fl K u - pcx)\<bar> < 60 \<and> drawnX fl K u < pcx \<and> fl (drawnX fl K u - 60) < 20
          \<and> spawnXfl fl K u pcx = 20)
      \<or> (\<bar>fl (drawnX fl K u - pcx)\<bar> < 60 \<and> pcx \<le> drawnX fl K u
          \<and> fl (drawnX fl K u + 60) \<le> fl (GAME_WIDTH K - 20)
          \<and> spawnXfl fl K u pcx = fl (drawnX fl K u + 60)
          \<and> fl (pcx + 60) \<le> spawnXfl fl K u pcx)
      \<or> (\<bar>fl (drawnX fl K u - pcx)\<bar> < 60 \<and> pcx \<le> drawnX fl K u
          \<and> fl (GAME_WIDTH K - 20) < fl (drawnX fl K u + 60)
          \<and> spawnXfl fl K u pcx = fl (GAME_WIDTH K - 20))"
    using spawnXfl_cases [of fl K u pcx] by blast
  have e: "e_x (spawnedEnemy K c r pcx s') = spawnX K (r_spawnX r) pcx"
    "e_y (spawnedEnemy K c r pcx s') = - 30"
    by (simp_all add: spawnedEnemy_def)
  have f: "gameState s = PLAYING \<and> spawns c r (beforeSpawn K c r s) \<longrightarrow>
        enemies (update K c r s) =
          filter (\<lambda>e. \<not> e_isDead e \<and> e_y e < GAME_HEIGHT K + 50)
            (map moveEnemy
               (enemies (beforeSpawn K c r s) @
                [spawnedEnemy K c r (centerX (player s)) (beforeSpawn K c r s)]))"
    "gameState s = PLAYING \<and> \<not> spawns c r (beforeSpawn K c r s) \<longrightarrow>
        enemies (update K c r s) =
          filter (\<lambda>e. \<not> e_isDead e \<and> e_y e < GAME_HEIGHT K + 50)
            (map moveEnemy (enemies (beforeSpawn K c r s)))"
    by (simp_all add: update_fields spawnStep_fields)
  from a b rounding_id spawnX_exact [of K u pcx] e f show ?thesis
    by (intro conjI)
qed

theorem spawn_position_witness:
  "rounding id \<and> id (0 :: real) = 0 \<and> id (20 :: real) = 20
   \<and> id (GAME_WIDTH sampleConstants - 40) = GAME_WIDTH sampleConstants - 40
   \<and> id (GAME_WIDTH sampleConstants - 20) = GAME_WIDTH sampleConstants - 20
   \<and> 40 \<le> GAME_WIDTH sampleConstants \<and> (0 :: real) \<le> 1 / 72 \<and> (1 :: real) / 72 < 1
   \<and> drawnX id sampleConstants (1 / 72) = 25
   \<and> spawnXfl id sampleConstants (1 / 72) 30 = 20
   \<and> 20 \<le> spawnXfl id sampleConstants (1 / 72) 30
   \<and> spawnXfl id sampleConstants (1 / 72) 30 \<le> GAME_WIDTH sampleConstants - 20
   \<and> gameState nearLeftWall = PLAYING
   \<and> spawns defaultConfig wallDraws (beforeSpawn sampleConstants defaultConfig wallDraws nearLeftWall)
   \<and> e_x (spawnedEnemy sampleConstants defaultConfig wallDraws 30
             (beforeSpawn sampleConstants defaultConfig wallDraws nearLeftWall)) = 20
   \<and> e_y (spawnedEnemy sampleConstants defaultConfig wallDraws 30
             (beforeSpawn sampleConstants defaultConfig wallDraws nearLeftWall)) = - 30
   \<and> length (enemies (update sampleConstants defaultConfig wallDraws nearLeftWall)) = 1"
proof -
  have sp: "spawns defaultConfig wallDraws
      (beforeSpawn sampleConstants defaultConfig wallDraws nearLeftWall)"
    by (rule spawns_wall) (simp add: beforeSpawn_fields nearLeftWall_fields)
  have d: "drawnX id sampleConstants (1 / 72) = 25"
    by (simp add: drawnX_def sampleConstants_fields)
  have x: "spawnXfl id sampleConstants (1 / 72) 30 = 20"
    by (simp add: spawnXfl_def Let_def d sampleConstants_fields)
  have ex: "e_x (spawnedEnemy sampleConstants defaultConfig wallDraws 30
             (beforeSpawn sampleConstants defaultConfig wallDraws nearLeftWall)) = 20"
    by (simp add: spawnedEnemy_def spawnX_exact x wallDraws_def)
  have c: "centerX (player nearLeftWall) = 30"
    by (simp add: centerX_def nearLeftWall_player)
  have y: "e_y (moveEnemy (spawnedEnemy sampleConstants defaultConfig wallDraws 30
             (beforeSpawn sampleConstants defaultConfig wallDraws nearLeftWall))) < 650"
    by (simp add: moveEnemy_def spawnedEnemy_def finalSpeed_def beforeSpawn_fields
          nearLeftWall_fields defaultConfig_fields wallDraws_def)
  have dd: "\<not> e_isDead (moveEnemy (spawnedEnemy sampleConstants defaultConfig wallDraws 30
             (beforeSpawn sampleConstants defaultConfig wallDraws nearLeftWall)))"
    by (simp add: moveEnemy_def spawnedEnemy_def)
  show ?thesis
    using spawn_position [of id sampleConstants "1 / 72" 30 defaultConfig wallDraws
        "beforeSpawn sampleConstants defaultConfig wallDraws nearLeftWall" nearLeftWall]
      sp d x ex y dd
    by (simp add: c nearLeftWall_fields beforeSpawn_enemies sampleConstants_fields)
qed

text \<open>
  Claim C8 as stated fails in two ways. Next to a wall: with the player at rest, its center
  at \<open>x = 30\<close>, and a drawn \<open>x\<close> of 25, the nudge to \<open>-35\<close> is clamped to 20, and the enemy is
  spawned 10 units from the player's center. And away from the walls: the exclusion zone
  is measured from the center taken before the player moves; a player that starts the tick
  with its center at 200 and horizontal velocity 6 has its center at 206 when the enemy is
  spawned at the drawn \<open>x = 263\<close>, 57 units away and on neither bound.
\<close>

theorem spawn_exclusion_counterexample:
  "gameState nearLeftWall = PLAYING
   \<and> enemies nearLeftWall = []
   \<and> centerX (player nearLeftWall) = 30
   \<and> length (enemies (update sampleConstants defaultConfig wallDraws nearLeftWall)) = 1
   \<and> e_x (enemies (update sampleConstants defaultConfig wallDraws nearLeftWall) ! 0) = 20
   \<and> \<bar>e_x (enemies (update sampleConstants defaultConfig wallDraws nearLeftWall) ! 0)
        - centerX (player nearLeftWall)\<bar> < 60
   \<and> centerX (player (update sampleConstants defaultConfig wallDraws nearLeftWall)) = 30
   \<and> reach sampleConstants {defaultConfig} movingGame
   \<and> gameState movingGame = PLAYING
   \<and> enemies movingGame = []
   \<and> centerX (player movingGame) = 200
   \<and> length (enemies (update sampleConstants defaultConfig zoneDraws movingGame)) = 1
   \<and> e_x (enemies (update sampleConstants defaultConfig zoneDraws movingGame) ! 0) = 263
   \<and> centerX (player (update sampleConstants defaultConfig zoneDraws movingGame)) = 206
   \<and> \<bar>e_x (enemies (update sampleConstants defaultConfig zoneDraws movingGame) ! 0)
        - centerX (player (update sampleConstants defaultConfig zoneDraws movingGame))\<bar> < 60
   \<and> 20 < e_x (enemies (update sampleConstants defaultConfig zoneDraws movingGame) ! 0)
   \<and> e_x (enemies (update sampleConstants defaultConfig zoneDraws movingGame) ! 0)
        < GAME_WIDTH sampleConstants - 20"
proof -
  have sp: "spawns defaultConfig wallDraws
      (beforeSpawn sampleConstants defaultConfig wallDraws nearLeftWall)"
    by (rule spawns_wall) (simp add: beforeSpawn_fields nearLeftWall_fields)
  have c: "centerX (player nearLeftWall) = 30"
    by (simp add: centerX_def nearLeftWall_player)
  let ?e = "spawnedEnemy sampleConstants defaultConfig wallDraws 30
             (beforeSpawn sampleConstants defaultConfig wallDraws nearLeftWall)"
  have x: "e_x (moveEnemy ?e) = 20"
    by (simp add: moveEnemy_def spawnedEnemy_def spawnX_def Let_def wallDraws_def
          sampleConstants_fields)
  have y: "e_y (moveEnemy ?e) < 650"
    by (simp add: moveEnemy_def spawnedEnemy_def finalSpeed_def beforeSpawn_fields
          nearLeftWall_fields defaultConfig_fields wallDraws_def)
  have d: "\<not> e_isDead (moveEnemy ?e)"
    by (simp add: moveEnemy_def spawnedEnemy_def)
  have es: "enemies (update sampleConstants defaultConfig wallDraws nearLeftWall) = [moveEnemy ?e]"
    using sp y d
    by (simp add: update_fields nearLeftWall_fields spawnStep_fields beforeSpawn_enemies c
          sampleConstants_fields)
  have px: "centerX (player (update sampleConstants defaultConfig wallDraws nearLeftWall)) = 30"
    by (simp add: update_fields nearLeftWall_fields centerX_def beforeSpawn_fields
          beforeSpawn_player_inside nearLeftWall_player sampleConstants_fields)
  note mf = movingGame_fields
  have mp: "gameState movingGame = PLAYING" by (rule mf)
  have msp: "spawns defaultConfig zoneDraws
      (beforeSpawn sampleConstants defaultConfig zoneDraws movingGame)"
    by (rule spawns_default_first) (simp_all add: beforeSpawn_fields mf zoneDraws_def)
  have mc: "centerX (player movingGame) = 200"
    by (simp add: centerX_def mf)
  let ?m = "spawnedEnemy sampleConstants defaultConfig zoneDraws 200
             (beforeSpawn sampleConstants defaultConfig zoneDraws movingGame)"
  have mx: "e_x (moveEnemy ?m) = 263"
    by (simp add: moveEnemy_def spawnedEnemy_def spawnX_def Let_def zoneDraws_def
          sampleConstants_fields)
  have my: "e_y (moveEnemy ?m) < 650"
    by (simp add: moveEnemy_def spawnedEnemy_def finalSpeed_def beforeSpawn_fields
          mf defaultConfig_fields zoneDraws_def)
  have md: "\<not> e_isDead (moveEnemy ?m)"
    by (simp add: moveEnemy_def spawnedEnemy_def)
  have mes: "enemies (update sampleConstants defaultConfig zoneDraws movingGame) = [moveEnemy ?m]"
    using msp my md
    by (simp add: update_fields mp mf spawnStep_fields beforeSpawn_enemies mc
          sampleConstants_fields)
  have mpx: "centerX (player (update sampleConstants defaultConfig zoneDraws movingGame)) = 206"
    by (simp add: update_fields mp centerX_def beforeSpawn_fields
          beforeSpawn_player_inside mf sampleConstants_fields)
  show ?thesis
    by (simp add: es x c px nearLeftWall_fields mes mx mc mpx mf movingGame_reach
          sampleConstants_fields)
qed

lemma reaches_radius:
  assumes "sw_radius sw = Some \<rho>" "distance (e_x e - sw_x sw) (e_y e - sw_y sw) < \<rho>"
    and "0 \<le> e_radius e"
  shows "reaches sw e"
  using assms by (simp add: reaches_def)

lemma advanceShockwave_center:
  "sw_x (advanceShockwave x y sw) = x" "sw_y (advanceShockwave x y sw) = y"
  by (simp_all add: advanceShockwave_def Let_def)

lemma beforeSpawn_marks:
  "length (enemies (beforeSpawn K c r s)) = length (enemies s)"
  "i < length (enemies s) \<Longrightarrow>
   e_isDead (enemies (beforeSpawn K c r s) ! i) \<longleftrightarrow>
     e_isDead (enemies s ! i) \<or> (\<exists>sw \<in> set (advancedShockwaves s). reaches sw (enemies s ! i))"
  by (auto simp add: beforeSpawn_enemies advancedShockwaves_def swHit_def)

lemma swKills_card:
  "swKills (advancedShockwaves s) (enemies s) =
     card {i. i < length (enemies s) \<and> \<not> e_isDead (enemies s ! i)
              \<and> e_isDead (enemies (beforeSpawn K c r s) ! i)}"
proof -
  have "{i. i < length (enemies s) \<and> swHit (advancedShockwaves s) (enemies s ! i)} =
      {i. i < length (enemies s) \<and> \<not> e_isDead (enemies s ! i)
              \<and> e_isDead (enemies (beforeSpawn K c r s) ! i)}"
    using beforeSpawn_marks(2) [of _ s K c r] by (auto simp add: swHit_def)
  then show ?thesis
    by (simp add: swKills_def length_filter_conv_card)
qed

lemma update_no_dead: "gameState s = PLAYING \<Longrightarrow> \<forall>e \<in> set (enemies (update K c r s)). \<not> e_isDead e"
  by (simp add: update_fields)

lemma update_shockwaves_playing:
  assumes "gameState s = PLAYING"
  shows "shockwaveIdCounter (update K c r s) =
      shockwaveIdCounter s +
      (if burningEnabled c then swKills (advancedShockwaves s) (enemies s) else 0)"
    and "shockwaves (update K c r s) =
      filter (\<lambda>sw. sw_life sw > 0)
        (advancedShockwaves s @
         (if burningEnabled c
          then map (newShockwave c (centerX (player s)) (centerY (player s)) 0.8)
                 [shockwaveIdCounter s ..<
                  shockwaveIdCounter s + swKills (advancedShockwaves s) (enemies s)]
          else []))"
  using assms by (simp_all add: update_fields beforeSpawn_shockwaves advancedShockwaves_def)

lemma executeJump_shockwaves_off:
  assumes "\<not> burningEnabled c"
  shows "shockwaves (executeJump K c rs mx my s) = shockwaves s"
    and "shockwaveIdCounter (executeJump K c rs mx my s) = shockwaveIdCounter s"
proof -
  show "shockwaves (executeJump K c rs mx my s) = shockwaves s"
  proof (cases "p_fuel (player s) < fuelConsumption c")
    case True
    then show ?thesis by (simp add: executeJump_rejected_eq)
  next
    case False
    then show ?thesis using assms executeJump_shockwaves [OF False, of K rs mx my] by simp
  qed
  show "shockwaveIdCounter (executeJump K c rs mx my s) = shockwaveIdCounter s"
  proof (cases "p_fuel (player s) < fuelConsumption c")
    case True
    then show ?thesis by (simp add: executeJump_rejected_eq)
  next
    case False
    then show ?thesis using assms executeJump_shockwaves [OF False, of K rs mx my] by simp
  qed
qed

lemma no_burning_no_shockwaves:
  assumes "\<forall>c \<in> C. \<not> burningEnabled c" "reach K C s"
  shows "shockwaves s = []"
  using assms(2)
proof (induction rule: reach.induct)
  case (reach_init c)
  show ?case by (simp add: initialState_def)
next
  case (reach_tick s c r)
  then have off: "\<not> burningEnabled c" using assms(1) by simp
  show ?case
  proof (cases "gameState s = PLAYING")
    case True
    then show ?thesis
      using reach_tick.IH off
      by (simp add: update_shockwaves_playing advancedShockwaves_def)
  next
    case False
    then show ?thesis using reach_tick.IH by (simp add: update_idle)
  qed
next
  case (reach_interaction s c rs i s')
  then have off: "\<not> burningEnabled c" using assms(1) by simp
  show ?case
    using reach_interaction.hyps(4) reach_interaction.IH executeJump_shockwaves_off(1) [OF off]
    by (auto simp add: handleGlobalInteraction_def Let_def resetGame_fields split: if_splits)
next
  case (reach_resize s c)
  then show ?case by (simp add: syncPlayerSize_def)
qed

lemma enemy_radius_update:
  assumes "\<forall>e \<in> set (enemies s). 10 \<le> e_radius e" "unitDraws r"
  shows "\<forall>e \<in> set (enemies (update K c r s)). 10 \<le> e_radius e"
proof (cases "gameState s = PLAYING")
  case True
  have "10 \<le> e_radius (spawnedEnemy K c r x b)" for x b
    using assms(2) by (simp add: spawnedEnemy_def unitDraws_def)
  then show ?thesis
    using assms(1) True
    by (auto simp add: update_fields spawnStep_fields beforeSpawn_enemies moveEnemy_def)
next
  case False
  then show ?thesis using assms(1) by (simp add: update_idle)
qed

lemma enemy_radius_jump:
  assumes "\<forall>e \<in> set (enemies s). 10 \<le> e_radius e"
  shows "\<forall>e \<in> set (enemies (executeJump K c rs mx my s)). 10 \<le> e_radius e"
proof (cases "p_fuel (player s) < fuelConsumption c")
  case True
  then show ?thesis using assms by (simp add: executeJump_rejected_eq)
next
  case False
  then show ?thesis using assms by (auto simp add: executeJump_enemies)
qed

lemma enemy_radius_reach:
  assumes "reach K C s"
  shows "\<forall>e \<in> set (enemies s). 10 \<le> e_radius e"
  using assms
proof (induction rule: reach.induct)
  case (reach_init c)
  show ?case by (simp add: initialState_def)
next
  case (reach_tick s c r)
  then show ?case by (simp add: enemy_radius_update)
next
  case (reach_interaction s c rs i s')
  show ?case
    using reach_interaction.hyps(4) reach_interaction.IH enemy_radius_jump [OF reach_interaction.IH]
    by (auto simp add: handleGlobalInteraction_def Let_def resetGame_fields split: if_splits)
next
  case (reach_resize s c)
  then show ?case by (simp add: syncPlayerSize_def)
qed

lemma burningOff_fields:
  "\<not> burningEnabled (burningOff K)"
  by (simp add: burningOff_def)

lemma scJump2_advanced:
  assumes sane: "saneConstants K"
  shows "advancedShockwaves (scJump2 K) = [(scShockwave K)\<lparr>sw_life := 1, sw_radius := Some 80\<rparr>]"
  by (simp add: advancedShockwaves_def scJump2_shape [OF sane] scPlayer_center scShockwave_advanced)

lemma scJump2_kills:
  assumes sane: "saneConstants K"
  shows "swKills (advancedShockwaves (scJump2 K)) (enemies (scJump2 K)) = 1"
  using scShockwave_reaches [of K]
  by (simp add: scJump2_advanced [OF sane] scJump2_shape [OF sane] swKills_def swHit_def)
     (simp add: enemyA_def enemyB_def)

lemma scJump2_marked:
  assumes sane: "saneConstants K"
  shows "enemies (beforeSpawn K c r (scJump2 K)) = [enemyA K (- 26) True, enemyB K (- 28) True]"
  using scShockwave_reaches [of K]
  by (simp add: beforeSpawn_enemies scJump2_shape [OF sane] scPlayer_center scShockwave_advanced
        swHit_def)
     (simp add: enemyA_def enemyB_def)

lemma scJump2_reach_off:
  assumes sane: "saneConstants K"
  shows "reach K {scenarioConfig K, burningOff K} (scJump2 K)"
  by (rule reach_mono [OF scenario_reach [OF sane]]) simp

lemma scenario_spawns_third:
  assumes "elapsedTime s = 3" "r_spawn r = 0"
  shows "spawns (scenarioConfig K) r s"
proof -
  have "curveValue (scenarioConfig K) (elapsedTime s / 60) \<noteq> None"
    using assms(1)
    by (auto simp add: curveValue_def Let_def jsRem_def nthOpt_def scenarioConfig_fields
        defaultConfig_def)
  then obtain v where v: "curveValue (scenarioConfig K) (elapsedTime s / 60) = Some v"
    by auto
  show ?thesis
    by (rule spawns_zero_draw [OF v _ assms(2)]) (simp add: scenarioConfig_fields)
qed

lemma scOver_shape:
  assumes sane: "saneConstants K"
  shows "gameState (scOver K) = GAMEOVER"
    and "enemies (scOver K) = [enemyC K (- 28) False]"
    and "shockwaves (scOver K) =
           [(scShockwave K)\<lparr>sw_life := 1, sw_radius := Some 80\<rparr>,
            newShockwave (scenarioConfig K) (GAME_WIDTH K / 2) (- 27) 0.8 1]"
    and "reach K {scenarioConfig K} (scOver K)"
proof -
  have W: "160 \<le> GAME_WIDTH K" and H: "100 \<le> GAME_HEIGHT K" and M: "0 \<le> MAX_FUEL K"
    using sane by (simp_all add: saneConstants_def)
  let ?c = "scenarioConfig K"
  let ?s = "scJump2 K"
  let ?b = "beforeSpawn K ?c drawsA ?s"
  note sh = scJump2_shape [OF sane]
  have p: "gameState ?s = PLAYING" by (rule sh)
  have cen: "centerX (player ?s) = GAME_WIDTH K / 2" "centerY (player ?s) = - 27"
    by (simp_all add: sh scPlayer_center)
  have sp: "spawns ?c drawsA ?b"
    by (rule scenario_spawns_third) (simp_all add: beforeSpawn_fields sh drawsA_def)
  have e: "spawnedEnemy K ?c drawsA (GAME_WIDTH K / 2) ?b = enemyC K (- 30) False"
    using W by (simp add: spawnedEnemy_def enemyC_def spawnX_half finalSpeed_scenario drawsA_def
          beforeSpawn_fields sh)
  have be: "enemies ?b = [enemyA K (- 26) True, enemyB K (- 28) True]"
    by (rule scJump2_marked [OF sane])
  have es: "enemies (spawnStep K ?c drawsA (GAME_WIDTH K / 2) ?b) =
      [enemyA K (- 26) True, enemyB K (- 28) True, enemyC K (- 30) False]"
    using sp by (simp add: spawnStep_fields be e)
  have mv: "moveEnemy (enemyA K (- 26) True) = enemyA K (- 24) True"
    "moveEnemy (enemyB K (- 28) True) = enemyB K (- 26) True"
    "moveEnemy (enemyC K (- 30) False) = enemyC K (- 28) False"
    by (simp_all add: moveEnemy_def enemyA_def enemyB_def enemyC_def)
  have inv: "invincibilityFrames ?b \<le> 0"
    by (simp add: beforeSpawn_fields sh)
  have w: "p_width (player ?b) = 100"
    by (simp add: beforeSpawn_fields sh scPlayer_def)
  have cB: "contact (GAME_WIDTH K / 2) (- 27) ?b (enemyB K (- 26) True)"
    using inv by (simp add: contact_def w enemyB_def distance_less_iff)
  show "gameState (scOver K) = GAMEOVER"
    using cB by (simp add: scOver_def update_fields p cen es mv)
  show "enemies (scOver K) = [enemyC K (- 28) False]"
    using H by (simp add: scOver_def update_fields p cen es mv)
         (simp add: enemyA_def enemyB_def enemyC_def)
  show "shockwaves (scOver K) =
           [(scShockwave K)\<lparr>sw_life := 1, sw_radius := Some 80\<rparr>,
            newShockwave (scenarioConfig K) (GAME_WIDTH K / 2) (- 27) 0.8 1]"
    using scJump2_kills [OF sane] scJump2_advanced [OF sane]
    by (simp add: scOver_def update_shockwaves_playing [OF p] scenarioConfig_fields sh
          scPlayer_center)
       (simp add: newShockwave_def scenarioConfig_fields)
  show "reach K {scenarioConfig K} (scOver K)"
    unfolding scOver_def
    by (rule reach_tick [OF scenario_reach [OF sane] _ unit_draws(1)]) simp
qed

lemma clickMid_reset:
  "gameState s = START \<Longrightarrow>
   handleGlobalInteraction K c rs (clickMid K) s = Some (resetGame K c s)"
  by (simp add: handleGlobalInteraction_def Let_def clickMid_def)

lemma sampleConstants_sane: "saneConstants sampleConstants"
  by (simp add: saneConstants_def sampleConstants_fields)

lemma advanced_marks:
  assumes "i < length (enemies s)" "sw \<in> set (advancedShockwaves s)"
    and "sw_radius sw = Some \<rho>"
    and "distance (e_x (enemies s ! i) - centerX (player s))
           (e_y (enemies s ! i) - centerY (player s)) < \<rho>"
    and "0 \<le> e_radius (enemies s ! i)"
  shows "e_isDead (enemies (beforeSpawn K c r s) ! i)"
proof -
  have "sw_x sw = centerX (player s)" "sw_y sw = centerY (player s)"
    using assms(2) by (auto simp add: advancedShockwaves_def advanceShockwave_center)
  then have "reaches sw (enemies s ! i)"
    using assms(3,4,5) by (intro reaches_radius [where \<rho> = \<rho>]) simp_all
  then show ?thesis
    using assms(1,2) by (auto simp add: beforeSpawn_marks(2))
qed

lemma scJump2_distance:
  assumes sane: "saneConstants K"
  shows "distance (e_x (enemyB K (- 28) False) - centerX (player (scJump2 K)))
           (e_y (enemyB K (- 28) False) - centerY (player (scJump2 K))) < 80"
  by (simp add: scJump2_shape [OF sane] scPlayer_center enemyB_def distance_less_iff)

lemma scJump2_off_tick:
  assumes sane: "saneConstants K"
  shows "shockwaveIdCounter (update K (burningOff K) r (scJump2 K)) =
           shockwaveIdCounter (scJump2 K)"
    and "shockwaves (update K (burningOff K) r (scJump2 K)) =
           [(scShockwave K)\<lparr>sw_life := 1, sw_radius := Some 80\<rparr>]"
  using scJump2_advanced [OF sane]
  by (simp_all add: update_shockwaves_playing [OF scJump2_shape(1) [OF sane]] burningOff_fields)

lemma scOver_frozen:
  assumes sane: "saneConstants K"
  shows "enemies (update K c r (scOver K)) = [enemyC K (- 28) False]"
    and "shockwaves (update K c r (scOver K)) = shockwaves (scOver K)"
    and "distance
           (e_x (enemyC K (- 28) False) - sw_x ((scShockwave K)\<lparr>sw_life := 1, sw_radius := Some 80\<rparr>))
           (e_y (enemyC K (- 28) False) - sw_y ((scShockwave K)\<lparr>sw_life := 1, sw_radius := Some 80\<rparr>))
         < 80"
  using scOver_shape(1,2) [OF sane]
  by (simp_all add: update_idle enemyC_def scShockwave_def distance_less_iff)

text \<open>
  Claim C7, amended. In a tick that starts in \<open>PLAYING\<close>, write \<open>advancedShockwaves s\<close> for
  the shockwaves as the shockwave loop of that tick sees them (re-centred on the player's
  center at the head of the tick, one tick older, with the radius computed in that tick).
  The loop keeps the list of enemies and only sets \<open>isDead\<close>: an enemy is dead after the loop
  exactly if it was dead before or the code's test \<open>dist < sw.radius + e.radius\<close> holds for
  one of the shockwaves; in particular an enemy of non-negative radius whose distance to the
  player's center is less than the radius of a shockwave is marked dead, and every enemy of a
  reachable state has radius at least 10. No dead enemy is left at the end of the tick. The
  number \<open>swKills\<close> of enemies the loop eliminates is the number of enemies that were alive
  before it and are dead after it. If \<open>burningEnabled\<close> holds, the tick creates exactly one
  new shockwave for each of them: the shockwave counter grows by that number, and the
  shockwaves after the tick are the old ones and the new ones, numbered from the old counter
  on, that still have \<open>life > 0\<close>; a new shockwave is at the player's center and has radius
  \<open>0\<close>, \<open>maxRadius = burningRadius * 0.8\<close> and life \<open>burningDuration\<close>. If \<open>burningEnabled\<close>
  is false, the tick still eliminates these enemies, but it creates no shockwave and leaves
  the counter alone, and so do a jump and a reset; and in a session in which
  \<open>burningEnabled\<close> is false in every configuration, no state has a shockwave.
\<close>

theorem shockwave_chain:
  assumes "gameState s = PLAYING"
  shows "length (enemies (beforeSpawn K c r s)) = length (enemies s)
    \<and> (\<forall>i < length (enemies s).
          e_isDead (enemies (beforeSpawn K c r s) ! i) \<longleftrightarrow>
            e_isDead (enemies s ! i) \<or>
            (\<exists>sw \<in> set (advancedShockwaves s). reaches sw (enemies s ! i)))
    \<and> (\<forall>i < length (enemies s). \<forall>sw \<in> set (advancedShockwaves s). \<forall>\<rho>.
          sw_radius sw = Some \<rho>
          \<and> distance (e_x (enemies s ! i) - centerX (player s))
                (e_y (enemies s ! i) - centerY (player s)) < \<rho>
          \<and> 0 \<le> e_radius (enemies s ! i)
          \<longrightarrow> e_isDead (enemies (beforeSpawn K c r s) ! i))
    \<and> (reach K C s \<longrightarrow> (\<forall>e \<in> set (enemies s). 10 \<le> e_radius e))
    \<and> (\<forall>e \<in> set (enemies (update K c r s)). \<not> e_isDead e)
    \<and> swKills (advancedShockwaves s) (enemies s) =
        card {i. i < length (enemies s) \<and> \<not> e_isDead (enemies s ! i)
                 \<and> e_isDead (enemies (beforeSpawn K c r s) ! i)}
    \<and> shockwaveIdCounter (update K c r s) =
        shockwaveIdCounter s +
        (if burningEnabled c then swKills (advancedShockwaves s) (enemies s) else 0)
    \<and> shockwaves (update K c r s) =
        filter (\<lambda>sw. sw_life sw > 0)
          (advancedShockwaves s @
           (if burningEnabled c
            then map (newShockwave c (centerX (player s)) (centerY (player s)) 0.8)
                   [shockwaveIdCounter s ..<
                    shockwaveIdCounter s + swKills (advancedShockwaves s) (enemies s)]
            else []))
    \<and> newShockwave c x y 0.8 n =
        \<lparr>sw_x = x, sw_y = y, sw_radius = Some 0, sw_maxRadius = burningRadius c * 0.8,
         sw_life = burningDuration c, sw_maxLife = burningDuration c, sw_id = n\<rparr>
    \<and> (\<not> burningEnabled c \<longrightarrow>
          shockwaves (executeJump K c rs mx my s) = shockwaves s
        \<and> shockwaveIdCounter (executeJump K c rs mx my s) = shockwaveIdCounter s
        \<and> shockwaves (resetGame K c s) = []
        \<and> shockwaveIdCounter (resetGame K c s) = shockwaveIdCounter s)
    \<and> ((\<forall>c' \<in> D. \<not> burningEnabled c') \<and> reach K D t \<longrightarrow> shockwaves t = [])"
proof (intro conjI)
  show "length (enemies (beforeSpawn K c r s)) = length (enemies s)"
    by (rule beforeSpawn_marks(1))
  show "\<forall>i < length (enemies s).
          e_isDead (enemies (beforeSpawn K c r s) ! i) \<longleftrightarrow>
            e_isDead (enemies s ! i) \<or>
            (\<exists>sw \<in> set (advancedShockwaves s). reaches sw (enemies s ! i))"
    using beforeSpawn_marks(2) [of _ s K c r] by blast
  show "\<forall>i < length (enemies s). \<forall>sw \<in> set (advancedShockwaves s). \<forall>\<rho>.
          sw_radius sw = Some \<rho>
          \<and> distance (e_x (enemies s ! i) - centerX (player s))
                (e_y (enemies s ! i) - centerY (player s)) < \<rho>
          \<and> 0 \<le> e_radius (enemies s ! i)
          \<longrightarrow> e_isDead (enemies (beforeSpawn K c r s) ! i)"
    using advanced_marks [of _ s _ _ K c r] by blast
  show "reach K C s \<longrightarrow> (\<forall>e \<in> set (enemies s). 10 \<le> e_radius e)"
    using enemy_radius_reach [of K C s] by blast
  show "\<forall>e \<in> set (enemies (update K c r s)). \<not> e_isDead e"
    by (rule update_no_dead [OF assms])
  show "swKills (advancedShockwaves s) (enemies s) =
        card {i. i < length (enemies s) \<and> \<not> e_isDead (enemies s ! i)
                 \<and> e_isDead (enemies (beforeSpawn K c r s) ! i)}"
    by (rule swKills_card)
  show "shockwaveIdCounter (update K c r s) =
        shockwaveIdCounter s +
        (if burningEnabled c then swKills (advancedShockwaves s) (enemies s) else 0)"
    by (rule update_shockwaves_playing(1) [OF assms])
  show "shockwaves (update K c r s) =
        filter (\<lambda>sw. sw_life sw > 0)
          (advancedShockwaves s @
           (if burningEnabled c
            then map (newShockwave c (centerX (player s)) (centerY (player s)) 0.8)
                   [shockwaveIdCounter s ..<
                    shockwaveIdCounter s + swKills (advancedShockwaves s) (enemies s)]
            else []))"
    by (rule update_shockwaves_playing(2) [OF assms])
  show "newShockwave c x y 0.8 n =
        \<lparr>sw_x = x, sw_y = y, sw_radius = Some 0, sw_maxRadius = burningRadius c * 0.8,
         sw_life = burningDuration c, sw_maxLife = burningDuration c, sw_id = n\<rparr>"
    by (simp add: newShockwave_def)
  show "\<not> burningEnabled c \<longrightarrow>
          shockwaves (executeJump K c rs mx my s) = shockwaves s
        \<and> shockwaveIdCounter (executeJump K c rs mx my s) = shockwaveIdCounter s
        \<and> shockwaves (resetGame K c s) = []
        \<and> shockwaveIdCounter (resetGame K c s) = shockwaveIdCounter s"
    using executeJump_shockwaves_off [of c K rs mx my s] by (simp add: resetGame_fields)
  show "(\<forall>c' \<in> D. \<not> burningEnabled c') \<and> reach K D t \<longrightarrow> shockwaves t = []"
    using no_burning_no_shockwaves [of D K t] by blast
qed

theorem shockwave_chain_witness:
  "gameState (scJump2 sampleConstants) = PLAYING
   \<and> reach sampleConstants {scenarioConfig sampleConstants} (scJump2 sampleConstants)
   \<and> burningEnabled (scenarioConfig sampleConstants)
   \<and> (1::nat) < length (enemies (scJump2 sampleConstants))
   \<and> (scShockwave sampleConstants)\<lparr>sw_life := 1, sw_radius := Some 80\<rparr>
        \<in> set (advancedShockwaves (scJump2 sampleConstants))
   \<and> distance (e_x (enemies (scJump2 sampleConstants) ! 1) - centerX (player (scJump2 sampleConstants)))
        (e_y (enemies (scJump2 sampleConstants) ! 1) - centerY (player (scJump2 sampleConstants))) < 80
   \<and> 10 \<le> e_radius (enemies (scJump2 sampleConstants) ! 1)
   \<and> \<not> e_isDead (enemies (scJump2 sampleConstants) ! 1)
   \<and> e_isDead (enemies (beforeSpawn sampleConstants (scenarioConfig sampleConstants) drawsNone
                           (scJump2 sampleConstants)) ! 1)
   \<and> swKills (advancedShockwaves (scJump2 sampleConstants)) (enemies (scJump2 sampleConstants)) = 1
   \<and> shockwaveIdCounter (scJump2 sampleConstants) = 1
   \<and> shockwaveIdCounter (update sampleConstants (scenarioConfig sampleConstants) drawsNone
                            (scJump2 sampleConstants)) = 2
   \<and> shockwaves (update sampleConstants (scenarioConfig sampleConstants) drawsNone
                    (scJump2 sampleConstants)) =
        [(scShockwave sampleConstants)\<lparr>sw_life := 1, sw_radius := Some 80\<rparr>,
         \<lparr>sw_x = 200, sw_y = - 27, sw_radius = Some 0, sw_maxRadius = 64,
          sw_life = 2, sw_maxLife = 2, sw_id = 1\<rparr>]
   \<and> \<not> burningEnabled (burningOff sampleConstants)
   \<and> shockwaves (executeJump sampleConstants (burningOff sampleConstants) zeroDraws 200 300
                    (scJump2 sampleConstants)) = shockwaves (scJump2 sampleConstants)
   \<and> reach sampleConstants {burningOff sampleConstants}
        (update sampleConstants (burningOff sampleConstants) drawsNone
           (resetGame sampleConstants (burningOff sampleConstants)
              (initialState sampleConstants (burningOff sampleConstants))))
   \<and> shockwaves (update sampleConstants (burningOff sampleConstants) drawsNone
                    (resetGame sampleConstants (burningOff sampleConstants)
                       (initialState sampleConstants (burningOff sampleConstants)))) = []"
proof -
  let ?K = sampleConstants
  let ?c = "scenarioConfig sampleConstants"
  let ?o = "burningOff sampleConstants"
  let ?s = "scJump2 sampleConstants"
  let ?sw = "(scShockwave sampleConstants)\<lparr>sw_life := 1, sw_radius := Some 80\<rparr>"
  let ?t = "update ?K ?o drawsNone (resetGame ?K ?o (initialState ?K ?o))"
  note sane = sampleConstants_sane
  note sh = scJump2_shape [OF sane]
  have p: "gameState ?s = PLAYING" by (rule sh)
  have rc: "reach ?K {?c} ?s" by (rule scenario_reach [OF sane])
  have on: "burningEnabled ?c" by (simp add: scenarioConfig_fields)
  have off: "\<not> burningEnabled ?o" by (rule burningOff_fields)
  have len: "(1::nat) < length (enemies ?s)" by (simp add: sh)
  have mem: "?sw \<in> set (advancedShockwaves ?s)" by (simp add: scJump2_advanced [OF sane])
  have rad: "sw_radius ?sw = Some 80" by simp
  have e1: "enemies ?s ! 1 = enemyB ?K (- 28) False" by (simp add: sh)
  have dist: "distance (e_x (enemies ?s ! 1) - centerX (player ?s))
                (e_y (enemies ?s ! 1) - centerY (player ?s)) < 80"
    unfolding e1 by (rule scJump2_distance [OF sane])
  have alive: "\<not> e_isDead (enemies ?s ! 1)" unfolding e1 by (simp add: enemyB_def)
  have kills: "swKills (advancedShockwaves ?s) (enemies ?s) = 1" by (rule scJump2_kills [OF sane])
  have r0: "reach ?K {?o} (initialState ?K ?o)" by (rule reach_init) simp
  have r1: "reach ?K {?o} (resetGame ?K ?o (initialState ?K ?o))"
    by (rule reach_interaction [OF r0 _ unit_draws(4) clickMid_reset])
       (simp_all add: initialState_def)
  have rt: "reach ?K {?o} ?t"
    by (rule reach_tick [OF r1 _ unit_draws(3)]) simp
  note th = shockwave_chain [OF p, where K = ?K and C = "{?c}" and r = drawsNone and D = "{?o}"
      and t = ?t and rs = zeroDraws and mx = 200 and my = 300 and x = 200 and y = "- 27" and n = 1]
  note on_tick = th [where c = ?c]
  note off_tick = th [where c = ?o]
  have radius: "10 \<le> e_radius (enemies ?s ! 1)"
    using on_tick rc len by simp
  have marked: "e_isDead (enemies (beforeSpawn ?K ?c drawsNone ?s) ! 1)"
  proof -
    have "\<forall>i < length (enemies ?s). \<forall>sw \<in> set (advancedShockwaves ?s). \<forall>\<rho>.
          sw_radius sw = Some \<rho>
          \<and> distance (e_x (enemies ?s ! i) - centerX (player ?s))
                (e_y (enemies ?s ! i) - centerY (player ?s)) < \<rho>
          \<and> 0 \<le> e_radius (enemies ?s ! i)
          \<longrightarrow> e_isDead (enemies (beforeSpawn ?K ?c drawsNone ?s) ! i)"
      using on_tick by blast
    then show ?thesis using len mem rad dist radius by force
  qed
  have counter: "shockwaveIdCounter (update ?K ?c drawsNone ?s) = 2"
  proof -
    have "shockwaveIdCounter (update ?K ?c drawsNone ?s) =
        shockwaveIdCounter ?s +
        (if burningEnabled ?c then swKills (advancedShockwaves ?s) (enemies ?s) else 0)"
      using on_tick by blast
    then show ?thesis unfolding kills sh(8) by (simp add: on)
  qed
  have sws: "shockwaves (update ?K ?c drawsNone ?s) =
        [?sw, \<lparr>sw_x = 200, sw_y = - 27, sw_radius = Some 0, sw_maxRadius = 64,
               sw_life = 2, sw_maxLife = 2, sw_id = 1\<rparr>]"
  proof -
    have a: "shockwaves (update ?K ?c drawsNone ?s) =
        filter (\<lambda>sw. sw_life sw > 0)
          (advancedShockwaves ?s @
           (if burningEnabled ?c
            then map (newShockwave ?c (centerX (player ?s)) (centerY (player ?s)) 0.8)
                   [shockwaveIdCounter ?s ..<
                    shockwaveIdCounter ?s + swKills (advancedShockwaves ?s) (enemies ?s)]
            else []))"
      using on_tick by blast
    have cen: "centerX (player ?s) = 200" "centerY (player ?s) = - 27"
      by (simp_all add: sh scPlayer_center sampleConstants_fields)
    show ?thesis
      unfolding a cen kills sh(8)
      by (simp add: on scJump2_advanced [OF sane] newShockwave_def scenarioConfig_fields)
  qed
  have jump: "shockwaves (executeJump ?K ?o zeroDraws 200 300 ?s) = shockwaves ?s"
    using off_tick off by blast
  have none: "shockwaves ?t = []"
    using off_tick off rt by blast
  show ?thesis
    using p rc on len mem dist radius alive marked kills sh(8) counter sws off jump rt none
    by (intro conjI)
qed

text \<open>
  Claim C7 as stated fails in two ways. In the session of the scenario in which the
  configuration changes to one with \<open>burningEnabled\<close> false before the last tick, that tick
  starts in \<open>PLAYING\<close> with one live shockwave whose radius, computed in the tick, is \<open>80\<close>,
  and with the live enemy B at a distance less than \<open>80\<close>: the tick marks B dead, so a
  shockwave eliminates an enemy while \<open>burningEnabled\<close> is false, and no new shockwave is
  created. And if the last tick of the scenario spawns a third enemy, it ends in \<open>GAMEOVER\<close>
  with a shockwave of life \<open>1\<close> and radius \<open>80\<close> and that enemy alive at a distance less than
  \<open>80\<close>: the next tick leaves the enemy alive and the shockwaves as they are.
\<close>

theorem shockwave_chain_counterexample:
  "reach sampleConstants {scenarioConfig sampleConstants, burningOff sampleConstants}
     (scJump2 sampleConstants)
   \<and> unitDraws drawsNone
   \<and> gameState (scJump2 sampleConstants) = PLAYING
   \<and> \<not> burningEnabled (burningOff sampleConstants)
   \<and> shockwaves (scJump2 sampleConstants) = [scShockwave sampleConstants]
   \<and> 0 < sw_life (scShockwave sampleConstants)
   \<and> advancedShockwaves (scJump2 sampleConstants) =
        [(scShockwave sampleConstants)\<lparr>sw_life := 1, sw_radius := Some 80\<rparr>]
   \<and> enemies (scJump2 sampleConstants) ! 1 = enemyB sampleConstants (- 28) False
   \<and> distance
        (e_x (enemyB sampleConstants (- 28) False) - centerX (player (scJump2 sampleConstants)))
        (e_y (enemyB sampleConstants (- 28) False) - centerY (player (scJump2 sampleConstants)))
      < 80
   \<and> enemies (beforeSpawn sampleConstants (burningOff sampleConstants) drawsNone
                 (scJump2 sampleConstants)) ! 1 = enemyB sampleConstants (- 28) True
   \<and> shockwaveIdCounter (update sampleConstants (burningOff sampleConstants) drawsNone
                            (scJump2 sampleConstants)) =
        shockwaveIdCounter (scJump2 sampleConstants)
   \<and> shockwaves (update sampleConstants (burningOff sampleConstants) drawsNone
                    (scJump2 sampleConstants)) =
        [(scShockwave sampleConstants)\<lparr>sw_life := 1, sw_radius := Some 80\<rparr>]
   \<and> reach sampleConstants {scenarioConfig sampleConstants} (scOver sampleConstants)
   \<and> gameState (scOver sampleConstants) = GAMEOVER
   \<and> shockwaves (scOver sampleConstants) ! 0 =
        (scShockwave sampleConstants)\<lparr>sw_life := 1, sw_radius := Some 80\<rparr>
   \<and> enemies (scOver sampleConstants) = [enemyC sampleConstants (- 28) False]
   \<and> distance
        (e_x (enemyC sampleConstants (- 28) False)
           - sw_x ((scShockwave sampleConstants)\<lparr>sw_life := 1, sw_radius := Some 80\<rparr>))
        (e_y (enemyC sampleConstants (- 28) False)
           - sw_y ((scShockwave sampleConstants)\<lparr>sw_life := 1, sw_radius := Some 80\<rparr>))
      < 80
   \<and> enemies (update sampleConstants (scenarioConfig sampleConstants) drawsNone
                 (scOver sampleConstants)) = [enemyC sampleConstants (- 28) False]
   \<and> shockwaves (update sampleConstants (scenarioConfig sampleConstants) drawsNone
                    (scOver sampleConstants)) = shockwaves (scOver sampleConstants)"
proof -
  note sane = sampleConstants_sane
  note sh = scJump2_shape [OF sane]
  have life: "0 < sw_life (scShockwave sampleConstants)"
    by (simp add: scShockwave_def)
  have e1: "enemies (scJump2 sampleConstants) ! 1 = enemyB sampleConstants (- 28) False"
    by (simp add: sh)
  have m1: "enemies (beforeSpawn sampleConstants (burningOff sampleConstants) drawsNone
                 (scJump2 sampleConstants)) ! 1 = enemyB sampleConstants (- 28) True"
    by (simp add: scJump2_marked [OF sane])
  have s0: "shockwaves (scOver sampleConstants) ! 0 =
        (scShockwave sampleConstants)\<lparr>sw_life := 1, sw_radius := Some 80\<rparr>"
    by (simp add: scOver_shape(3) [OF sane])
  show ?thesis
    using scJump2_reach_off [OF sane] unit_draws(3) sh(1) burningOff_fields sh(4) life
      scJump2_advanced [OF sane] e1 scJump2_distance [OF sane] m1 scJump2_off_tick [OF sane]
      scOver_shape(4,1) [OF sane] s0 scOver_shape(2) [OF sane] scOver_frozen(3,1,2) [OF sane]
    by (intro conjI)
qed

(*LEMMAS-END*)

end
